theory Spec2Isabelle
  imports Main
begin

text \<open>
  A shallow embedding of \<open>main.py\<close>, the Docker Management CLI: the executor
  (\<open>DockerManager\<close>), the operations on images, containers and the system, and the
  menu loops of \<open>DockerCLI\<close>.  The terminal and the engine are explicit: a state
  holds the lines the operator is still to type, what the program has written, and
  every invocation of \<open>subprocess.run\<close>; the engine's answers are a parameter.
  Exceptions are values: a function returns \<open>Raised e s\<close> or \<open>Returned r s\<close>.
\<close>

section \<open>Text\<close>

text \<open>
  A Python \<open>str\<close> is a sequence of Unicode code points; the messages of
  \<open>main.py\<close> use code points far above the Latin-1 range, so a string is a list
  of natural numbers here.  \<open>lit\<close> turns an ASCII literal into such a list.
\<close>

type_synonym pystr = "nat list"

definition lit :: "string \<Rightarrow> pystr" where
  "lit cs = map of_char cs"

text \<open>
  The code points that \<open>str.strip()\<close> without argument removes: those for which
  \<open>str.isspace\<close> holds.
\<close>

definition isspace :: "nat \<Rightarrow> bool" where
  "isspace c \<longleftrightarrow>
     c \<in> set [9, 10, 11, 12, 13, 28, 29, 30, 31, 32, 133, 160, 5760,
              8232, 8233, 8239, 8287, 12288]
     \<or> (8192 \<le> c \<and> c \<le> 8202)"

definition strip :: "pystr \<Rightarrow> pystr" where
  "strip t = rev (dropWhile isspace (rev (dropWhile isspace t)))"

text \<open>
  \<open>str.lower()\<close> on the ASCII letters.  Python lowers every cased code point;
  the program only ever compares the lowered answer with \<open>'s'\<close>, and the one
  code point other than \<open>s\<close> itself that Unicode lowers to \<open>s\<close> is \<open>S\<close>,
  so the comparison is decided the same way.
\<close>

definition lower_cp :: "nat \<Rightarrow> nat" where
  "lower_cp c = (if 65 \<le> c \<and> c \<le> 90 then c + 32 else c)"

definition lower :: "pystr \<Rightarrow> pystr" where
  "lower t = map lower_cp t"

section \<open>Terminal, engine and exceptions\<close>

text \<open>
  What the operator types: a line (as \<open>input()\<close> returns it, without the newline)
  or an interrupt (Ctrl-C).  When the list is exhausted the standard input is at its
  end and \<open>input()\<close> raises \<open>EOFError\<close>.
\<close>

datatype key = Line pystr | Interrupt

text \<open>
  What the program writes itself: one \<open>Print\<close> for each call of \<open>print\<close>
  and one \<open>Prompt\<close> for the prompt of each call of \<open>input\<close>.
\<close>

datatype event = Print pystr | Prompt pystr

datatype mode = Captured | Interactive

type_synonym call = "mode \<times> pystr list"

text \<open>
  What \<open>subprocess.run\<close> meets when it spawns a token list: no such program
  (\<open>FileNotFoundError\<close>, with the text of the error), another failure of the
  operating system (\<open>OSError\<close>), or a child that ran and left an exit status and
  the bytes it wrote to its standard output and to its standard error.
\<close>

type_synonym bytes = "nat list"

datatype proc_result =
    NoSuchBinary pystr
  | SpawnFailure pystr
  | Exit int bytes bytes

text \<open>
  What \<open>bytes.decode\<close> makes of bytes in the encoding of the locale, errors being
  strict: the text, or a \<open>UnicodeDecodeError\<close> with its message.
\<close>

datatype decoded = Undecodable pystr | Text pystr

text \<open>
  The environment is a parameter: what a spawn meets may depend on every earlier
  invocation; so may the files that exist.  The codec of the locale is a parameter
  too.
\<close>

record world =
  spawn :: "call list \<Rightarrow> call \<Rightarrow> proc_result"
  path_exists :: "call list \<Rightarrow> pystr \<Rightarrow> bool"
  decode :: "bytes \<Rightarrow> decoded"

record state =
  inputs :: "key list"
  out :: "event list"
  calls :: "call list"

text \<open>
  The exceptions that cross a function boundary of the program.
  \<open>subprocess.CalledProcessError\<close> is caught at each call of
  \<open>subprocess.run\<close> and is a value of \<open>run_result\<close> below.
\<close>

datatype exn =
    FileNotFoundError pystr
  | OSError pystr
  | UnicodeDecodeError pystr
  | IndexError
  | EOFError
  | KeyboardInterrupt
  | SystemExit

datatype 'a outcome = Raised exn state | Returned 'a state

fun final :: "'a outcome \<Rightarrow> state" where
  "final (Raised e s) = s"
| "final (Returned r s) = s"

definition print :: "pystr \<Rightarrow> state \<Rightarrow> state" where
  "print t s = s\<lparr>out := out s @ [Print t]\<rparr>"

definition input :: "pystr \<Rightarrow> state \<Rightarrow> pystr outcome" where
  "input prompt s =
     (let s' = s\<lparr>out := out s @ [Prompt prompt]\<rparr> in
      case inputs s of
        [] \<Rightarrow> Raised EOFError s'
      | Line t # rest \<Rightarrow> Returned t (s'\<lparr>inputs := rest\<rparr>)
      | Interrupt # rest \<Rightarrow> Raised KeyboardInterrupt (s'\<lparr>inputs := rest\<rparr>))"

text \<open>
  \<open>Popen._translate_newlines\<close> after the decoding, in text mode:
  \<open>data.replace("\r\n", "\n").replace("\r", "\n")\<close>.
\<close>

fun replace_crlf :: "pystr \<Rightarrow> pystr" where
  "replace_crlf [] = []"
| "replace_crlf [c] = [c]"
| "replace_crlf (c # d # t) =
     (if c = 13 \<and> d = 10 then 10 # replace_crlf t else c # replace_crlf (d # t))"

definition replace_cr :: "pystr \<Rightarrow> pystr" where
  "replace_cr t = map (\<lambda>c. if c = 13 then 10 else c) t"

definition translate_newlines :: "pystr \<Rightarrow> pystr" where
  "translate_newlines t = replace_cr (replace_crlf t)"

text \<open>
  \<open>subprocess.run(command, check=True)\<close>, with or without
  \<open>capture_output=True, text=True\<close>.  Every invocation is recorded in
  \<open>calls\<close>.  On POSIX an empty token list raises \<open>IndexError\<close> before anything
  is spawned.  With capture, \<open>communicate\<close> decodes the standard output, then the
  standard error, each followed by the translation of its newlines, and only then is
  the exit status checked; a \<open>UnicodeDecodeError\<close> is raised as it is.  In
  interactive mode the streams of the child are the terminal's and the result holds
  no text; the program never reads it there.  What a child itself writes to or reads
  from the terminal is not part of the state, and an interrupt while a child runs is
  outside the model.
\<close>

datatype run_result =
    CalledProcessError int pystr pystr
  | CompletedProcess int pystr pystr

definition check_returncode :: "int \<Rightarrow> pystr \<Rightarrow> pystr \<Rightarrow> run_result" where
  "check_returncode rc so se =
     (if rc \<noteq> 0 then CalledProcessError rc so se else CompletedProcess rc so se)"

definition subprocess_run :: "world \<Rightarrow> mode \<Rightarrow> pystr list \<Rightarrow> state \<Rightarrow> run_result outcome" where
  "subprocess_run w m command s =
     (let s' = s\<lparr>calls := calls s @ [(m, command)]\<rparr> in
      if command = [] then Raised IndexError s'
      else case spawn w (calls s) (m, command) of
        NoSuchBinary msg \<Rightarrow> Raised (FileNotFoundError msg) s'
      | SpawnFailure msg \<Rightarrow> Raised (OSError msg) s'
      | Exit rc so se \<Rightarrow>
          (case m of
             Interactive \<Rightarrow> Returned (check_returncode rc [] []) s'
           | Captured \<Rightarrow>
               (case decode w so of
                  Undecodable msg \<Rightarrow> Raised (UnicodeDecodeError msg) s'
                | Text stdout \<Rightarrow>
                    (case decode w se of
                       Undecodable msg \<Rightarrow> Raised (UnicodeDecodeError msg) s'
                     | Text stderr \<Rightarrow>
                         Returned (check_returncode rc (translate_newlines stdout)
                                     (translate_newlines stderr)) s'))))"

section \<open>DockerManager\<close>

definition run_command :: "world \<Rightarrow> pystr list \<Rightarrow> state \<Rightarrow> pystr option outcome" where
  "run_command w command s =
     (case subprocess_run w Captured command s of
        Raised e s' \<Rightarrow> Raised e s'
      | Returned (CompletedProcess rc so se) s' \<Rightarrow> Returned (Some (strip so)) s'
      | Returned (CalledProcessError rc so se) s' \<Rightarrow>
          Returned None (print ([10060] @ lit '' Error ejecutando comando: '' @ strip se) s'))"

definition run_command_interactive :: "world \<Rightarrow> pystr list \<Rightarrow> state \<Rightarrow> bool outcome" where
  "run_command_interactive w command s =
     (case subprocess_run w Interactive command s of
        Raised e s' \<Rightarrow> Raised e s'
      | Returned (CompletedProcess rc so se) s' \<Rightarrow> Returned (rc = 0) s'
      | Returned (CalledProcessError rc so se) s' \<Rightarrow> Returned False s')"

definition check_docker_installed :: "world \<Rightarrow> state \<Rightarrow> unit outcome" where
  "check_docker_installed w s =
     (case subprocess_run w Captured [lit ''docker'', lit ''--version''] s of
        Returned (CompletedProcess rc so se) s' \<Rightarrow>
          Returned () (print ([9989] @ lit '' Docker detectado: '' @ strip so) s')
      | Returned (CalledProcessError rc so se) s' \<Rightarrow>
          Raised SystemExit
            (print ([10060] @ lit '' Docker no est'' @ [225] @ lit '' instalado o no est''
                    @ [225] @ lit '' en el PATH'') s')
      | Raised (FileNotFoundError msg) s' \<Rightarrow>
          Raised SystemExit
            (print ([10060] @ lit '' Docker no est'' @ [225] @ lit '' instalado o no est''
                    @ [225] @ lit '' en el PATH'') s')
      | Raised e s' \<Rightarrow> Raised e s')"

text \<open>The truth value Python gives an \<open>Optional[str]\<close>: \<open>None\<close> and \<open>''\<close> are false.\<close>

definition truthy :: "pystr option \<Rightarrow> bool" where
  "truthy r = (case r of None \<Rightarrow> False | Some t \<Rightarrow> t \<noteq> [])"

text \<open>Sequencing: the second step runs unless the first raised.\<close>

definition bind :: "'a outcome \<Rightarrow> ('a \<Rightarrow> state \<Rightarrow> 'b outcome) \<Rightarrow> 'b outcome" where
  "bind m f = (case m of Raised e s \<Rightarrow> Raised e s | Returned r s \<Rightarrow> f r s)"

text \<open>Consecutive calls of \<open>print\<close>.\<close>

definition prints :: "pystr list \<Rightarrow> state \<Rightarrow> state" where
  "prints ts s = foldl (\<lambda>s' t. print t s') s ts"

text \<open>\<open>'-' * n\<close> and the like.\<close>

definition str_mul :: "pystr \<Rightarrow> nat \<Rightarrow> pystr" where
  "str_mul t n = concat (replicate n t)"

section \<open>ImageManager\<close>

definition list_images :: "world \<Rightarrow> state \<Rightarrow> unit outcome" where
  "list_images w s =
     (let s1 = print ([10, 128230] @ lit '' IM'' @ [193] @ lit ''GENES DOCKER DISPONIBLES:'') s;
          s2 = print (str_mul (lit ''-'') 80) s1
      in bind (run_command w
                 [lit ''docker'', lit ''images'', lit ''--format'',
                  lit ''table {{.Repository}}'' @ [9] @ lit ''{{.Tag}}'' @ [9] @ lit ''{{.ID}}''
                    @ [9] @ lit ''{{.Size}}'' @ [9] @ lit ''{{.CreatedSince}}''] s2)
           (\<lambda>result s3.
              case result of
                Some t \<Rightarrow>
                  if t \<noteq> [] then Returned () (print t s3)
                  else Returned ()
                         (print (lit ''No se pudieron listar las im'' @ [225] @ lit ''genes'') s3)
              | None \<Rightarrow>
                  Returned ()
                    (print (lit ''No se pudieron listar las im'' @ [225] @ lit ''genes'') s3)))"

definition pull_image :: "world \<Rightarrow> state \<Rightarrow> unit outcome" where
  "pull_image w s =
     (let s1 = print ([10, 11015, 65039] @ lit '' DESCARGAR IMAGEN'') s
      in bind (input (lit ''Ingresa el nombre de la imagen (ej: nginx:latest): '') s1)
           (\<lambda>raw s2.
              let image_name = strip raw in
              if image_name = [] then
                Returned ()
                  (print ([10060] @ lit '' Nombre de imagen no puede estar vac'' @ [237] @ lit ''o'') s2)
              else
                let s3 = print (lit ''Descargando imagen: '' @ image_name @ lit ''...'') s2
                in bind (run_command_interactive w [lit ''docker'', lit ''pull'', image_name] s3)
                     (\<lambda>ok s4.
                        if ok then
                          Returned ()
                            (print ([9989] @ lit '' Imagen '' @ image_name
                                    @ lit '' descargada exitosamente'') s4)
                        else
                          Returned ()
                            (print ([10060] @ lit '' Error al descargar la imagen '' @ image_name) s4))))"

definition remove_image :: "world \<Rightarrow> state \<Rightarrow> unit outcome" where
  "remove_image w s =
     bind (list_images w s)
       (\<lambda>_ s1.
          let s2 = print ([10, 128465, 65039] @ lit '' ELIMINAR IMAGEN'') s1
          in bind (input (lit ''Ingresa el ID o nombre de la imagen a eliminar: '') s2)
               (\<lambda>raw s3.
                  let image_id = strip raw in
                  if image_id = [] then
                    Returned ()
                      (print ([10060] @ lit '' ID de imagen no puede estar vac'' @ [237] @ lit ''o'') s3)
                  else
                    bind (input ([191] @ lit ''Est'' @ [225] @ lit ''s seguro de eliminar la imagen ''
                                 @ image_id @ lit ''? (s/N): '') s3)
                      (\<lambda>answer s4.
                         let confirm = lower (strip answer) in
                         if confirm = lit ''s'' then
                           bind (run_command w [lit ''docker'', lit ''rmi'', image_id] s4)
                             (\<lambda>result s5.
                                if truthy result then
                                  Returned ()
                                    (print ([9989] @ lit '' Imagen '' @ image_id
                                            @ lit '' eliminada exitosamente'') s5)
                                else
                                  Returned ()
                                    (print ([10060] @ lit '' Error al eliminar la imagen ''
                                            @ image_id) s5))
                         else Returned () s4)))"

definition build_image :: "world \<Rightarrow> state \<Rightarrow> unit outcome" where
  "build_image w s =
     (let s1 = print ([10, 128296] @ lit '' CONSTRUIR IMAGEN'') s
      in bind (input (lit ''Ruta del directorio con Dockerfile (. para actual): '') s1)
           (\<lambda>raw_path s2.
              let dockerfile_path = (if strip raw_path \<noteq> [] then strip raw_path else lit ''.'')
              in bind (input (lit ''Nombre para la nueva imagen: '') s2)
                   (\<lambda>raw s3.
                      let image_name = strip raw in
                      if image_name = [] then
                        Returned ()
                          (print ([10060] @ lit '' Nombre de imagen no puede estar vac''
                                  @ [237] @ lit ''o'') s3)
                      else if \<not> path_exists w (calls s3) (dockerfile_path @ lit ''/Dockerfile'') then
                        Returned ()
                          (print ([10060] @ lit '' No se encontr'' @ [243] @ lit '' Dockerfile en ''
                                  @ dockerfile_path) s3)
                      else
                        let s4 = print (lit ''Construyendo imagen '' @ image_name @ lit ''...'') s3
                        in bind (run_command_interactive w
                                   [lit ''docker'', lit ''build'', lit ''-t'', image_name,
                                    dockerfile_path] s4)
                             (\<lambda>ok s5.
                                if ok then
                                  Returned ()
                                    (print ([9989] @ lit '' Imagen '' @ image_name
                                            @ lit '' construida exitosamente'') s5)
                                else
                                  Returned ()
                                    (print ([10060] @ lit '' Error al construir la imagen ''
                                            @ image_name) s5)))))"

section \<open>ContainerManager\<close>

definition list_containers :: "world \<Rightarrow> bool \<Rightarrow> state \<Rightarrow> unit outcome" where
  "list_containers w all_containers s =
     (let status = (if all_containers then lit ''TODOS LOS CONTENEDORES''
                    else lit ''CONTENEDORES ACTIVOS'');
          s1 = print ([10, 128051] @ lit '' '' @ status @ lit '':'') s;
          s2 = print (str_mul (lit ''-'') 100) s1;
          cmd = [lit ''docker'', lit ''ps'', lit ''--format'',
                 lit ''table {{.ID}}'' @ [9] @ lit ''{{.Names}}'' @ [9] @ lit ''{{.Image}}''
                   @ [9] @ lit ''{{.Status}}'' @ [9] @ lit ''{{.Ports}}''];
          cmd = (if all_containers then take 2 cmd @ [lit ''-a''] @ drop 2 cmd else cmd)
      in bind (run_command w cmd s2)
           (\<lambda>result s3.
              case result of
                Some t \<Rightarrow>
                  if t \<noteq> [] then Returned () (print t s3)
                  else Returned () (print (lit ''No se pudieron listar los contenedores'') s3)
              | None \<Rightarrow> Returned () (print (lit ''No se pudieron listar los contenedores'') s3)))"

text \<open>The token list that \<open>run_container\<close> builds from its three answers.\<close>

definition run_container_cmd :: "pystr \<Rightarrow> pystr \<Rightarrow> pystr \<Rightarrow> pystr list" where
  "run_container_cmd image_name container_name port_mapping =
     (let cmd = [lit ''docker'', lit ''run'', lit ''-d''];
          cmd = (if container_name \<noteq> [] then cmd @ [lit ''--name'', container_name] else cmd);
          cmd = (if port_mapping \<noteq> [] then cmd @ [lit ''-p'', port_mapping] else cmd)
      in cmd @ [image_name])"

definition run_container :: "world \<Rightarrow> state \<Rightarrow> unit outcome" where
  "run_container w s =
     (let s1 = print ([10, 128640] @ lit '' EJECUTAR CONTENEDOR'') s
      in bind (input (lit ''Nombre de la imagen: '') s1)
           (\<lambda>raw_image s2.
              bind (input (lit ''Nombre del contenedor (opcional): '') s2)
                (\<lambda>raw_name s3.
                   bind (input (lit ''Mapeo de puertos (ej: 8080:80, opcional): '') s3)
                     (\<lambda>raw_port s4.
                        let image_name = strip raw_image;
                            container_name = strip raw_name;
                            port_mapping = strip raw_port
                        in if image_name = [] then
                             Returned ()
                               (print ([10060] @ lit '' Nombre de imagen no puede estar vac''
                                       @ [237] @ lit ''o'') s4)
                           else
                             bind (run_command w
                                     (run_container_cmd image_name container_name port_mapping) s4)
                               (\<lambda>result s5.
                                  case result of
                                    Some t \<Rightarrow>
                                      if t \<noteq> [] then
                                        Returned ()
                                          (print ([9989] @ lit '' Contenedor iniciado con ID: ''
                                                  @ take 12 t) s5)
                                      else
                                        Returned ()
                                          (print ([10060] @ lit '' Error al iniciar el contenedor'') s5)
                                  | None \<Rightarrow>
                                      Returned ()
                                        (print ([10060] @ lit '' Error al iniciar el contenedor'')
                                           s5))))))"

definition stop_container :: "world \<Rightarrow> state \<Rightarrow> unit outcome" where
  "stop_container w s =
     bind (list_containers w True s)
       (\<lambda>_ s1.
          let s2 = print ([10, 9209, 65039] @ lit '' DETENER CONTENEDOR'') s1
          in bind (input (lit ''ID o nombre del contenedor a detener: '') s2)
               (\<lambda>raw s3.
                  let container_id = strip raw in
                  if container_id = [] then
                    Returned () (print ([10060] @ lit '' ID de contenedor no puede estar vac'' @ [237] @ lit ''o'') s3)
                  else
                    bind (run_command w [lit ''docker'', lit ''stop'', container_id] s3)
                      (\<lambda>result s4.
                         if truthy result then
                           Returned ()
                             (print ([9989] @ lit '' Contenedor '' @ container_id @ lit '' detenido'') s4)
                         else
                           Returned ()
                             (print ([10060] @ lit '' Error al detener el contenedor '' @ container_id) s4))))"

definition start_container :: "world \<Rightarrow> state \<Rightarrow> unit outcome" where
  "start_container w s =
     bind (list_containers w True s)
       (\<lambda>_ s1.
          let s2 = print ([10, 9654, 65039] @ lit '' INICIAR CONTENEDOR'') s1
          in bind (input (lit ''ID o nombre del contenedor a iniciar: '') s2)
               (\<lambda>raw s3.
                  let container_id = strip raw in
                  if container_id = [] then
                    Returned () (print ([10060] @ lit '' ID de contenedor no puede estar vac'' @ [237] @ lit ''o'') s3)
                  else
                    bind (run_command w [lit ''docker'', lit ''start'', container_id] s3)
                      (\<lambda>result s4.
                         if truthy result then
                           Returned ()
                             (print ([9989] @ lit '' Contenedor '' @ container_id @ lit '' iniciado'') s4)
                         else
                           Returned ()
                             (print ([10060] @ lit '' Error al iniciar el contenedor '' @ container_id) s4))))"

definition restart_container :: "world \<Rightarrow> state \<Rightarrow> unit outcome" where
  "restart_container w s =
     bind (list_containers w True s)
       (\<lambda>_ s1.
          let s2 = print ([10, 128260] @ lit '' REINICIAR CONTENEDOR'') s1
          in bind (input (lit ''ID o nombre del contenedor a reiniciar: '') s2)
               (\<lambda>raw s3.
                  let container_id = strip raw in
                  if container_id = [] then
                    Returned () (print ([10060] @ lit '' ID de contenedor no puede estar vac'' @ [237] @ lit ''o'') s3)
                  else
                    bind (run_command w [lit ''docker'', lit ''restart'', container_id] s3)
                      (\<lambda>result s4.
                         if truthy result then
                           Returned ()
                             (print ([9989] @ lit '' Contenedor '' @ container_id @ lit '' reiniciado'') s4)
                         else
                           Returned ()
                             (print ([10060] @ lit '' Error al reiniciar el contenedor '' @ container_id) s4))))"

definition remove_container :: "world \<Rightarrow> state \<Rightarrow> unit outcome" where
  "remove_container w s =
     bind (list_containers w True s)
       (\<lambda>_ s1.
          let s2 = print ([10, 128465, 65039] @ lit '' ELIMINAR CONTENEDOR'') s1
          in bind (input (lit ''ID o nombre del contenedor a eliminar: '') s2)
               (\<lambda>raw s3.
                  let container_id = strip raw in
                  if container_id = [] then
                    Returned () (print ([10060] @ lit '' ID de contenedor no puede estar vac'' @ [237] @ lit ''o'') s3)
                  else
                    bind (input ([191] @ lit ''Est'' @ [225]
                                 @ lit ''s seguro de eliminar el contenedor '' @ container_id
                                 @ lit ''? (s/N): '') s3)
                      (\<lambda>answer s4.
                         let confirm = lower (strip answer) in
                         if confirm = lit ''s'' then
                           bind (run_command w
                                   [lit ''docker'', lit ''rm'', lit ''-f'', container_id] s4)
                             (\<lambda>result s5.
                                if truthy result then
                                  Returned ()
                                    (print ([9989] @ lit '' Contenedor '' @ container_id
                                            @ lit '' eliminado'') s5)
                                else
                                  Returned ()
                                    (print ([10060] @ lit '' Error al eliminar el contenedor ''
                                            @ container_id) s5))
                         else Returned () s4)))"

definition view_logs :: "world \<Rightarrow> state \<Rightarrow> unit outcome" where
  "view_logs w s =
     bind (list_containers w True s)
       (\<lambda>_ s1.
          let s2 = print ([10, 128203] @ lit '' VER LOGS'') s1
          in bind (input (lit ''ID o nombre del contenedor: '') s2)
               (\<lambda>raw s3.
                  let container_id = strip raw in
                  if container_id = [] then
                    Returned () (print ([10060] @ lit '' ID de contenedor no puede estar vac'' @ [237] @ lit ''o'') s3)
                  else
                    let s4 = print ([10, 128203] @ lit '' Logs del contenedor '' @ container_id
                                    @ lit '':'') s3;
                        s5 = print (str_mul (lit ''-'') 60) s4
                    in bind (run_command_interactive w
                               [lit ''docker'', lit ''logs'', lit ''--tail'', lit ''50'',
                                container_id] s5)
                         (\<lambda>_ s6. Returned () s6)))"

definition exec_container :: "world \<Rightarrow> state \<Rightarrow> unit outcome" where
  "exec_container w s =
     bind (list_containers w False s)
       (\<lambda>_ s1.
          let s2 = print ([10, 128187] @ lit '' EJECUTAR COMANDO EN CONTENEDOR'') s1
          in bind (input (lit ''ID o nombre del contenedor: '') s2)
               (\<lambda>raw s3.
                  let container_id = strip raw in
                  if container_id = [] then
                    Returned () (print ([10060] @ lit '' ID de contenedor no puede estar vac'' @ [237] @ lit ''o'') s3)
                  else
                    let s4 = print (lit ''Iniciando shell interactivo en el contenedor...'') s3
                    in bind (run_command_interactive w
                               [lit ''docker'', lit ''exec'', lit ''-it'', container_id,
                                lit ''/bin/bash''] s4)
                         (\<lambda>_ s5. Returned () s5)))"

section \<open>SystemManager\<close>

definition system_info :: "world \<Rightarrow> state \<Rightarrow> unit outcome" where
  "system_info w s =
     (let s1 = print ([10, 128295] @ lit '' INFORMACI'' @ [211] @ lit ''N DEL SISTEMA DOCKER:'') s;
          s2 = print (str_mul (lit ''-'') 50) s1
      in bind (run_command_interactive w [lit ''docker'', lit ''system'', lit ''info''] s2)
           (\<lambda>_ s3. Returned () s3))"

definition system_cleanup :: "world \<Rightarrow> state \<Rightarrow> unit outcome" where
  "system_cleanup w s =
     (let s1 = prints [[10, 129529] @ lit '' LIMPIEZA DEL SISTEMA'',
                       lit ''Esto eliminar'' @ [225] @ lit '':'',
                       lit ''- Contenedores detenidos'',
                       lit ''- Redes no utilizadas'',
                       lit ''- Im'' @ [225] @ lit ''genes sin referencia'',
                       lit ''- Cach'' @ [233] @ lit '' de construcci'' @ [243] @ lit ''n''] s
      in bind (input ([10, 191] @ lit ''Continuar con la limpieza? (s/N): '') s1)
           (\<lambda>answer s2.
              let confirm = lower (strip answer) in
              if confirm = lit ''s'' then
                bind (run_command_interactive w
                        [lit ''docker'', lit ''system'', lit ''prune'', lit ''-a'', lit ''-f''] s2)
                  (\<lambda>ok s3.
                     if ok then Returned () (print ([9989] @ lit '' Limpieza completada'') s3)
                     else Returned () (print ([10060] @ lit '' Error durante la limpieza'') s3))
              else Returned () s2))"

definition disk_usage :: "world \<Rightarrow> state \<Rightarrow> unit outcome" where
  "disk_usage w s =
     (let s1 = print ([10, 128190] @ lit '' USO DE DISCO DOCKER:'') s;
          s2 = print (str_mul (lit ''-'') 40) s1
      in bind (run_command_interactive w [lit ''docker'', lit ''system'', lit ''df''] s2)
           (\<lambda>_ s3. Returned () s3))"

section \<open>DockerCLI\<close>

definition show_header :: "state \<Rightarrow> state" where
  "show_header s =
     prints [str_mul (lit ''='') 60,
             [128051] @ lit '' DOCKER MANAGEMENT CLI'',
             str_mul (lit ''='') 60] s"

definition show_main_menu :: "state \<Rightarrow> state" where
  "show_main_menu s =
     prints [[10, 128203] @ lit '' MEN'' @ [218] @ lit '' PRINCIPAL:'',
             lit ''1. '' @ [128230] @ lit '' Gesti'' @ [243] @ lit ''n de Im'' @ [225] @ lit ''genes'',
             lit ''2. '' @ [128051] @ lit '' Gesti'' @ [243] @ lit ''n de Contenedores'',
             lit ''3. '' @ [128295] @ lit '' Informaci'' @ [243] @ lit ''n del Sistema'',
             lit ''4. '' @ [128682] @ lit '' Salir'',
             str_mul (lit ''-'') 30] s"

definition show_image_menu :: "state \<Rightarrow> state" where
  "show_image_menu s =
     prints [[10, 128230] @ lit '' GESTI'' @ [211] @ lit ''N DE IM'' @ [193] @ lit ''GENES:'',
             lit ''1. '' @ [128203] @ lit '' Listar todas las im'' @ [225] @ lit ''genes'',
             lit ''2. '' @ [11015, 65039] @ lit '' Descargar imagen'',
             lit ''3. '' @ [128296] @ lit '' Construir imagen'',
             lit ''4. '' @ [128465, 65039] @ lit '' Eliminar imagen'',
             lit ''5. '' @ [11013, 65039] @ lit '' Volver al men'' @ [250] @ lit '' principal'',
             str_mul (lit ''-'') 35] s"

definition show_container_menu :: "state \<Rightarrow> state" where
  "show_container_menu s =
     prints [[10, 128051] @ lit '' GESTI'' @ [211] @ lit ''N DE CONTENEDORES:'',
             lit ''1. '' @ [128203] @ lit '' Listar contenedores activos'',
             lit ''2. '' @ [128203] @ lit '' Listar todos los contenedores'',
             lit ''3. '' @ [128640] @ lit '' Ejecutar nuevo contenedor'',
             lit ''4. '' @ [9654, 65039] @ lit '' Iniciar contenedor'',
             lit ''5. '' @ [9209, 65039] @ lit '' Detener contenedor'',
             lit ''6. '' @ [128260] @ lit '' Reiniciar contenedor'',
             lit ''7. '' @ [128465, 65039] @ lit '' Eliminar contenedor'',
             lit ''8. '' @ [128196] @ lit '' Ver logs de contenedor'',
             lit ''9. '' @ [128187] @ lit '' Ejecutar comando en contenedor'',
             lit ''10. '' @ [11013, 65039] @ lit '' Volver al men'' @ [250] @ lit '' principal'',
             str_mul (lit ''-'') 40] s"

definition show_system_menu :: "state \<Rightarrow> state" where
  "show_system_menu s =
     prints [[10, 128295] @ lit '' INFORMACI'' @ [211] @ lit ''N DEL SISTEMA:'',
             lit ''1. '' @ [128202] @ lit '' Informaci'' @ [243] @ lit ''n del sistema Docker'',
             lit ''2. '' @ [128190] @ lit '' Uso de disco'',
             lit ''3. '' @ [129529] @ lit '' Limpiar sistema'',
             lit ''4. '' @ [11013, 65039] @ lit '' Volver al men'' @ [250] @ lit '' principal'',
             str_mul (lit ''-'') 35] s"

text \<open>
  The \<open>if\<close>/\<open>elif\<close> chain in the body of each menu loop.  The result says
  whether the chain reached \<open>break\<close>.
\<close>

definition image_menu_choice :: "world \<Rightarrow> pystr \<Rightarrow> state \<Rightarrow> bool outcome" where
  "image_menu_choice w choice s =
     (if choice = lit ''1'' then bind (list_images w s) (\<lambda>_ s'. Returned False s')
      else if choice = lit ''2'' then bind (pull_image w s) (\<lambda>_ s'. Returned False s')
      else if choice = lit ''3'' then bind (build_image w s) (\<lambda>_ s'. Returned False s')
      else if choice = lit ''4'' then bind (remove_image w s) (\<lambda>_ s'. Returned False s')
      else if choice = lit ''5'' then Returned True s
      else Returned False (print ([10060] @ lit '' Opci'' @ [243] @ lit ''n inv'' @ [225] @ lit ''lida'') s))"

definition container_menu_choice :: "world \<Rightarrow> pystr \<Rightarrow> state \<Rightarrow> bool outcome" where
  "container_menu_choice w choice s =
     (if choice = lit ''1'' then bind (list_containers w False s) (\<lambda>_ s'. Returned False s')
      else if choice = lit ''2'' then bind (list_containers w True s) (\<lambda>_ s'. Returned False s')
      else if choice = lit ''3'' then bind (run_container w s) (\<lambda>_ s'. Returned False s')
      else if choice = lit ''4'' then bind (start_container w s) (\<lambda>_ s'. Returned False s')
      else if choice = lit ''5'' then bind (stop_container w s) (\<lambda>_ s'. Returned False s')
      else if choice = lit ''6'' then bind (restart_container w s) (\<lambda>_ s'. Returned False s')
      else if choice = lit ''7'' then bind (remove_container w s) (\<lambda>_ s'. Returned False s')
      else if choice = lit ''8'' then bind (view_logs w s) (\<lambda>_ s'. Returned False s')
      else if choice = lit ''9'' then bind (exec_container w s) (\<lambda>_ s'. Returned False s')
      else if choice = lit ''10'' then Returned True s
      else Returned False (print ([10060] @ lit '' Opci'' @ [243] @ lit ''n inv'' @ [225] @ lit ''lida'') s))"

definition system_menu_choice :: "world \<Rightarrow> pystr \<Rightarrow> state \<Rightarrow> bool outcome" where
  "system_menu_choice w choice s =
     (if choice = lit ''1'' then bind (system_info w s) (\<lambda>_ s'. Returned False s')
      else if choice = lit ''2'' then bind (disk_usage w s) (\<lambda>_ s'. Returned False s')
      else if choice = lit ''3'' then bind (system_cleanup w s) (\<lambda>_ s'. Returned False s')
      else if choice = lit ''4'' then Returned True s
      else Returned False (print ([10060] @ lit '' Opci'' @ [243] @ lit ''n inv'' @ [225] @ lit ''lida'') s))"

subsection \<open>No operation adds to the operator's pending input\<close>

lemma bind_cong [fundef_cong]:
  "m = m' \<Longrightarrow> (\<And>r s. m' = Returned r s \<Longrightarrow> f r s = f' r s) \<Longrightarrow> bind m f = bind m' f'"
  by (simp add: bind_def split: outcome.splits)

lemma print_inputs [simp]: "inputs (print t s) = inputs s"
  by (simp add: print_def)

lemma prints_inputs [simp]: "inputs (prints ts s) = inputs s"
  unfolding prints_def by (induction ts arbitrary: s) simp_all

lemma input_consumes: "input p s = Returned r s' \<Longrightarrow> length (inputs s') < length (inputs s)"
  by (auto simp: input_def Let_def split: list.splits key.splits)

lemma input_inputs: "length (inputs (final (input p s))) \<le> length (inputs s)"
  by (auto simp: input_def Let_def split: list.splits key.splits)

lemma subprocess_run_inputs [simp]: "inputs (final (subprocess_run w m c s)) = inputs s"
  by (simp add: subprocess_run_def Let_def split: proc_result.splits mode.splits decoded.splits)

lemma run_command_inputs: "length (inputs (final (run_command w c s))) \<le> length (inputs s)"
proof (cases "subprocess_run w Captured c s")
  case (Raised e s')
  with subprocess_run_inputs [of w Captured c s] show ?thesis
    by (simp add: run_command_def)
next
  case (Returned r s')
  with subprocess_run_inputs [of w Captured c s] show ?thesis
    by (cases r) (simp_all add: run_command_def)
qed

lemma run_command_interactive_inputs:
  "length (inputs (final (run_command_interactive w c s))) \<le> length (inputs s)"
proof (cases "subprocess_run w Interactive c s")
  case (Raised e s')
  with subprocess_run_inputs [of w Interactive c s] show ?thesis
    by (simp add: run_command_interactive_def)
next
  case (Returned r s')
  with subprocess_run_inputs [of w Interactive c s] show ?thesis
    by (cases r) (simp_all add: run_command_interactive_def)
qed

lemma bind_inputs:
  assumes "length (inputs (final m)) \<le> n"
    and "\<And>r s'. m = Returned r s' \<Longrightarrow> length (inputs (final (f r s'))) \<le> length (inputs s')"
  shows "length (inputs (final (bind m f))) \<le> n"
proof (cases m)
  case (Raised e s)
  with assms(1) show ?thesis by (simp add: bind_def)
next
  case (Returned r s')
  with assms(1) assms(2) [OF Returned] show ?thesis by (simp add: bind_def)
qed

lemmas io_inputs = input_inputs run_command_inputs run_command_interactive_inputs

lemma list_images_inputs: "length (inputs (final (list_images w s))) \<le> length (inputs s)"
  unfolding list_images_def Let_def
  by (rule impI conjI bind_inputs io_inputs [THEN order_trans] | simp split: option.splits)+

lemma pull_image_inputs: "length (inputs (final (pull_image w s))) \<le> length (inputs s)"
  unfolding pull_image_def Let_def
  by (rule impI conjI bind_inputs io_inputs [THEN order_trans] | simp split: option.splits)+

lemma remove_image_inputs: "length (inputs (final (remove_image w s))) \<le> length (inputs s)"
  unfolding remove_image_def Let_def
  by (rule impI conjI bind_inputs io_inputs [THEN order_trans] list_images_inputs | simp split: option.splits)+

lemma build_image_inputs: "length (inputs (final (build_image w s))) \<le> length (inputs s)"
  unfolding build_image_def Let_def
  by (rule impI conjI bind_inputs io_inputs [THEN order_trans] | simp split: option.splits)+

lemma list_containers_inputs: "length (inputs (final (list_containers w a s))) \<le> length (inputs s)"
  unfolding list_containers_def Let_def
  by (rule impI conjI bind_inputs io_inputs [THEN order_trans] | simp split: option.splits)+

lemma run_container_inputs: "length (inputs (final (run_container w s))) \<le> length (inputs s)"
  unfolding run_container_def Let_def
  by (rule impI conjI bind_inputs io_inputs [THEN order_trans] | simp split: option.splits)+

lemma stop_container_inputs: "length (inputs (final (stop_container w s))) \<le> length (inputs s)"
  unfolding stop_container_def Let_def
  by (rule impI conjI bind_inputs io_inputs [THEN order_trans] list_containers_inputs | simp split: option.splits)+

lemma start_container_inputs: "length (inputs (final (start_container w s))) \<le> length (inputs s)"
  unfolding start_container_def Let_def
  by (rule impI conjI bind_inputs io_inputs [THEN order_trans] list_containers_inputs | simp split: option.splits)+

lemma restart_container_inputs: "length (inputs (final (restart_container w s))) \<le> length (inputs s)"
  unfolding restart_container_def Let_def
  by (rule impI conjI bind_inputs io_inputs [THEN order_trans] list_containers_inputs | simp split: option.splits)+

lemma remove_container_inputs: "length (inputs (final (remove_container w s))) \<le> length (inputs s)"
  unfolding remove_container_def Let_def
  by (rule impI conjI bind_inputs io_inputs [THEN order_trans] list_containers_inputs | simp split: option.splits)+

lemma view_logs_inputs: "length (inputs (final (view_logs w s))) \<le> length (inputs s)"
  unfolding view_logs_def Let_def
  by (rule impI conjI bind_inputs io_inputs [THEN order_trans] list_containers_inputs | simp split: option.splits)+

lemma exec_container_inputs: "length (inputs (final (exec_container w s))) \<le> length (inputs s)"
  unfolding exec_container_def Let_def
  by (rule impI conjI bind_inputs io_inputs [THEN order_trans] list_containers_inputs | simp split: option.splits)+

lemma system_info_inputs: "length (inputs (final (system_info w s))) \<le> length (inputs s)"
  unfolding system_info_def Let_def
  by (rule impI conjI bind_inputs io_inputs [THEN order_trans] | simp split: option.splits)+

lemma system_cleanup_inputs: "length (inputs (final (system_cleanup w s))) \<le> length (inputs s)"
  unfolding system_cleanup_def Let_def
  by (rule impI conjI bind_inputs io_inputs [THEN order_trans] | simp split: option.splits)+

lemma disk_usage_inputs: "length (inputs (final (disk_usage w s))) \<le> length (inputs s)"
  unfolding disk_usage_def Let_def
  by (rule impI conjI bind_inputs io_inputs [THEN order_trans] | simp split: option.splits)+

lemmas image_ops_inputs =
  list_images_inputs pull_image_inputs build_image_inputs remove_image_inputs

lemmas container_ops_inputs =
  list_containers_inputs run_container_inputs start_container_inputs stop_container_inputs
  restart_container_inputs remove_container_inputs view_logs_inputs exec_container_inputs

lemmas system_ops_inputs = system_info_inputs disk_usage_inputs system_cleanup_inputs

lemma image_menu_choice_final: "length (inputs (final (image_menu_choice w c s))) \<le> length (inputs s)"
  unfolding image_menu_choice_def
  by (rule impI conjI bind_inputs image_ops_inputs | simp)+

lemma image_menu_choice_inputs:
  "image_menu_choice w c s = Returned b s' \<Longrightarrow> length (inputs s') \<le> length (inputs s)"
  using image_menu_choice_final [of w c s] by simp

lemma container_menu_choice_final: "length (inputs (final (container_menu_choice w c s))) \<le> length (inputs s)"
  unfolding container_menu_choice_def
  by (rule impI conjI bind_inputs container_ops_inputs | simp)+

lemma container_menu_choice_inputs:
  "container_menu_choice w c s = Returned b s' \<Longrightarrow> length (inputs s') \<le> length (inputs s)"
  using container_menu_choice_final [of w c s] by simp

lemma system_menu_choice_final: "length (inputs (final (system_menu_choice w c s))) \<le> length (inputs s)"
  unfolding system_menu_choice_def
  by (rule impI conjI bind_inputs system_ops_inputs | simp)+

lemma system_menu_choice_inputs:
  "system_menu_choice w c s = Returned b s' \<Longrightarrow> length (inputs s') \<le> length (inputs s)"
  using system_menu_choice_final [of w c s] by simp

lemma bind_Returned_iff:
  "bind m f = Returned b s' \<longleftrightarrow> (\<exists>r s1. m = Returned r s1 \<and> f r s1 = Returned b s')"
  by (cases m) (simp_all add: bind_def)

text \<open>
  One turn of each menu loop, the body of its \<open>while True\<close>: the menu, the option,
  the operation, the pause.  The result says whether the turn reached \<open>break\<close>.
\<close>

definition image_menu_turn :: "world \<Rightarrow> state \<Rightarrow> bool outcome" where
  "image_menu_turn w s =
     bind (input (lit ''Selecciona una opci'' @ [243] @ lit ''n: '') (show_image_menu s))
       (\<lambda>raw s1.
          bind (image_menu_choice w (strip raw) s1)
            (\<lambda>stop s2.
               if stop then Returned True s2
               else bind (input ([10] @ lit ''Presiona Enter para continuar...'') s2)
                      (\<lambda>_ s3. Returned False s3)))"

lemma image_menu_turn_final: "length (inputs (final (image_menu_turn w s))) \<le> length (inputs s)"
  unfolding image_menu_turn_def
  by (rule impI conjI bind_inputs io_inputs [THEN order_trans] image_menu_choice_final | simp add: show_image_menu_def)+

lemma image_menu_turn_consumes:
  "image_menu_turn w s = Returned b s' \<Longrightarrow> length (inputs s') < length (inputs s)"
  by (auto simp: image_menu_turn_def bind_Returned_iff show_image_menu_def split: if_splits
        dest!: input_consumes image_menu_choice_inputs)

definition container_menu_turn :: "world \<Rightarrow> state \<Rightarrow> bool outcome" where
  "container_menu_turn w s =
     bind (input (lit ''Selecciona una opci'' @ [243] @ lit ''n: '') (show_container_menu s))
       (\<lambda>raw s1.
          bind (container_menu_choice w (strip raw) s1)
            (\<lambda>stop s2.
               if stop then Returned True s2
               else bind (input ([10] @ lit ''Presiona Enter para continuar...'') s2)
                      (\<lambda>_ s3. Returned False s3)))"

lemma container_menu_turn_final: "length (inputs (final (container_menu_turn w s))) \<le> length (inputs s)"
  unfolding container_menu_turn_def
  by (rule impI conjI bind_inputs io_inputs [THEN order_trans] container_menu_choice_final | simp add: show_container_menu_def)+

lemma container_menu_turn_consumes:
  "container_menu_turn w s = Returned b s' \<Longrightarrow> length (inputs s') < length (inputs s)"
  by (auto simp: container_menu_turn_def bind_Returned_iff show_container_menu_def split: if_splits
        dest!: input_consumes container_menu_choice_inputs)

definition system_menu_turn :: "world \<Rightarrow> state \<Rightarrow> bool outcome" where
  "system_menu_turn w s =
     bind (input (lit ''Selecciona una opci'' @ [243] @ lit ''n: '') (show_system_menu s))
       (\<lambda>raw s1.
          bind (system_menu_choice w (strip raw) s1)
            (\<lambda>stop s2.
               if stop then Returned True s2
               else bind (input ([10] @ lit ''Presiona Enter para continuar...'') s2)
                      (\<lambda>_ s3. Returned False s3)))"

lemma system_menu_turn_final: "length (inputs (final (system_menu_turn w s))) \<le> length (inputs s)"
  unfolding system_menu_turn_def
  by (rule impI conjI bind_inputs io_inputs [THEN order_trans] system_menu_choice_final | simp add: show_system_menu_def)+

lemma system_menu_turn_consumes:
  "system_menu_turn w s = Returned b s' \<Longrightarrow> length (inputs s') < length (inputs s)"
  by (auto simp: system_menu_turn_def bind_Returned_iff show_system_menu_def split: if_splits
        dest!: input_consumes system_menu_choice_inputs)

text \<open>
  The menu loops.  Each turn reads one line at least, and \<open>input\<close> raises
  \<open>EOFError\<close> at the end of the standard input, so each loop ends.
\<close>

function handle_image_menu :: "world \<Rightarrow> state \<Rightarrow> unit outcome" where
  "handle_image_menu w s =
     bind (image_menu_turn w s)
       (\<lambda>stop s'. if stop then Returned () s' else handle_image_menu w s')"
  by pat_completeness auto
termination
  by (relation "measure (\<lambda>(w, s). length (inputs s))")
     (auto dest: image_menu_turn_consumes)

declare handle_image_menu.simps [simp del]

lemma handle_image_menu_inputs: "length (inputs (final (handle_image_menu w s))) \<le> length (inputs s)"
proof (induction w s rule: handle_image_menu.induct)
  case (1 w s)
  show ?case
    apply (subst handle_image_menu.simps)
    apply (rule bind_inputs)
     apply (rule image_menu_turn_final)
    apply (split if_split, intro conjI impI)
     apply (simp only: final.simps order_refl)
    apply (rule "1.IH"; assumption)
    done
qed

function handle_container_menu :: "world \<Rightarrow> state \<Rightarrow> unit outcome" where
  "handle_container_menu w s =
     bind (container_menu_turn w s)
       (\<lambda>stop s'. if stop then Returned () s' else handle_container_menu w s')"
  by pat_completeness auto
termination
  by (relation "measure (\<lambda>(w, s). length (inputs s))")
     (auto dest: container_menu_turn_consumes)

declare handle_container_menu.simps [simp del]

lemma handle_container_menu_inputs: "length (inputs (final (handle_container_menu w s))) \<le> length (inputs s)"
proof (induction w s rule: handle_container_menu.induct)
  case (1 w s)
  show ?case
    apply (subst handle_container_menu.simps)
    apply (rule bind_inputs)
     apply (rule container_menu_turn_final)
    apply (split if_split, intro conjI impI)
     apply (simp only: final.simps order_refl)
    apply (rule "1.IH"; assumption)
    done
qed

function handle_system_menu :: "world \<Rightarrow> state \<Rightarrow> unit outcome" where
  "handle_system_menu w s =
     bind (system_menu_turn w s)
       (\<lambda>stop s'. if stop then Returned () s' else handle_system_menu w s')"
  by pat_completeness auto
termination
  by (relation "measure (\<lambda>(w, s). length (inputs s))")
     (auto dest: system_menu_turn_consumes)

declare handle_system_menu.simps [simp del]

lemma handle_system_menu_inputs: "length (inputs (final (handle_system_menu w s))) \<le> length (inputs s)"
proof (induction w s rule: handle_system_menu.induct)
  case (1 w s)
  show ?case
    apply (subst handle_system_menu.simps)
    apply (rule bind_inputs)
     apply (rule system_menu_turn_final)
    apply (split if_split, intro conjI impI)
     apply (simp only: final.simps order_refl)
    apply (rule "1.IH"; assumption)
    done
qed

lemma handle_menu_inputs:
  "handle_image_menu w s = Returned r s' \<Longrightarrow> length (inputs s') \<le> length (inputs s)"
  "handle_container_menu w s = Returned r s' \<Longrightarrow> length (inputs s') \<le> length (inputs s)"
  "handle_system_menu w s = Returned r s' \<Longrightarrow> length (inputs s') \<le> length (inputs s)"
  using handle_image_menu_inputs [of w s] handle_container_menu_inputs [of w s]
    handle_system_menu_inputs [of w s]
  by simp_all

text \<open>One turn of the \<open>while True\<close> loop of \<open>DockerCLI.run\<close>, inside its \<open>try\<close>.\<close>

definition main_turn :: "world \<Rightarrow> state \<Rightarrow> bool outcome" where
  "main_turn w s =
     bind (input (lit ''Selecciona una opci'' @ [243] @ lit ''n: '') (show_main_menu (show_header s)))
       (\<lambda>raw s1.
          let choice = strip raw in
          if choice = lit ''1'' then bind (handle_image_menu w s1) (\<lambda>_ s2. Returned False s2)
          else if choice = lit ''2'' then
            bind (handle_container_menu w s1) (\<lambda>_ s2. Returned False s2)
          else if choice = lit ''3'' then bind (handle_system_menu w s1) (\<lambda>_ s2. Returned False s2)
          else if choice = lit ''4'' then
            Returned True
              (print ([10, 128075] @ lit '' '' @ [161]
                      @ lit ''Gracias por usar Docker Management CLI!'') s1)
          else
            let s2 = print ([10060] @ lit '' Opci'' @ [243] @ lit ''n inv'' @ [225] @ lit ''lida'') s1
            in bind (input ([10] @ lit ''Presiona Enter para continuar...'') s2)
                 (\<lambda>_ s3. Returned False s3))"

lemma main_turn_final: "length (inputs (final (main_turn w s))) \<le> length (inputs s)"
  unfolding main_turn_def Let_def
  by (rule impI conjI bind_inputs io_inputs [THEN order_trans] handle_image_menu_inputs
        handle_container_menu_inputs handle_system_menu_inputs
      | simp add: show_main_menu_def show_header_def)+

lemma main_turn_consumes:
  "main_turn w s = Returned b s' \<Longrightarrow> length (inputs s') < length (inputs s)"
  by (auto simp: main_turn_def bind_Returned_iff show_main_menu_def show_header_def Let_def
        split: if_splits dest!: input_consumes handle_menu_inputs)

function main_loop :: "world \<Rightarrow> state \<Rightarrow> unit outcome" where
  "main_loop w s =
     bind (main_turn w s)
       (\<lambda>stop s'. if stop then Returned () s' else main_loop w s')"
  by pat_completeness auto
termination
  by (relation "measure (\<lambda>(w, s). length (inputs s))")
     (auto dest: main_turn_consumes)

declare main_loop.simps [simp del]

text \<open>\<open>str(e)\<close> of an exception.\<close>

fun exn_str :: "exn \<Rightarrow> pystr" where
  "exn_str (FileNotFoundError msg) = msg"
| "exn_str (OSError msg) = msg"
| "exn_str (UnicodeDecodeError msg) = msg"
| "exn_str IndexError = lit ''list index out of range''"
| "exn_str EOFError = lit ''EOF when reading a line''"
| "exn_str KeyboardInterrupt = []"
| "exn_str SystemExit = lit ''1''"

text \<open>
  \<open>DockerCLI.run\<close>: the loop inside \<open>try\<close>, with
  \<open>except KeyboardInterrupt\<close> and \<open>except Exception\<close>.  \<open>SystemExit\<close> is
  not an \<open>Exception\<close> and passes.
\<close>

definition run :: "world \<Rightarrow> state \<Rightarrow> unit outcome" where
  "run w s =
     (case main_loop w s of
        Returned _ s' \<Rightarrow> Returned () s'
      | Raised KeyboardInterrupt s' \<Rightarrow>
          Returned ()
            (print ([10, 10, 128075] @ lit '' Aplicaci'' @ [243]
                    @ lit ''n terminada por el usuario'') s')
      | Raised SystemExit s' \<Rightarrow> Raised SystemExit s'
      | Raised e s' \<Rightarrow>
          Returned () (print ([10, 10060] @ lit '' Error inesperado: '' @ exn_str e) s'))"

text \<open>\<open>main\<close>: \<open>DockerCLI()\<close> probes the engine, then the session runs.\<close>

definition main :: "world \<Rightarrow> state \<Rightarrow> unit outcome" where
  "main w s = bind (check_docker_installed w s) (\<lambda>_ s1. run w s1)"

section \<open>Notions for the faults of the executor\<close>

text \<open>The operations that the menus dispatch to.\<close>

definition operations :: "(world \<Rightarrow> state \<Rightarrow> unit outcome) list" where
  "operations =
     [list_images, pull_image, build_image, remove_image,
      (\<lambda>w. list_containers w False), (\<lambda>w. list_containers w True), run_container,
      start_container, stop_container, restart_container, remove_container, view_logs,
      exec_container, system_info, disk_usage, system_cleanup]"

text \<open>The exception with which \<open>subprocess.run\<close> answers a spawn that failed.\<close>

definition fault_of :: "proc_result \<Rightarrow> exn \<Rightarrow> bool" where
  "fault_of r e \<longleftrightarrow>
     (\<exists>msg. r = NoSuchBinary msg \<and> e = FileNotFoundError msg)
     \<or> (\<exists>msg. r = SpawnFailure msg \<and> e = OSError msg)"

text \<open>
  A computation passes the faults of the executor on: its invocations extend the
  log, and if the spawn of one of them failed, that invocation is its last and the
  computation raises the exception of that failure.
\<close>

definition passes :: "world \<Rightarrow> state \<Rightarrow> 'a outcome \<Rightarrow> bool" where
  "passes w s m \<longleftrightarrow>
     (\<exists>new. calls (final m) = calls s @ new)
     \<and> (\<forall>pre c post e.
           calls (final m) = calls s @ pre @ c # post \<and> fault_of (spawn w (calls s @ pre) c) e
           \<longrightarrow> post = [] \<and> (\<exists>s'. m = Raised e s'))"

text \<open>
  \<open>SystemExit\<close> is raised by the probe at start-up only; nothing that the session
  runs raises it.
\<close>

definition no_exit :: "'a outcome \<Rightarrow> bool" where
  "no_exit m \<longleftrightarrow> (\<forall>s'. m \<noteq> Raised SystemExit s')"

section \<open>Concrete environments\<close>

text \<open>
  A codec that takes the bytes below 128 as they are and refuses the others (as
  both ASCII and UTF-8 refuse the byte 255).
\<close>

definition ascii_codec :: "bytes \<Rightarrow> decoded" where
  "ascii_codec bs =
     (if list_all (\<lambda>b. b < 128) bs then Text bs
      else Undecodable (lit ''codec can not decode byte''))"

text \<open>
  An engine that meets every spawn with the same result; an engine that meets the
  first spawn with one result and every later spawn with another; a terminal on
  which the operator is about to type the given keys.
\<close>

definition world_of :: "proc_result \<Rightarrow> bool \<Rightarrow> world" where
  "world_of r b = \<lparr>spawn = (\<lambda>h c. r), path_exists = (\<lambda>h p. b), decode = ascii_codec\<rparr>"

definition world_then :: "proc_result \<Rightarrow> proc_result \<Rightarrow> world" where
  "world_then r1 r2 =
     \<lparr>spawn = (\<lambda>h c. if h = [] then r1 else r2), path_exists = (\<lambda>h p. False),
        decode = ascii_codec\<rparr>"

definition terminal :: "key list \<Rightarrow> state" where
  "terminal ks = \<lparr>inputs = ks, out = [], calls = []\<rparr>"

section \<open>The executor\<close>

lemma lit_eq_iff [simp]: "lit a = lit b \<longleftrightarrow> a = b"
  by (simp add: lit_def inj_map_eq_map [OF inj_of_char])

lemma lit_Nil_iff [simp]: "lit a = [] \<longleftrightarrow> a = []"
  by (simp add: lit_def)

lemma Nil_lit_iff [simp]: "[] = lit a \<longleftrightarrow> a = []"
  by (auto simp: lit_def)

lemmas concrete_defs =
  world_of_def world_then_def terminal_def lit_def strip_def isspace_def lower_def lower_cp_def
  print_def subprocess_run_def ascii_codec_def check_returncode_def translate_newlines_def
  replace_cr_def

lemma subprocess_run_captured:
  assumes "command \<noteq> []" and "spawn w (calls s) (Captured, command) = Exit rc so se"
    and "decode w so = Text stdout" and "decode w se = Text stderr"
  shows "subprocess_run w Captured command s =
           Returned (check_returncode rc (translate_newlines stdout) (translate_newlines stderr))
             (s\<lparr>calls := calls s @ [(Captured, command)]\<rparr>)"
  using assms by (simp add: subprocess_run_def)

lemma subprocess_run_completed:
  assumes "subprocess_run w Captured command s = Returned (CompletedProcess rc so se) s'"
  shows "\<exists>so' se' stdout stderr.
           spawn w (calls s) (Captured, command) = Exit 0 so' se'
           \<and> decode w so' = Text stdout \<and> decode w se' = Text stderr
           \<and> rc = 0 \<and> so = translate_newlines stdout \<and> command \<noteq> []"
  using assms
  by (auto simp: subprocess_run_def Let_def check_returncode_def
        split: if_splits proc_result.splits decoded.splits)

lemma run_command_nonzero:
  "command \<noteq> [] \<and> spawn w (calls s) (Captured, command) = Exit rc so se \<and> rc \<noteq> 0
      \<and> decode w so = Text stdout \<and> decode w se = Text stderr \<longrightarrow>
      run_command w command s =
        Returned None
          (s\<lparr>out := out s @
               [Print ([10060] @ lit '' Error ejecutando comando: ''
                       @ strip (translate_newlines stderr))],
             calls := calls s @ [(Captured, command)]\<rparr>)"
  by (simp add: run_command_def subprocess_run_captured check_returncode_def print_def)

lemma run_command_undecodable_stdout:
  "command \<noteq> [] \<and> spawn w (calls s) (Captured, command) = Exit rc so se
      \<and> decode w so = Undecodable msg \<longrightarrow>
      run_command w command s =
        Raised (UnicodeDecodeError msg) (s\<lparr>calls := calls s @ [(Captured, command)]\<rparr>)"
  by (simp add: run_command_def subprocess_run_def)

lemma run_command_undecodable_stderr:
  "command \<noteq> [] \<and> spawn w (calls s) (Captured, command) = Exit rc so se
      \<and> decode w so = Text stdout \<and> decode w se = Undecodable msg \<longrightarrow>
      run_command w command s =
        Raised (UnicodeDecodeError msg) (s\<lparr>calls := calls s @ [(Captured, command)]\<rparr>)"
  by (simp add: run_command_def subprocess_run_def)

lemma run_command_returned_text:
  "\<forall>t s'. run_command w command s = Returned (Some t) s' \<longrightarrow>
        (\<exists>so se stdout stderr.
            spawn w (calls s) (Captured, command) = Exit 0 so se
            \<and> decode w so = Text stdout \<and> decode w se = Text stderr
            \<and> t = strip (translate_newlines stdout))"
proof (intro allI impI)
  fix t s'
  assume "run_command w command s = Returned (Some t) s'"
  then obtain rc so se where
    c: "subprocess_run w Captured command s = Returned (CompletedProcess rc so se) s'"
    and t: "t = strip so"
    by (auto simp: run_command_def split: outcome.splits run_result.splits)
  from subprocess_run_completed [OF c] t
  show "\<exists>so se stdout stderr.
            spawn w (calls s) (Captured, command) = Exit 0 so se
            \<and> decode w so = Text stdout \<and> decode w se = Text stderr
            \<and> t = strip (translate_newlines stdout)"
    by blast
qed

text \<open>
  C1, as stated, fails: with \<open>text=True\<close> the output of the child is decoded
  before the exit status is looked at, and \<open>run_command\<close> catches
  \<open>CalledProcessError\<close> only.  Here the child exits with status 1 and writes the
  byte 255 to its standard error: \<open>run_command\<close> raises \<open>UnicodeDecodeError\<close>
  to its caller and reports nothing.
\<close>

theorem run_command_raises_on_undecodable_stderr:
  "run_command (world_of (Exit 1 [] [255]) False) [lit ''docker'', lit ''stop'', lit ''web1''] (terminal [])
     = Raised (UnicodeDecodeError (lit ''codec can not decode byte''))
         \<lparr>inputs = [], out = [], calls = [(Captured, [lit ''docker'', lit ''stop'', lit ''web1''])]\<rparr>"
  by (simp add: run_command_def concrete_defs)

text \<open>
  C1, amended.  When the token list is not empty, the child it spawns exits with a
  status other than zero and both of its streams can be decoded, \<open>run_command\<close>
  returns \<open>None\<close> to its caller, having printed the error line with the child's
  standard error (decoded, its newlines translated, trimmed), and raises nothing.
  When a stream cannot be decoded, \<open>run_command\<close> raises the
  \<open>UnicodeDecodeError\<close>, whatever the exit status.  Whenever \<open>run_command\<close>
  returns a string, the child ran, its exit status was zero, and the string is its
  standard output decoded, translated and trimmed.
\<close>

theorem run_command_exit_status:
  "(command \<noteq> [] \<and> spawn w (calls s) (Captured, command) = Exit rc so se \<and> rc \<noteq> 0
      \<and> decode w so = Text stdout \<and> decode w se = Text stderr \<longrightarrow>
      run_command w command s =
        Returned None
          (s\<lparr>out := out s @
               [Print ([10060] @ lit '' Error ejecutando comando: ''
                       @ strip (translate_newlines stderr))],
             calls := calls s @ [(Captured, command)]\<rparr>))
   \<and> (command \<noteq> [] \<and> spawn w (calls s) (Captured, command) = Exit rc so se
      \<and> decode w so = Undecodable msg \<longrightarrow>
      run_command w command s =
        Raised (UnicodeDecodeError msg) (s\<lparr>calls := calls s @ [(Captured, command)]\<rparr>))
   \<and> (command \<noteq> [] \<and> spawn w (calls s) (Captured, command) = Exit rc so se
      \<and> decode w so = Text stdout \<and> decode w se = Undecodable msg \<longrightarrow>
      run_command w command s =
        Raised (UnicodeDecodeError msg) (s\<lparr>calls := calls s @ [(Captured, command)]\<rparr>))
   \<and> (\<forall>t s'. run_command w command s = Returned (Some t) s' \<longrightarrow>
        (\<exists>so se stdout stderr.
            spawn w (calls s) (Captured, command) = Exit 0 so se
            \<and> decode w so = Text stdout \<and> decode w se = Text stderr
            \<and> t = strip (translate_newlines stdout)))"
  by (intro conjI)
     (rule run_command_nonzero,
      rule run_command_undecodable_stdout,
      rule run_command_undecodable_stderr,
      rule run_command_returned_text)

theorem run_command_exit_status_witness:
  "run_command (world_of (Exit 1 [] (lit ''No such container: web1 '' @ [13, 10])) False) [lit ''docker'', lit ''stop'', lit ''web1''] (terminal [])
     = Returned None
         \<lparr>inputs = [],
            out = [Print ([10060] @ lit '' Error ejecutando comando: '' @ lit ''No such container: web1'')],
            calls = [(Captured, [lit ''docker'', lit ''stop'', lit ''web1''])]\<rparr>
   \<and> run_command (world_of (Exit 0 [255] []) False) [lit ''docker'', lit ''stop'', lit ''web1''] (terminal [])
     = Raised (UnicodeDecodeError (lit ''codec can not decode byte''))
         \<lparr>inputs = [], out = [], calls = [(Captured, [lit ''docker'', lit ''stop'', lit ''web1''])]\<rparr>
   \<and> run_command (world_of (Exit 1 [] [255]) False) [lit ''docker'', lit ''stop'', lit ''web1''] (terminal [])
     = Raised (UnicodeDecodeError (lit ''codec can not decode byte''))
         \<lparr>inputs = [], out = [], calls = [(Captured, [lit ''docker'', lit ''stop'', lit ''web1''])]\<rparr>
   \<and> run_command (world_of (Exit 0 (lit ''web1'' @ [13, 10]) []) False) [lit ''docker'', lit ''stop'', lit ''web1''] (terminal [])
     = Returned (Some (lit ''web1''))
         \<lparr>inputs = [], out = [], calls = [(Captured, [lit ''docker'', lit ''stop'', lit ''web1''])]\<rparr>
   \<and> (\<exists>so se stdout stderr.
         spawn (world_of (Exit 0 (lit ''web1'' @ [13, 10]) []) False) (calls (terminal [])) (Captured, [lit ''docker'', lit ''stop'', lit ''web1'']) = Exit 0 so se
         \<and> decode (world_of (Exit 0 (lit ''web1'' @ [13, 10]) []) False) so = Text stdout \<and> decode (world_of (Exit 0 (lit ''web1'' @ [13, 10]) []) False) se = Text stderr
         \<and> lit ''web1'' = strip (translate_newlines stdout))"
proof -
  let ?cmd = "[lit ''docker'', lit ''stop'', lit ''web1'']"
  let ?s' = "\<lparr>inputs = [], out = [], calls = [(Captured, ?cmd)]\<rparr>"
  have a: "?cmd \<noteq> []" "(1::int) \<noteq> 0"
    "spawn (world_of (Exit 1 [] (lit ''No such container: web1 '' @ [13, 10])) False) (calls (terminal [])) (Captured, ?cmd)
       = Exit 1 [] (lit ''No such container: web1 '' @ [13, 10])"
    "decode (world_of (Exit 1 [] (lit ''No such container: web1 '' @ [13, 10])) False) [] = Text []"
    "decode (world_of (Exit 1 [] (lit ''No such container: web1 '' @ [13, 10])) False) (lit ''No such container: web1 '' @ [13, 10])
       = Text (lit ''No such container: web1 '' @ [13, 10])"
    "strip (translate_newlines (lit ''No such container: web1 '' @ [13, 10]))
       = lit ''No such container: web1''"
    by (simp_all add: concrete_defs)
  have u: "spawn (world_of (Exit 1 [] [255]) False) (calls (terminal [])) (Captured, ?cmd) = Exit 1 [] [255]"
    "decode (world_of (Exit 1 [] [255]) False) [] = Text []"
    "decode (world_of (Exit 1 [] [255]) False) [255] = Undecodable (lit ''codec can not decode byte'')"
    "spawn (world_of (Exit 0 [255] []) False) (calls (terminal [])) (Captured, ?cmd) = Exit 0 [255] []"
    "decode (world_of (Exit 0 [255] []) False) [255] = Undecodable (lit ''codec can not decode byte'')"
    by (simp_all add: concrete_defs)
  have b: "run_command (world_of (Exit 0 (lit ''web1'' @ [13, 10]) []) False) ?cmd (terminal []) = Returned (Some (lit ''web1'')) ?s'"
    by (simp add: run_command_def concrete_defs)
  note A = run_command_exit_status
             [where command = ?cmd and w = "world_of (Exit 1 [] (lit ''No such container: web1 '' @ [13, 10])) False" and s = "terminal []" and rc = 1
                and so = "[]" and se = "lit ''No such container: web1 '' @ [13, 10]"
                and stdout = "[]" and stderr = "lit ''No such container: web1 '' @ [13, 10]"]
  note B = run_command_exit_status
             [where command = ?cmd and w = "world_of (Exit 0 [255] []) False" and s = "terminal []" and rc = 0
                and so = "[255]" and se = "[]" and msg = "lit ''codec can not decode byte''"]
  note C = run_command_exit_status
             [where command = ?cmd and w = "world_of (Exit 1 [] [255]) False" and s = "terminal []" and rc = 1
                and so = "[]" and se = "[255]" and stdout = "[]" and msg = "lit ''codec can not decode byte''"]
  note D = run_command_exit_status [where command = ?cmd and w = "world_of (Exit 0 (lit ''web1'' @ [13, 10]) []) False" and s = "terminal []"]
  from A a have 1: "run_command (world_of (Exit 1 [] (lit ''No such container: web1 '' @ [13, 10])) False) ?cmd (terminal []) =
        Returned None
          ((terminal [])\<lparr>out := out (terminal []) @
               [Print ([10060] @ lit '' Error ejecutando comando: ''
                       @ strip (translate_newlines (lit ''No such container: web1 '' @ [13, 10])))],
             calls := calls (terminal []) @ [(Captured, ?cmd)]\<rparr>)"
    by blast
  from B a(1) u have 2: "run_command (world_of (Exit 0 [255] []) False) ?cmd (terminal []) =
        Raised (UnicodeDecodeError (lit ''codec can not decode byte''))
          ((terminal [])\<lparr>calls := calls (terminal []) @ [(Captured, ?cmd)]\<rparr>)"
    by blast
  from C a(1) u have 3: "run_command (world_of (Exit 1 [] [255]) False) ?cmd (terminal []) =
        Raised (UnicodeDecodeError (lit ''codec can not decode byte''))
          ((terminal [])\<lparr>calls := calls (terminal []) @ [(Captured, ?cmd)]\<rparr>)"
    by blast
  from D b have 4: "\<exists>so se stdout stderr.
         spawn (world_of (Exit 0 (lit ''web1'' @ [13, 10]) []) False) (calls (terminal [])) (Captured, ?cmd) = Exit 0 so se
         \<and> decode (world_of (Exit 0 (lit ''web1'' @ [13, 10]) []) False) so = Text stdout \<and> decode (world_of (Exit 0 (lit ''web1'' @ [13, 10]) []) False) se = Text stderr
         \<and> lit ''web1'' = strip (translate_newlines stdout)"
    by blast
  from 1 2 3 4 b a(6) show ?thesis
    by (simp add: terminal_def)
qed

text \<open>
  C2.  When the program named by the first token does not exist,
  \<open>subprocess.run\<close> raises \<open>FileNotFoundError\<close>; neither \<open>run_command\<close> nor
  \<open>run_command_interactive\<close> catches it, so each raises it to its caller and
  returns no result.
\<close>

theorem missing_binary_raises:
  "command \<noteq> [] \<longrightarrow>
     (spawn w (calls s) (Captured, command) = NoSuchBinary msg \<longrightarrow>
        run_command w command s =
          Raised (FileNotFoundError msg) (s\<lparr>calls := calls s @ [(Captured, command)]\<rparr>))
   \<and> (spawn w (calls s) (Interactive, command) = NoSuchBinary msg \<longrightarrow>
        run_command_interactive w command s =
          Raised (FileNotFoundError msg) (s\<lparr>calls := calls s @ [(Interactive, command)]\<rparr>))"
  by (simp add: run_command_def run_command_interactive_def subprocess_run_def)

theorem missing_binary_raises_witness:
  "run_command (world_of (NoSuchBinary (lit ''No such file or directory'')) False)
       [lit ''nodocker'', lit ''ps''] (terminal [])
     = Raised (FileNotFoundError (lit ''No such file or directory''))
         \<lparr>inputs = [], out = [], calls = [(Captured, [lit ''nodocker'', lit ''ps''])]\<rparr>
   \<and> run_command_interactive (world_of (NoSuchBinary (lit ''No such file or directory'')) False)
         [lit ''nodocker'', lit ''ps''] (terminal [])
       = Raised (FileNotFoundError (lit ''No such file or directory''))
           \<lparr>inputs = [], out = [], calls = [(Interactive, [lit ''nodocker'', lit ''ps''])]\<rparr>"
  using missing_binary_raises
          [of "[lit ''nodocker'', lit ''ps'']"
              "world_of (NoSuchBinary (lit ''No such file or directory'')) False"
              "terminal []" "lit ''No such file or directory''"]
  by (simp add: world_of_def terminal_def)

section \<open>Steps of an operation\<close>

lemma bind_Returned [simp]: "bind (Returned r s) f = f r s"
  by (simp add: bind_def)

lemma bind_Raised [simp]: "bind (Raised e s) f = Raised e s"
  by (simp add: bind_def)

lemma input_Line:
  "inputs s = Line t # rest \<Longrightarrow>
     input p s = Returned t (s\<lparr>inputs := rest, out := out s @ [Prompt p]\<rparr>)"
  by (simp add: input_def)

lemma print_calls [simp]: "calls (print t s) = calls s"
  by (simp add: print_def)

lemma print_out [simp]: "out (print t s) = out s @ [Print t]"
  by (simp add: print_def)

lemma prints_calls [simp]: "calls (prints ts s) = calls s"
  unfolding prints_def by (induction ts arbitrary: s) simp_all

lemma subprocess_run_calls [simp]:
  "calls (final (subprocess_run w m c s)) = calls s @ [(m, c)]"
  by (simp add: subprocess_run_def Let_def split: proc_result.splits mode.splits decoded.splits)

lemma run_command_calls [simp]: "calls (final (run_command w c s)) = calls s @ [(Captured, c)]"
proof (cases "subprocess_run w Captured c s")
  case (Raised e s')
  with subprocess_run_calls [of w Captured c s] show ?thesis
    by (simp add: run_command_def)
next
  case (Returned r s')
  with subprocess_run_calls [of w Captured c s] show ?thesis
    by (cases r) (simp_all add: run_command_def)
qed

lemma run_command_interactive_calls [simp]:
  "calls (final (run_command_interactive w c s)) = calls s @ [(Interactive, c)]"
proof (cases "subprocess_run w Interactive c s")
  case (Raised e s')
  with subprocess_run_calls [of w Interactive c s] show ?thesis
    by (simp add: run_command_interactive_def)
next
  case (Returned r s')
  with subprocess_run_calls [of w Interactive c s] show ?thesis
    by (cases r) (simp_all add: run_command_interactive_def)
qed

lemma run_command_keeps_inputs [simp]: "inputs (final (run_command w c s)) = inputs s"
proof (cases "subprocess_run w Captured c s")
  case (Raised e s')
  with subprocess_run_inputs [of w Captured c s] show ?thesis
    by (simp add: run_command_def)
next
  case (Returned r s')
  with subprocess_run_inputs [of w Captured c s] show ?thesis
    by (cases r) (simp_all add: run_command_def)
qed

lemma run_command_zero:
  assumes "c \<noteq> []" and "spawn w (calls s) (Captured, c) = Exit 0 so se"
    and "decode w so = Text stdout" and "decode w se = Text stderr"
  shows "run_command w c s =
           Returned (Some (strip (translate_newlines stdout)))
             (s\<lparr>calls := calls s @ [(Captured, c)]\<rparr>)"
  using assms by (simp add: run_command_def subprocess_run_def check_returncode_def)

lemma run_command_interactive_missing:
  assumes "c \<noteq> []" and "spawn w (calls s) (Interactive, c) = NoSuchBinary msg"
  shows "run_command_interactive w c s =
           Raised (FileNotFoundError msg) (s\<lparr>calls := calls s @ [(Interactive, c)]\<rparr>)"
  using assms by (simp add: run_command_interactive_def subprocess_run_def)

text \<open>A listing reads nothing from the operator and invokes the executor once.\<close>

lemma listing_step:
  "inputs (final (bind (run_command w c s)
      (\<lambda>result s3.
         case result of
           Some t \<Rightarrow> if t \<noteq> [] then Returned () (print t s3) else Returned () (print m1 s3)
         | None \<Rightarrow> Returned () (print m2 s3)))) = inputs s"
  "calls (final (bind (run_command w c s)
      (\<lambda>result s3.
         case result of
           Some t \<Rightarrow> if t \<noteq> [] then Returned () (print t s3) else Returned () (print m1 s3)
         | None \<Rightarrow> Returned () (print m2 s3)))) = calls s @ [(Captured, c)]"
  using run_command_keeps_inputs [of w c s] run_command_calls [of w c s]
  by (cases "run_command w c s"; auto split: option.splits)+

lemma list_containers_keeps_inputs: "inputs (final (list_containers w a s)) = inputs s"
  unfolding list_containers_def Let_def by (simp add: listing_step)

lemma list_containers_calls:
  "calls (final (list_containers w a s)) =
     calls s @ [(Captured,
        if a then [lit ''docker'', lit ''ps'', lit ''-a'', lit ''--format'',
           lit ''table {{.ID}}'' @ [9] @ lit ''{{.Names}}'' @ [9] @ lit ''{{.Image}}''
            @ [9] @ lit ''{{.Status}}'' @ [9] @ lit ''{{.Ports}}'']
        else [lit ''docker'', lit ''ps'', lit ''--format'',
           lit ''table {{.ID}}'' @ [9] @ lit ''{{.Names}}'' @ [9] @ lit ''{{.Image}}''
            @ [9] @ lit ''{{.Status}}'' @ [9] @ lit ''{{.Ports}}''])]"
  unfolding list_containers_def Let_def by (simp add: listing_step)

lemma list_images_keeps_inputs: "inputs (final (list_images w s)) = inputs s"
  unfolding list_images_def Let_def by (simp add: listing_step)

lemma list_images_calls:
  "calls (final (list_images w s)) =
     calls s @ [(Captured, [lit ''docker'', lit ''images'', lit ''--format'',
           lit ''table {{.Repository}}'' @ [9] @ lit ''{{.Tag}}'' @ [9] @ lit ''{{.ID}}''
            @ [9] @ lit ''{{.Size}}'' @ [9] @ lit ''{{.CreatedSince}}''])]"
  unfolding list_images_def Let_def by (simp add: listing_step)

lemma after_list_containers:
  assumes "list_containers w a s = Returned () s1"
  shows "inputs s1 = inputs s"
    and "calls s1 = calls s @ [(Captured,
        if a then [lit ''docker'', lit ''ps'', lit ''-a'', lit ''--format'',
           lit ''table {{.ID}}'' @ [9] @ lit ''{{.Names}}'' @ [9] @ lit ''{{.Image}}''
            @ [9] @ lit ''{{.Status}}'' @ [9] @ lit ''{{.Ports}}'']
        else [lit ''docker'', lit ''ps'', lit ''--format'',
           lit ''table {{.ID}}'' @ [9] @ lit ''{{.Names}}'' @ [9] @ lit ''{{.Image}}''
            @ [9] @ lit ''{{.Status}}'' @ [9] @ lit ''{{.Ports}}''])]"
  using assms list_containers_keeps_inputs [of w a s] list_containers_calls [of w a s]
  by simp_all

lemma after_list_images:
  assumes "list_images w s = Returned () s1"
  shows "inputs s1 = inputs s"
    and "calls s1 = calls s @ [(Captured, [lit ''docker'', lit ''images'', lit ''--format'',
           lit ''table {{.Repository}}'' @ [9] @ lit ''{{.Tag}}'' @ [9] @ lit ''{{.ID}}''
            @ [9] @ lit ''{{.Size}}'' @ [9] @ lit ''{{.CreatedSince}}''])]"
  using assms list_images_keeps_inputs [of w s] list_images_calls [of w s]
  by simp_all

section \<open>Destructive operations and the confirmation\<close>

lemma remove_image_declined:
  assumes "list_images w s = Returned () s1"
    and "inputs s = Line raw # Line answer # rest"
    and "strip raw \<noteq> []"
    and "lower (strip answer) \<noteq> lit ''s''"
  shows "remove_image w s =
         Returned ()
           (s1\<lparr>inputs := rest,
              out := out s1 @
                [Print ([10, 128465, 65039] @ lit '' ELIMINAR IMAGEN''),
                 Prompt (lit ''Ingresa el ID o nombre de la imagen a eliminar: ''),
                 Prompt ([191] @ lit ''Est'' @ [225] @ lit ''s seguro de eliminar la imagen ''
                     @ strip raw @ lit ''? (s/N): '')]\<rparr>)"
  unfolding remove_image_def Let_def
  using assms after_list_images(1) [OF assms(1)] by (simp add: input_Line)

lemma remove_container_declined:
  assumes "list_containers w True s = Returned () s1"
    and "inputs s = Line raw # Line answer # rest"
    and "strip raw \<noteq> []"
    and "lower (strip answer) \<noteq> lit ''s''"
  shows "remove_container w s =
         Returned ()
           (s1\<lparr>inputs := rest,
              out := out s1 @
                [Print ([10, 128465, 65039] @ lit '' ELIMINAR CONTENEDOR''),
                 Prompt (lit ''ID o nombre del contenedor a eliminar: ''),
                 Prompt ([191] @ lit ''Est'' @ [225] @ lit ''s seguro de eliminar el contenedor ''
                     @ strip raw @ lit ''? (s/N): '')]\<rparr>)"
  unfolding remove_container_def Let_def
  using assms after_list_containers(1) [OF assms(1)] by (simp add: input_Line)

lemma system_cleanup_declined:
  assumes "inputs s = Line answer # rest"
    and "lower (strip answer) \<noteq> lit ''s''"
  shows "system_cleanup w s =
         Returned ()
           (s\<lparr>inputs := rest,
              out := out s @
              [Print ([10, 129529] @ lit '' LIMPIEZA DEL SISTEMA''),
               Print (lit ''Esto eliminar'' @ [225] @ lit '':''),
               Print (lit ''- Contenedores detenidos''),
               Print (lit ''- Redes no utilizadas''),
               Print (lit ''- Im'' @ [225] @ lit ''genes sin referencia''),
               Print (lit ''- Cach'' @ [233] @ lit '' de construcci'' @ [243] @ lit ''n''),
               Prompt ([10, 191] @ lit ''Continuar con la limpieza? (s/N): '')]\<rparr>)"
  unfolding system_cleanup_def Let_def
  using assms by (simp add: input_Line prints_def print_def)

text \<open>
  C3, as stated, fails: \<open>remove_container\<close> (and \<open>remove_image\<close>) lists the
  resources before it asks anything, so a process has been spawned by the time the
  operator declines.  Here the operator answers \<open>n\<close> and the executor has run
  \<open>docker ps -a\<close>.
\<close>

theorem remove_container_declined_has_spawned:
  "lower (strip (lit ''n'')) \<noteq> lit ''s''
   \<and> calls (terminal [Line (lit ''web1''), Line (lit ''n'')]) = []
   \<and> calls (final (remove_container (world_of (Exit 0 (lit ''CONTAINER ID'') []) False) (terminal [Line (lit ''web1''), Line (lit ''n'')])))
       = [(Captured,
           [lit ''docker'', lit ''ps'', lit ''-a'', lit ''--format'',
           lit ''table {{.ID}}'' @ [9] @ lit ''{{.Names}}'' @ [9] @ lit ''{{.Image}}''
            @ [9] @ lit ''{{.Status}}'' @ [9] @ lit ''{{.Ports}}''])]"
  by (simp add: remove_container_def list_containers_def run_command_def input_def
        concrete_defs)

text \<open>
  C3, amended.  When the answer to the confirmation, trimmed and lowered, is not
  \<open>s\<close> (the empty answer included), a destructive operation returns without
  building its command and without invoking the executor after the question:
  \<open>remove_image\<close> and \<open>remove_container\<close> have by then run their listing
  (\<open>docker images\<close>, \<open>docker ps -a\<close>) and nothing else, and have only printed
  their heading and their two prompts since; \<open>system_cleanup\<close> has invoked
  nothing.
\<close>

theorem declined_confirmation_runs_nothing:
  "(list_images w s = Returned () s1 \<and> inputs s = Line raw # Line answer # rest
      \<and> strip raw \<noteq> [] \<and> lower (strip answer) \<noteq> lit ''s'' \<longrightarrow>
      remove_image w s =
         Returned ()
           (s1\<lparr>inputs := rest,
              out := out s1 @
                [Print ([10, 128465, 65039] @ lit '' ELIMINAR IMAGEN''),
                 Prompt (lit ''Ingresa el ID o nombre de la imagen a eliminar: ''),
                 Prompt ([191] @ lit ''Est'' @ [225] @ lit ''s seguro de eliminar la imagen ''
                     @ strip raw @ lit ''? (s/N): '')]\<rparr>)
      \<and> calls s1 = calls s @ [(Captured,
          [lit ''docker'', lit ''images'', lit ''--format'',
           lit ''table {{.Repository}}'' @ [9] @ lit ''{{.Tag}}'' @ [9] @ lit ''{{.ID}}''
            @ [9] @ lit ''{{.Size}}'' @ [9] @ lit ''{{.CreatedSince}}''])])
   \<and> (list_containers w True s = Returned () s1 \<and> inputs s = Line raw # Line answer # rest
      \<and> strip raw \<noteq> [] \<and> lower (strip answer) \<noteq> lit ''s'' \<longrightarrow>
      remove_container w s =
         Returned ()
           (s1\<lparr>inputs := rest,
              out := out s1 @
                [Print ([10, 128465, 65039] @ lit '' ELIMINAR CONTENEDOR''),
                 Prompt (lit ''ID o nombre del contenedor a eliminar: ''),
                 Prompt ([191] @ lit ''Est'' @ [225] @ lit ''s seguro de eliminar el contenedor ''
                     @ strip raw @ lit ''? (s/N): '')]\<rparr>)
      \<and> calls s1 = calls s @ [(Captured,
          [lit ''docker'', lit ''ps'', lit ''-a'', lit ''--format'',
           lit ''table {{.ID}}'' @ [9] @ lit ''{{.Names}}'' @ [9] @ lit ''{{.Image}}''
            @ [9] @ lit ''{{.Status}}'' @ [9] @ lit ''{{.Ports}}''])])
   \<and> (inputs s = Line answer # rest \<and> lower (strip answer) \<noteq> lit ''s'' \<longrightarrow>
      system_cleanup w s =
         Returned ()
           (s\<lparr>inputs := rest,
              out := out s @
              [Print ([10, 129529] @ lit '' LIMPIEZA DEL SISTEMA''),
               Print (lit ''Esto eliminar'' @ [225] @ lit '':''),
               Print (lit ''- Contenedores detenidos''),
               Print (lit ''- Redes no utilizadas''),
               Print (lit ''- Im'' @ [225] @ lit ''genes sin referencia''),
               Print (lit ''- Cach'' @ [233] @ lit '' de construcci'' @ [243] @ lit ''n''),
               Prompt ([10, 191] @ lit ''Continuar con la limpieza? (s/N): '')]\<rparr>))"
proof (intro conjI impI)
  assume h: "list_images w s = Returned () s1 \<and> inputs s = Line raw # Line answer # rest
      \<and> strip raw \<noteq> [] \<and> lower (strip answer) \<noteq> lit ''s''"
  then show "remove_image w s =
         Returned ()
           (s1\<lparr>inputs := rest,
              out := out s1 @
                [Print ([10, 128465, 65039] @ lit '' ELIMINAR IMAGEN''),
                 Prompt (lit ''Ingresa el ID o nombre de la imagen a eliminar: ''),
                 Prompt ([191] @ lit ''Est'' @ [225] @ lit ''s seguro de eliminar la imagen ''
                     @ strip raw @ lit ''? (s/N): '')]\<rparr>)"
    by (intro remove_image_declined [of w s s1 raw answer rest]) simp_all
  from h after_list_images(2) [of w s s1] show "calls s1 = calls s @ [(Captured,
          [lit ''docker'', lit ''images'', lit ''--format'',
           lit ''table {{.Repository}}'' @ [9] @ lit ''{{.Tag}}'' @ [9] @ lit ''{{.ID}}''
            @ [9] @ lit ''{{.Size}}'' @ [9] @ lit ''{{.CreatedSince}}''])]"
    by simp
next
  assume h: "list_containers w True s = Returned () s1 \<and> inputs s = Line raw # Line answer # rest
      \<and> strip raw \<noteq> [] \<and> lower (strip answer) \<noteq> lit ''s''"
  then show "remove_container w s =
         Returned ()
           (s1\<lparr>inputs := rest,
              out := out s1 @
                [Print ([10, 128465, 65039] @ lit '' ELIMINAR CONTENEDOR''),
                 Prompt (lit ''ID o nombre del contenedor a eliminar: ''),
                 Prompt ([191] @ lit ''Est'' @ [225] @ lit ''s seguro de eliminar el contenedor ''
                     @ strip raw @ lit ''? (s/N): '')]\<rparr>)"
    by (intro remove_container_declined [of w s s1 raw answer rest]) simp_all
  from h after_list_containers(2) [of w True s s1] show "calls s1 = calls s @ [(Captured,
          [lit ''docker'', lit ''ps'', lit ''-a'', lit ''--format'',
           lit ''table {{.ID}}'' @ [9] @ lit ''{{.Names}}'' @ [9] @ lit ''{{.Image}}''
            @ [9] @ lit ''{{.Status}}'' @ [9] @ lit ''{{.Ports}}''])]"
    by simp
next
  assume "inputs s = Line answer # rest \<and> lower (strip answer) \<noteq> lit ''s''"
  then show "system_cleanup w s =
         Returned ()
           (s\<lparr>inputs := rest,
              out := out s @
              [Print ([10, 129529] @ lit '' LIMPIEZA DEL SISTEMA''),
               Print (lit ''Esto eliminar'' @ [225] @ lit '':''),
               Print (lit ''- Contenedores detenidos''),
               Print (lit ''- Redes no utilizadas''),
               Print (lit ''- Im'' @ [225] @ lit ''genes sin referencia''),
               Print (lit ''- Cach'' @ [233] @ lit '' de construcci'' @ [243] @ lit ''n''),
               Prompt ([10, 191] @ lit ''Continuar con la limpieza? (s/N): '')]\<rparr>)"
    by (intro system_cleanup_declined [of s answer rest]) simp_all
qed

theorem declined_confirmation_runs_nothing_witness:
  "remove_image (world_of (Exit 0 (lit ''CONTAINER ID'') []) False) (terminal [Line (lit ''web1''), Line (lit ''n'')])
     = Returned ()
         \<lparr>inputs = [],
            out = [Print ([10, 128230] @ lit '' IM'' @ [193] @ lit ''GENES DOCKER DISPONIBLES:''),
                   Print (str_mul (lit ''-'') 80),
                   Print (lit ''CONTAINER ID''),
                   Print ([10, 128465, 65039] @ lit '' ELIMINAR IMAGEN''),
                   Prompt (lit ''Ingresa el ID o nombre de la imagen a eliminar: ''),
                   Prompt ([191] @ lit ''Est'' @ [225] @ lit ''s seguro de eliminar la imagen ''
                     @ strip (lit ''web1'') @ lit ''? (s/N): '')],
            calls = [(Captured,
              [lit ''docker'', lit ''images'', lit ''--format'',
           lit ''table {{.Repository}}'' @ [9] @ lit ''{{.Tag}}'' @ [9] @ lit ''{{.ID}}''
            @ [9] @ lit ''{{.Size}}'' @ [9] @ lit ''{{.CreatedSince}}''])]\<rparr>
   \<and> remove_container (world_of (Exit 0 (lit ''CONTAINER ID'') []) False) (terminal [Line (lit ''web1''), Line (lit ''n'')])
     = Returned ()
         \<lparr>inputs = [],
            out = [Print ([10, 128051] @ lit '' '' @ lit ''TODOS LOS CONTENEDORES'' @ lit '':''),
                   Print (str_mul (lit ''-'') 100),
                   Print (lit ''CONTAINER ID''),
                   Print ([10, 128465, 65039] @ lit '' ELIMINAR CONTENEDOR''),
                   Prompt (lit ''ID o nombre del contenedor a eliminar: ''),
                   Prompt ([191] @ lit ''Est'' @ [225] @ lit ''s seguro de eliminar el contenedor ''
                     @ strip (lit ''web1'') @ lit ''? (s/N): '')],
            calls = [(Captured,
              [lit ''docker'', lit ''ps'', lit ''-a'', lit ''--format'',
           lit ''table {{.ID}}'' @ [9] @ lit ''{{.Names}}'' @ [9] @ lit ''{{.Image}}''
            @ [9] @ lit ''{{.Status}}'' @ [9] @ lit ''{{.Ports}}''])]\<rparr>
   \<and> system_cleanup (world_of (Exit 0 (lit ''CONTAINER ID'') []) False) (terminal [Line []])
     = Returned ()
         \<lparr>inputs = [],
            out = [Print ([10, 129529] @ lit '' LIMPIEZA DEL SISTEMA''),
               Print (lit ''Esto eliminar'' @ [225] @ lit '':''),
               Print (lit ''- Contenedores detenidos''),
               Print (lit ''- Redes no utilizadas''),
               Print (lit ''- Im'' @ [225] @ lit ''genes sin referencia''),
               Print (lit ''- Cach'' @ [233] @ lit '' de construcci'' @ [243] @ lit ''n''),
               Prompt ([10, 191] @ lit ''Continuar con la limpieza? (s/N): '')],
            calls = []\<rparr>"
proof -
  let ?w = "world_of (Exit 0 (lit ''CONTAINER ID'') []) False"
  let ?s = "terminal [Line (lit ''web1''), Line (lit ''n'')]"
  let ?i = "\<lparr>inputs = [Line (lit ''web1''), Line (lit ''n'')],
            out = [Print ([10, 128230] @ lit '' IM'' @ [193] @ lit ''GENES DOCKER DISPONIBLES:''),
                   Print (str_mul (lit ''-'') 80),
                   Print (lit ''CONTAINER ID'')],
            calls = [(Captured,
              [lit ''docker'', lit ''images'', lit ''--format'',
           lit ''table {{.Repository}}'' @ [9] @ lit ''{{.Tag}}'' @ [9] @ lit ''{{.ID}}''
            @ [9] @ lit ''{{.Size}}'' @ [9] @ lit ''{{.CreatedSince}}''])]\<rparr>"
  let ?c = "\<lparr>inputs = [Line (lit ''web1''), Line (lit ''n'')],
            out = [Print ([10, 128051] @ lit '' '' @ lit ''TODOS LOS CONTENEDORES'' @ lit '':''),
                   Print (str_mul (lit ''-'') 100),
                   Print (lit ''CONTAINER ID'')],
            calls = [(Captured,
              [lit ''docker'', lit ''ps'', lit ''-a'', lit ''--format'',
           lit ''table {{.ID}}'' @ [9] @ lit ''{{.Names}}'' @ [9] @ lit ''{{.Image}}''
            @ [9] @ lit ''{{.Status}}'' @ [9] @ lit ''{{.Ports}}''])]\<rparr>"
  have li: "list_images ?w ?s = Returned () ?i"
    by (simp add: list_images_def run_command_def concrete_defs)
  have lc: "list_containers ?w True ?s = Returned () ?c"
    by (simp add: list_containers_def run_command_def concrete_defs)
  have i: "inputs ?s = Line (lit ''web1'') # Line (lit ''n'') # []"
    "inputs (terminal [Line []]) = Line [] # []"
    by (simp_all add: terminal_def)
  have a: "strip (lit ''web1'') \<noteq> []" "lower (strip (lit ''n'')) \<noteq> lit ''s''"
    "lower (strip []) \<noteq> lit ''s''"
    by (simp_all add: concrete_defs)
  from declined_confirmation_runs_nothing
         [where w = ?w and s = ?s and ?s1.0 = ?i and raw = "lit ''web1''"
            and answer = "lit ''n''" and rest = "[]"] li i a
  have 1: "remove_image ?w ?s = Returned () (?i\<lparr>inputs := [],
              out := out ?i @
                [Print ([10, 128465, 65039] @ lit '' ELIMINAR IMAGEN''),
                 Prompt (lit ''Ingresa el ID o nombre de la imagen a eliminar: ''),
                 Prompt ([191] @ lit ''Est'' @ [225] @ lit ''s seguro de eliminar la imagen ''
                     @ strip (lit ''web1'') @ lit ''? (s/N): '')]\<rparr>)"
    by blast
  from declined_confirmation_runs_nothing
         [where w = ?w and s = ?s and ?s1.0 = ?c and raw = "lit ''web1''"
            and answer = "lit ''n''" and rest = "[]"] lc i a
  have 2: "remove_container ?w ?s = Returned () (?c\<lparr>inputs := [],
              out := out ?c @
                [Print ([10, 128465, 65039] @ lit '' ELIMINAR CONTENEDOR''),
                 Prompt (lit ''ID o nombre del contenedor a eliminar: ''),
                 Prompt ([191] @ lit ''Est'' @ [225] @ lit ''s seguro de eliminar el contenedor ''
                     @ strip (lit ''web1'') @ lit ''? (s/N): '')]\<rparr>)"
    by blast
  from declined_confirmation_runs_nothing
         [where w = ?w and s = "terminal [Line []]" and answer = "[]" and rest = "[]"] i a
  have 3: "system_cleanup ?w (terminal [Line []]) =
         Returned ()
           ((terminal [Line []])\<lparr>inputs := [],
              out := out (terminal [Line []]) @
              [Print ([10, 129529] @ lit '' LIMPIEZA DEL SISTEMA''),
               Print (lit ''Esto eliminar'' @ [225] @ lit '':''),
               Print (lit ''- Contenedores detenidos''),
               Print (lit ''- Redes no utilizadas''),
               Print (lit ''- Im'' @ [225] @ lit ''genes sin referencia''),
               Print (lit ''- Cach'' @ [233] @ lit '' de construcci'' @ [243] @ lit ''n''),
               Prompt ([10, 191] @ lit ''Continuar con la limpieza? (s/N): '')]\<rparr>)"
    by blast
  from 1 2 3 show ?thesis by (simp add: terminal_def)
qed

lemma calls_after_report [simp]:
  "calls (final (bind m (\<lambda>r s. if P r then Returned () (print (a r) s)
                                  else Returned () (print (b r) s)))) = calls (final m)"
  by (cases m) simp_all

text \<open>
  C5, as stated, fails in its last part: container removal is not the only command
  sent with a force flag.  A confirmed \<open>system_cleanup\<close> sends
  \<open>docker system prune -a -f\<close>.
\<close>

theorem system_cleanup_forces:
  "lower (strip (lit ''s'')) = lit ''s''
   \<and> calls (final (system_cleanup (world_of (Exit 0 (lit ''web1'') []) False) (terminal [Line (lit ''s'')])))
       = [(Interactive, [lit ''docker'', lit ''system'', lit ''prune'', lit ''-a'', lit ''-f''])]
   \<and> lit ''-f'' \<in> set [lit ''docker'', lit ''system'', lit ''prune'', lit ''-a'', lit ''-f'']"
  by (simp add: system_cleanup_def run_command_interactive_def input_def prints_def
        concrete_defs)

text \<open>
  C5, amended.  Once the operator has confirmed, \<open>remove_container\<close> hands the
  executor exactly \<open>docker rm -f id\<close>, whatever the engine says about the
  container, and \<open>remove_image\<close> hands it exactly \<open>docker rmi id\<close>, with no
  force flag; in each case it is the only invocation after the listing.  Of the two
  removals the container's alone forces, but it is not the only forced command: a
  confirmed \<open>system_cleanup\<close> hands the executor exactly
  \<open>docker system prune -a -f\<close>.
\<close>

theorem confirmed_removal_tokens:
  "(list_containers w True s = Returned () s1 \<and> inputs s = Line raw # Line answer # rest
      \<and> strip raw \<noteq> [] \<and> lower (strip answer) = lit ''s'' \<longrightarrow>
      calls (final (remove_container w s)) =
        calls s @ [(Captured,
          [lit ''docker'', lit ''ps'', lit ''-a'', lit ''--format'',
           lit ''table {{.ID}}'' @ [9] @ lit ''{{.Names}}'' @ [9] @ lit ''{{.Image}}''
            @ [9] @ lit ''{{.Status}}'' @ [9] @ lit ''{{.Ports}}'']),
          (Captured, [lit ''docker'', lit ''rm'', lit ''-f'', strip raw])])
   \<and> (list_images w s = Returned () s1 \<and> inputs s = Line raw # Line answer # rest
      \<and> strip raw \<noteq> [] \<and> lower (strip answer) = lit ''s'' \<longrightarrow>
      calls (final (remove_image w s)) =
        calls s @ [(Captured,
          [lit ''docker'', lit ''images'', lit ''--format'',
           lit ''table {{.Repository}}'' @ [9] @ lit ''{{.Tag}}'' @ [9] @ lit ''{{.ID}}''
            @ [9] @ lit ''{{.Size}}'' @ [9] @ lit ''{{.CreatedSince}}'']),
          (Captured, [lit ''docker'', lit ''rmi'', strip raw])])
   \<and> (inputs s = Line answer # rest \<and> lower (strip answer) = lit ''s'' \<longrightarrow>
      calls (final (system_cleanup w s)) =
        calls s @ [(Interactive, [lit ''docker'', lit ''system'', lit ''prune'', lit ''-a'', lit ''-f''])])"
proof (intro conjI impI)
  assume h: "list_containers w True s = Returned () s1 \<and> inputs s = Line raw # Line answer # rest
      \<and> strip raw \<noteq> [] \<and> lower (strip answer) = lit ''s''"
  with after_list_containers [of w True s s1]
  show "calls (final (remove_container w s)) =
        calls s @ [(Captured,
          [lit ''docker'', lit ''ps'', lit ''-a'', lit ''--format'',
           lit ''table {{.ID}}'' @ [9] @ lit ''{{.Names}}'' @ [9] @ lit ''{{.Image}}''
            @ [9] @ lit ''{{.Status}}'' @ [9] @ lit ''{{.Ports}}'']),
          (Captured, [lit ''docker'', lit ''rm'', lit ''-f'', strip raw])]"
    unfolding remove_container_def Let_def by (simp add: input_Line)
next
  assume h: "list_images w s = Returned () s1 \<and> inputs s = Line raw # Line answer # rest
      \<and> strip raw \<noteq> [] \<and> lower (strip answer) = lit ''s''"
  with after_list_images [of w s s1]
  show "calls (final (remove_image w s)) =
        calls s @ [(Captured,
          [lit ''docker'', lit ''images'', lit ''--format'',
           lit ''table {{.Repository}}'' @ [9] @ lit ''{{.Tag}}'' @ [9] @ lit ''{{.ID}}''
            @ [9] @ lit ''{{.Size}}'' @ [9] @ lit ''{{.CreatedSince}}'']),
          (Captured, [lit ''docker'', lit ''rmi'', strip raw])]"
    unfolding remove_image_def Let_def by (simp add: input_Line)
next
  assume "inputs s = Line answer # rest \<and> lower (strip answer) = lit ''s''"
  then show "calls (final (system_cleanup w s)) =
        calls s @ [(Interactive, [lit ''docker'', lit ''system'', lit ''prune'', lit ''-a'', lit ''-f''])]"
    unfolding system_cleanup_def Let_def by (simp add: input_Line)
qed

theorem confirmed_removal_tokens_witness:
  "calls (final (remove_container (world_of (Exit 0 (lit ''web1'') []) False) (terminal [Line (lit ''web1''), Line (lit '' S '')])))
     = [(Captured,
          [lit ''docker'', lit ''ps'', lit ''-a'', lit ''--format'',
           lit ''table {{.ID}}'' @ [9] @ lit ''{{.Names}}'' @ [9] @ lit ''{{.Image}}''
            @ [9] @ lit ''{{.Status}}'' @ [9] @ lit ''{{.Ports}}'']),
        (Captured, [lit ''docker'', lit ''rm'', lit ''-f'', lit ''web1''])]
   \<and> calls (final (remove_image (world_of (Exit 0 (lit ''web1'') []) False) (terminal [Line (lit ''web1''), Line (lit '' S '')])))
     = [(Captured,
          [lit ''docker'', lit ''images'', lit ''--format'',
           lit ''table {{.Repository}}'' @ [9] @ lit ''{{.Tag}}'' @ [9] @ lit ''{{.ID}}''
            @ [9] @ lit ''{{.Size}}'' @ [9] @ lit ''{{.CreatedSince}}'']),
        (Captured, [lit ''docker'', lit ''rmi'', lit ''web1''])]
   \<and> calls (final (system_cleanup (world_of (Exit 0 (lit ''web1'') []) False) (terminal [Line (lit '' S '')])))
     = [(Interactive, [lit ''docker'', lit ''system'', lit ''prune'', lit ''-a'', lit ''-f''])]"
proof -
  let ?w = "world_of (Exit 0 (lit ''web1'') []) False"
  let ?s = "terminal [Line (lit ''web1''), Line (lit '' S '')]"
  let ?c = "\<lparr>inputs = [Line (lit ''web1''), Line (lit '' S '')],
            out = [Print ([10, 128051] @ lit '' '' @ lit ''TODOS LOS CONTENEDORES'' @ lit '':''),
                   Print (str_mul (lit ''-'') 100),
                   Print (lit ''web1'')],
            calls = [(Captured,
              [lit ''docker'', lit ''ps'', lit ''-a'', lit ''--format'',
           lit ''table {{.ID}}'' @ [9] @ lit ''{{.Names}}'' @ [9] @ lit ''{{.Image}}''
            @ [9] @ lit ''{{.Status}}'' @ [9] @ lit ''{{.Ports}}''])]\<rparr>"
  let ?i = "\<lparr>inputs = [Line (lit ''web1''), Line (lit '' S '')],
            out = [Print ([10, 128230] @ lit '' IM'' @ [193] @ lit ''GENES DOCKER DISPONIBLES:''),
                   Print (str_mul (lit ''-'') 80),
                   Print (lit ''web1'')],
            calls = [(Captured,
              [lit ''docker'', lit ''images'', lit ''--format'',
           lit ''table {{.Repository}}'' @ [9] @ lit ''{{.Tag}}'' @ [9] @ lit ''{{.ID}}''
            @ [9] @ lit ''{{.Size}}'' @ [9] @ lit ''{{.CreatedSince}}''])]\<rparr>"
  have lc: "list_containers ?w True ?s = Returned () ?c"
    by (simp add: list_containers_def run_command_def concrete_defs)
  have li: "list_images ?w ?s = Returned () ?i"
    by (simp add: list_images_def run_command_def concrete_defs)
  have i: "inputs ?s = Line (lit ''web1'') # Line (lit '' S '') # []"
    by (simp add: terminal_def)
  have a: "strip (lit ''web1'') \<noteq> []" "lower (strip (lit '' S '')) = lit ''s''"
    by (simp_all add: concrete_defs)
  have b: "strip (lit ''web1'') = lit ''web1''" "calls ?s = []"
    by (simp_all add: concrete_defs)
  from confirmed_removal_tokens
         [where w = ?w and s = ?s and ?s1.0 = ?c and raw = "lit ''web1''"
            and answer = "lit '' S ''" and rest = "[]"] lc i a
  have 1: "calls (final (remove_container ?w ?s)) =
        calls ?s @ [(Captured,
          [lit ''docker'', lit ''ps'', lit ''-a'', lit ''--format'',
           lit ''table {{.ID}}'' @ [9] @ lit ''{{.Names}}'' @ [9] @ lit ''{{.Image}}''
            @ [9] @ lit ''{{.Status}}'' @ [9] @ lit ''{{.Ports}}'']),
          (Captured, [lit ''docker'', lit ''rm'', lit ''-f'', strip (lit ''web1'')])]"
    by blast
  from confirmed_removal_tokens
         [where w = ?w and s = ?s and ?s1.0 = ?i and raw = "lit ''web1''"
            and answer = "lit '' S ''" and rest = "[]"] li i a
  have 2: "calls (final (remove_image ?w ?s)) =
        calls ?s @ [(Captured,
          [lit ''docker'', lit ''images'', lit ''--format'',
           lit ''table {{.Repository}}'' @ [9] @ lit ''{{.Tag}}'' @ [9] @ lit ''{{.ID}}''
            @ [9] @ lit ''{{.Size}}'' @ [9] @ lit ''{{.CreatedSince}}'']),
          (Captured, [lit ''docker'', lit ''rmi'', strip (lit ''web1'')])]"
    by blast
  have j: "inputs (terminal [Line (lit '' S '')]) = Line (lit '' S '') # []"
    "calls (terminal [Line (lit '' S '')]) = []"
    by (simp_all add: terminal_def)
  from confirmed_removal_tokens
         [where w = ?w and s = "terminal [Line (lit '' S '')]" and answer = "lit '' S ''"
            and rest = "[]"] j a
  have 3: "calls (final (system_cleanup ?w (terminal [Line (lit '' S '')]))) =
        calls (terminal [Line (lit '' S '')]) @ [(Interactive, [lit ''docker'', lit ''system'', lit ''prune'', lit ''-a'', lit ''-f''])]"
    by blast
  from 1 2 3 b j show ?thesis by simp
qed

section \<open>Building the command of run_container\<close>

lemma calls_after_result [simp]:
  "calls (final (bind m (\<lambda>r s. case r of
       Some t \<Rightarrow> if t \<noteq> [] then Returned () (print (a t) s) else Returned () (print m1 s)
     | None \<Rightarrow> Returned () (print m2 s)))) = calls (final m)"
  by (cases m) (auto split: option.splits)

text \<open>
  C6.  With an image name that is not empty, \<open>run_container\<close> hands the executor
  the token list it builds from the three trimmed answers.  With no container name
  and no port mapping that list is exactly \<open>docker run -d image\<close>; a name adds
  \<open>--name name\<close>, a port mapping adds \<open>-p mapping\<close>, each making the list
  strictly longer; and no token of the list is the empty string.
\<close>

theorem run_container_tokens:
  "(inputs s = Line raw_image # Line raw_name # Line raw_port # rest \<and> strip raw_image \<noteq> [] \<longrightarrow>
      calls (final (run_container w s)) =
        calls s @ [(Captured,
                    run_container_cmd (strip raw_image) (strip raw_name) (strip raw_port))])
   \<and> run_container_cmd image_name [] [] =
         [lit ''docker'', lit ''run'', lit ''-d'', image_name]
   \<and> (container_name \<noteq> [] \<longrightarrow>
         run_container_cmd image_name container_name [] =
           [lit ''docker'', lit ''run'', lit ''-d'', lit ''--name'', container_name, image_name]
         \<and> length (run_container_cmd image_name [] port_mapping)
             < length (run_container_cmd image_name container_name port_mapping))
   \<and> (port_mapping \<noteq> [] \<longrightarrow>
         run_container_cmd image_name [] port_mapping =
           [lit ''docker'', lit ''run'', lit ''-d'', lit ''-p'', port_mapping, image_name]
         \<and> length (run_container_cmd image_name container_name [])
             < length (run_container_cmd image_name container_name port_mapping))
   \<and> (container_name \<noteq> [] \<and> port_mapping \<noteq> [] \<longrightarrow>
         run_container_cmd image_name container_name port_mapping =
           [lit ''docker'', lit ''run'', lit ''-d'', lit ''--name'', container_name,
            lit ''-p'', port_mapping, image_name])
   \<and> (image_name \<noteq> [] \<longrightarrow>
         [] \<notin> set (run_container_cmd image_name container_name port_mapping))"
proof (intro conjI impI)
  assume "inputs s = Line raw_image # Line raw_name # Line raw_port # rest \<and> strip raw_image \<noteq> []"
  then show "calls (final (run_container w s)) =
        calls s @ [(Captured,
                    run_container_cmd (strip raw_image) (strip raw_name) (strip raw_port))]"
    unfolding run_container_def Let_def by (simp add: input_Line)
qed (simp_all add: run_container_cmd_def Let_def)

theorem run_container_tokens_witness:
  "calls (final (run_container (world_of (Exit 0 (lit ''0123456789abcdef'') []) False) (terminal [Line (lit ''nginx:latest''), Line [], Line (lit '' '')])))
     = [(Captured, [lit ''docker'', lit ''run'', lit ''-d'', lit ''nginx:latest''])]
   \<and> run_container_cmd (lit ''nginx:latest'') (lit ''web'') (lit ''8080:80'')
       = [lit ''docker'', lit ''run'', lit ''-d'', lit ''--name'', lit ''web'',
          lit ''-p'', lit ''8080:80'', lit ''nginx:latest'']
   \<and> run_container_cmd (lit ''nginx:latest'') (lit ''web'') []
       = [lit ''docker'', lit ''run'', lit ''-d'', lit ''--name'', lit ''web'', lit ''nginx:latest'']
   \<and> run_container_cmd (lit ''nginx:latest'') [] (lit ''8080:80'')
       = [lit ''docker'', lit ''run'', lit ''-d'', lit ''-p'', lit ''8080:80'', lit ''nginx:latest'']
   \<and> length (run_container_cmd (lit ''nginx:latest'') [] (lit ''8080:80''))
       < length (run_container_cmd (lit ''nginx:latest'') (lit ''web'') (lit ''8080:80''))
   \<and> length (run_container_cmd (lit ''nginx:latest'') (lit ''web'') [])
       < length (run_container_cmd (lit ''nginx:latest'') (lit ''web'') (lit ''8080:80''))
   \<and> [] \<notin> set (run_container_cmd (lit ''nginx:latest'') (lit ''web'') (lit ''8080:80''))"
proof -
  have e: "strip (lit ''nginx:latest'') = lit ''nginx:latest''" "strip [] = []"
    "strip (lit '' '') = []"
    by (simp_all add: concrete_defs)
  have h: "inputs (terminal [Line (lit ''nginx:latest''), Line [], Line (lit '' '')]) = Line (lit ''nginx:latest'') # Line [] # Line (lit '' '') # []"
    "calls (terminal [Line (lit ''nginx:latest''), Line [], Line (lit '' '')]) = []" "lit ''nginx:latest'' \<noteq> []" "lit ''web'' \<noteq> []" "lit ''8080:80'' \<noteq> []"
    by (simp_all add: terminal_def)
  from run_container_tokens
         [where s = "terminal [Line (lit ''nginx:latest''), Line [], Line (lit '' '')]" and w = "world_of (Exit 0 (lit ''0123456789abcdef'') []) False"
            and raw_image = "lit ''nginx:latest''" and raw_name = "[]" and raw_port = "lit '' ''"
            and rest = "[]" and image_name = "lit ''nginx:latest''"
            and container_name = "lit ''web''" and port_mapping = "lit ''8080:80''"]
    run_container_tokens [where image_name = "lit ''nginx:latest''" and container_name = "[]"
            and port_mapping = "[]" and s = "terminal [Line (lit ''nginx:latest''), Line [], Line (lit '' '')]" and w = "world_of (Exit 0 (lit ''0123456789abcdef'') []) False"] e h
  show ?thesis by simp
qed

section \<open>Required answers\<close>

lemma pull_image_blank:
  "inputs s = Line raw # rest \<and> strip raw = [] \<longrightarrow>
      pull_image w s =
        Returned ()
          (s\<lparr>inputs := rest,
             out := out s @
               [Print ([10, 11015, 65039] @ lit '' DESCARGAR IMAGEN''),
                Prompt (lit ''Ingresa el nombre de la imagen (ej: nginx:latest): ''),
                Print ([10060] @ lit '' Nombre de imagen no puede estar vac'' @ [237] @ lit ''o'')]\<rparr>)"
  unfolding pull_image_def Let_def by (simp add: input_Line)

lemma build_image_blank:
  "inputs s = Line raw_path # Line raw # rest \<and> strip raw = [] \<longrightarrow>
      build_image w s =
        Returned ()
          (s\<lparr>inputs := rest,
             out := out s @
               [Print ([10, 128296] @ lit '' CONSTRUIR IMAGEN''),
                Prompt (lit ''Ruta del directorio con Dockerfile (. para actual): ''),
                Prompt (lit ''Nombre para la nueva imagen: ''),
                Print ([10060] @ lit '' Nombre de imagen no puede estar vac'' @ [237] @ lit ''o'')]\<rparr>)"
  unfolding build_image_def Let_def by (simp add: input_Line)

lemma build_image_no_dockerfile:
  "inputs s = Line raw_path # Line raw # rest \<and> strip raw \<noteq> []
      \<and> \<not> path_exists w (calls s)
            ((if strip raw_path \<noteq> [] then strip raw_path else lit ''.'') @ lit ''/Dockerfile'') \<longrightarrow>
      build_image w s =
        Returned ()
          (s\<lparr>inputs := rest,
             out := out s @
               [Print ([10, 128296] @ lit '' CONSTRUIR IMAGEN''),
                Prompt (lit ''Ruta del directorio con Dockerfile (. para actual): ''),
                Prompt (lit ''Nombre para la nueva imagen: ''),
                Print ([10060] @ lit '' No se encontr'' @ [243] @ lit '' Dockerfile en ''
                       @ (if strip raw_path \<noteq> [] then strip raw_path else lit ''.''))]\<rparr>)"
  unfolding build_image_def Let_def by (simp add: input_Line)

lemma run_container_blank:
  "inputs s = Line raw # Line raw_name # Line raw_port # rest \<and> strip raw = [] \<longrightarrow>
      run_container w s =
        Returned ()
          (s\<lparr>inputs := rest,
             out := out s @
               [Print ([10, 128640] @ lit '' EJECUTAR CONTENEDOR''),
                Prompt (lit ''Nombre de la imagen: ''),
                Prompt (lit ''Nombre del contenedor (opcional): ''),
                Prompt (lit ''Mapeo de puertos (ej: 8080:80, opcional): ''),
                Print ([10060] @ lit '' Nombre de imagen no puede estar vac'' @ [237] @ lit ''o'')]\<rparr>)"
  unfolding run_container_def Let_def by (simp add: input_Line)

lemma remove_image_blank:
  "list_images w s = Returned () si \<and> inputs s = Line raw # rest \<and> strip raw = [] \<longrightarrow>
      remove_image w s =
        Returned ()
          (si\<lparr>inputs := rest,
             out := out si @
               [Print ([10, 128465, 65039] @ lit '' ELIMINAR IMAGEN''),
                Prompt (lit ''Ingresa el ID o nombre de la imagen a eliminar: ''),
                Print ([10060] @ lit '' ID de imagen no puede estar vac'' @ [237] @ lit ''o'')]\<rparr>)
      \<and> calls si = calls s @ [(Captured,
          [lit ''docker'', lit ''images'', lit ''--format'',
           lit ''table {{.Repository}}'' @ [9] @ lit ''{{.Tag}}'' @ [9] @ lit ''{{.ID}}''
            @ [9] @ lit ''{{.Size}}'' @ [9] @ lit ''{{.CreatedSince}}''])]"
proof (intro impI)
  assume "list_images w s = Returned () si \<and> inputs s = Line raw # rest \<and> strip raw = []"
  with after_list_images [of w s si]
  show "remove_image w s =
        Returned ()
          (si\<lparr>inputs := rest,
             out := out si @
               [Print ([10, 128465, 65039] @ lit '' ELIMINAR IMAGEN''),
                Prompt (lit ''Ingresa el ID o nombre de la imagen a eliminar: ''),
                Print ([10060] @ lit '' ID de imagen no puede estar vac'' @ [237] @ lit ''o'')]\<rparr>)
      \<and> calls si = calls s @ [(Captured,
          [lit ''docker'', lit ''images'', lit ''--format'',
           lit ''table {{.Repository}}'' @ [9] @ lit ''{{.Tag}}'' @ [9] @ lit ''{{.ID}}''
            @ [9] @ lit ''{{.Size}}'' @ [9] @ lit ''{{.CreatedSince}}''])]"
    unfolding remove_image_def Let_def by (simp add: input_Line)
qed

lemma stop_container_blank:
  "list_containers w True s = Returned () sc \<and> inputs s = Line raw # rest \<and> strip raw = [] \<longrightarrow>
      stop_container w s =
        Returned ()
          (sc\<lparr>inputs := rest,
             out := out sc @
               [Print ([10, 9209, 65039] @ lit '' DETENER CONTENEDOR''),
                Prompt (lit ''ID o nombre del contenedor a detener: ''),
                Print ([10060] @ lit '' ID de contenedor no puede estar vac'' @ [237] @ lit ''o'')]\<rparr>)
      \<and> calls sc = calls s @ [(Captured,
          [lit ''docker'', lit ''ps'', lit ''-a'', lit ''--format'',
           lit ''table {{.ID}}'' @ [9] @ lit ''{{.Names}}'' @ [9] @ lit ''{{.Image}}''
            @ [9] @ lit ''{{.Status}}'' @ [9] @ lit ''{{.Ports}}''])]"
proof (intro impI)
  assume "list_containers w True s = Returned () sc \<and> inputs s = Line raw # rest \<and> strip raw = []"
  with after_list_containers [of w True s sc]
  show "stop_container w s =
        Returned ()
          (sc\<lparr>inputs := rest,
             out := out sc @
               [Print ([10, 9209, 65039] @ lit '' DETENER CONTENEDOR''),
                Prompt (lit ''ID o nombre del contenedor a detener: ''),
                Print ([10060] @ lit '' ID de contenedor no puede estar vac'' @ [237] @ lit ''o'')]\<rparr>)
      \<and> calls sc = calls s @ [(Captured,
          [lit ''docker'', lit ''ps'', lit ''-a'', lit ''--format'',
           lit ''table {{.ID}}'' @ [9] @ lit ''{{.Names}}'' @ [9] @ lit ''{{.Image}}''
            @ [9] @ lit ''{{.Status}}'' @ [9] @ lit ''{{.Ports}}''])]"
    unfolding stop_container_def Let_def by (simp add: input_Line)
qed

lemma start_container_blank:
  "list_containers w True s = Returned () sc \<and> inputs s = Line raw # rest \<and> strip raw = [] \<longrightarrow>
      start_container w s =
        Returned ()
          (sc\<lparr>inputs := rest,
             out := out sc @
               [Print ([10, 9654, 65039] @ lit '' INICIAR CONTENEDOR''),
                Prompt (lit ''ID o nombre del contenedor a iniciar: ''),
                Print ([10060] @ lit '' ID de contenedor no puede estar vac'' @ [237] @ lit ''o'')]\<rparr>)
      \<and> calls sc = calls s @ [(Captured,
          [lit ''docker'', lit ''ps'', lit ''-a'', lit ''--format'',
           lit ''table {{.ID}}'' @ [9] @ lit ''{{.Names}}'' @ [9] @ lit ''{{.Image}}''
            @ [9] @ lit ''{{.Status}}'' @ [9] @ lit ''{{.Ports}}''])]"
proof (intro impI)
  assume "list_containers w True s = Returned () sc \<and> inputs s = Line raw # rest \<and> strip raw = []"
  with after_list_containers [of w True s sc]
  show "start_container w s =
        Returned ()
          (sc\<lparr>inputs := rest,
             out := out sc @
               [Print ([10, 9654, 65039] @ lit '' INICIAR CONTENEDOR''),
                Prompt (lit ''ID o nombre del contenedor a iniciar: ''),
                Print ([10060] @ lit '' ID de contenedor no puede estar vac'' @ [237] @ lit ''o'')]\<rparr>)
      \<and> calls sc = calls s @ [(Captured,
          [lit ''docker'', lit ''ps'', lit ''-a'', lit ''--format'',
           lit ''table {{.ID}}'' @ [9] @ lit ''{{.Names}}'' @ [9] @ lit ''{{.Image}}''
            @ [9] @ lit ''{{.Status}}'' @ [9] @ lit ''{{.Ports}}''])]"
    unfolding start_container_def Let_def by (simp add: input_Line)
qed

lemma restart_container_blank:
  "list_containers w True s = Returned () sc \<and> inputs s = Line raw # rest \<and> strip raw = [] \<longrightarrow>
      restart_container w s =
        Returned ()
          (sc\<lparr>inputs := rest,
             out := out sc @
               [Print ([10, 128260] @ lit '' REINICIAR CONTENEDOR''),
                Prompt (lit ''ID o nombre del contenedor a reiniciar: ''),
                Print ([10060] @ lit '' ID de contenedor no puede estar vac'' @ [237] @ lit ''o'')]\<rparr>)
      \<and> calls sc = calls s @ [(Captured,
          [lit ''docker'', lit ''ps'', lit ''-a'', lit ''--format'',
           lit ''table {{.ID}}'' @ [9] @ lit ''{{.Names}}'' @ [9] @ lit ''{{.Image}}''
            @ [9] @ lit ''{{.Status}}'' @ [9] @ lit ''{{.Ports}}''])]"
proof (intro impI)
  assume "list_containers w True s = Returned () sc \<and> inputs s = Line raw # rest \<and> strip raw = []"
  with after_list_containers [of w True s sc]
  show "restart_container w s =
        Returned ()
          (sc\<lparr>inputs := rest,
             out := out sc @
               [Print ([10, 128260] @ lit '' REINICIAR CONTENEDOR''),
                Prompt (lit ''ID o nombre del contenedor a reiniciar: ''),
                Print ([10060] @ lit '' ID de contenedor no puede estar vac'' @ [237] @ lit ''o'')]\<rparr>)
      \<and> calls sc = calls s @ [(Captured,
          [lit ''docker'', lit ''ps'', lit ''-a'', lit ''--format'',
           lit ''table {{.ID}}'' @ [9] @ lit ''{{.Names}}'' @ [9] @ lit ''{{.Image}}''
            @ [9] @ lit ''{{.Status}}'' @ [9] @ lit ''{{.Ports}}''])]"
    unfolding restart_container_def Let_def by (simp add: input_Line)
qed

lemma remove_container_blank:
  "list_containers w True s = Returned () sc \<and> inputs s = Line raw # rest \<and> strip raw = [] \<longrightarrow>
      remove_container w s =
        Returned ()
          (sc\<lparr>inputs := rest,
             out := out sc @
               [Print ([10, 128465, 65039] @ lit '' ELIMINAR CONTENEDOR''),
                Prompt (lit ''ID o nombre del contenedor a eliminar: ''),
                Print ([10060] @ lit '' ID de contenedor no puede estar vac'' @ [237] @ lit ''o'')]\<rparr>)
      \<and> calls sc = calls s @ [(Captured,
          [lit ''docker'', lit ''ps'', lit ''-a'', lit ''--format'',
           lit ''table {{.ID}}'' @ [9] @ lit ''{{.Names}}'' @ [9] @ lit ''{{.Image}}''
            @ [9] @ lit ''{{.Status}}'' @ [9] @ lit ''{{.Ports}}''])]"
proof (intro impI)
  assume "list_containers w True s = Returned () sc \<and> inputs s = Line raw # rest \<and> strip raw = []"
  with after_list_containers [of w True s sc]
  show "remove_container w s =
        Returned ()
          (sc\<lparr>inputs := rest,
             out := out sc @
               [Print ([10, 128465, 65039] @ lit '' ELIMINAR CONTENEDOR''),
                Prompt (lit ''ID o nombre del contenedor a eliminar: ''),
                Print ([10060] @ lit '' ID de contenedor no puede estar vac'' @ [237] @ lit ''o'')]\<rparr>)
      \<and> calls sc = calls s @ [(Captured,
          [lit ''docker'', lit ''ps'', lit ''-a'', lit ''--format'',
           lit ''table {{.ID}}'' @ [9] @ lit ''{{.Names}}'' @ [9] @ lit ''{{.Image}}''
            @ [9] @ lit ''{{.Status}}'' @ [9] @ lit ''{{.Ports}}''])]"
    unfolding remove_container_def Let_def by (simp add: input_Line)
qed

lemma view_logs_blank:
  "list_containers w True s = Returned () sc \<and> inputs s = Line raw # rest \<and> strip raw = [] \<longrightarrow>
      view_logs w s =
        Returned ()
          (sc\<lparr>inputs := rest,
             out := out sc @
               [Print ([10, 128203] @ lit '' VER LOGS''),
                Prompt (lit ''ID o nombre del contenedor: ''),
                Print ([10060] @ lit '' ID de contenedor no puede estar vac'' @ [237] @ lit ''o'')]\<rparr>)
      \<and> calls sc = calls s @ [(Captured,
          [lit ''docker'', lit ''ps'', lit ''-a'', lit ''--format'',
           lit ''table {{.ID}}'' @ [9] @ lit ''{{.Names}}'' @ [9] @ lit ''{{.Image}}''
            @ [9] @ lit ''{{.Status}}'' @ [9] @ lit ''{{.Ports}}''])]"
proof (intro impI)
  assume "list_containers w True s = Returned () sc \<and> inputs s = Line raw # rest \<and> strip raw = []"
  with after_list_containers [of w True s sc]
  show "view_logs w s =
        Returned ()
          (sc\<lparr>inputs := rest,
             out := out sc @
               [Print ([10, 128203] @ lit '' VER LOGS''),
                Prompt (lit ''ID o nombre del contenedor: ''),
                Print ([10060] @ lit '' ID de contenedor no puede estar vac'' @ [237] @ lit ''o'')]\<rparr>)
      \<and> calls sc = calls s @ [(Captured,
          [lit ''docker'', lit ''ps'', lit ''-a'', lit ''--format'',
           lit ''table {{.ID}}'' @ [9] @ lit ''{{.Names}}'' @ [9] @ lit ''{{.Image}}''
            @ [9] @ lit ''{{.Status}}'' @ [9] @ lit ''{{.Ports}}''])]"
    unfolding view_logs_def Let_def by (simp add: input_Line)
qed

lemma exec_container_blank:
  "list_containers w False s = Returned () sa \<and> inputs s = Line raw # rest \<and> strip raw = [] \<longrightarrow>
      exec_container w s =
        Returned ()
          (sa\<lparr>inputs := rest,
             out := out sa @
               [Print ([10, 128187] @ lit '' EJECUTAR COMANDO EN CONTENEDOR''),
                Prompt (lit ''ID o nombre del contenedor: ''),
                Print ([10060] @ lit '' ID de contenedor no puede estar vac'' @ [237] @ lit ''o'')]\<rparr>)
      \<and> calls sa = calls s @ [(Captured,
          [lit ''docker'', lit ''ps'', lit ''--format'',
           lit ''table {{.ID}}'' @ [9] @ lit ''{{.Names}}'' @ [9] @ lit ''{{.Image}}''
            @ [9] @ lit ''{{.Status}}'' @ [9] @ lit ''{{.Ports}}''])]"
proof (intro impI)
  assume "list_containers w False s = Returned () sa \<and> inputs s = Line raw # rest \<and> strip raw = []"
  with after_list_containers [of w False s sa]
  show "exec_container w s =
        Returned ()
          (sa\<lparr>inputs := rest,
             out := out sa @
               [Print ([10, 128187] @ lit '' EJECUTAR COMANDO EN CONTENEDOR''),
                Prompt (lit ''ID o nombre del contenedor: ''),
                Print ([10060] @ lit '' ID de contenedor no puede estar vac'' @ [237] @ lit ''o'')]\<rparr>)
      \<and> calls sa = calls s @ [(Captured,
          [lit ''docker'', lit ''ps'', lit ''--format'',
           lit ''table {{.ID}}'' @ [9] @ lit ''{{.Names}}'' @ [9] @ lit ''{{.Image}}''
            @ [9] @ lit ''{{.Status}}'' @ [9] @ lit ''{{.Ports}}''])]"
    unfolding exec_container_def Let_def by (simp add: input_Line)
qed

text \<open>
  C7, as stated, fails for the operations that list before they ask:
  \<open>stop_container\<close> has already invoked the executor (\<open>docker ps -a\<close>) when
  it finds the identifier blank.
\<close>

theorem stop_container_blank_has_spawned:
  "strip (lit '' '') = []
   \<and> calls (terminal [Line (lit '' ''), Line [], Line []]) = []
   \<and> calls (final (stop_container (world_of (Exit 0 (lit ''CONTAINER ID'') []) False) (terminal [Line (lit '' ''), Line [], Line []])))
       = [(Captured,
           [lit ''docker'', lit ''ps'', lit ''-a'', lit ''--format'',
           lit ''table {{.ID}}'' @ [9] @ lit ''{{.Names}}'' @ [9] @ lit ''{{.Image}}''
            @ [9] @ lit ''{{.Status}}'' @ [9] @ lit ''{{.Ports}}''])]"
  by (simp add: stop_container_def list_containers_def run_command_def input_def concrete_defs)

text \<open>
  C7, amended.  When the required answer of an operation is empty once trimmed, the
  operation prints its validation message and returns, and the executor is not
  invoked for the operation's own command: \<open>pull_image\<close>, \<open>build_image\<close> and
  \<open>run_container\<close> invoke nothing at all; the operations that list first
  (\<open>remove_image\<close>, \<open>stop_container\<close>, \<open>start_container\<close>,
  \<open>restart_container\<close>, \<open>remove_container\<close>, \<open>view_logs\<close>,
  \<open>exec_container\<close>) have invoked it once, for the listing, and not again.
  \<open>build_image\<close> with a name but no \<open>Dockerfile\<close> under the given path (the
  current directory when the path is blank) prints its message and invokes nothing.
\<close>

theorem blank_required_input_rejected:
  "(inputs s = Line raw # rest \<and> strip raw = [] \<longrightarrow>
      pull_image w s =
        Returned ()
          (s\<lparr>inputs := rest,
             out := out s @
               [Print ([10, 11015, 65039] @ lit '' DESCARGAR IMAGEN''),
                Prompt (lit ''Ingresa el nombre de la imagen (ej: nginx:latest): ''),
                Print ([10060] @ lit '' Nombre de imagen no puede estar vac'' @ [237] @ lit ''o'')]\<rparr>))
   \<and> (inputs s = Line raw_path # Line raw # rest \<and> strip raw = [] \<longrightarrow>
      build_image w s =
        Returned ()
          (s\<lparr>inputs := rest,
             out := out s @
               [Print ([10, 128296] @ lit '' CONSTRUIR IMAGEN''),
                Prompt (lit ''Ruta del directorio con Dockerfile (. para actual): ''),
                Prompt (lit ''Nombre para la nueva imagen: ''),
                Print ([10060] @ lit '' Nombre de imagen no puede estar vac'' @ [237] @ lit ''o'')]\<rparr>))
   \<and> (inputs s = Line raw_path # Line raw # rest \<and> strip raw \<noteq> []
      \<and> \<not> path_exists w (calls s)
            ((if strip raw_path \<noteq> [] then strip raw_path else lit ''.'') @ lit ''/Dockerfile'') \<longrightarrow>
      build_image w s =
        Returned ()
          (s\<lparr>inputs := rest,
             out := out s @
               [Print ([10, 128296] @ lit '' CONSTRUIR IMAGEN''),
                Prompt (lit ''Ruta del directorio con Dockerfile (. para actual): ''),
                Prompt (lit ''Nombre para la nueva imagen: ''),
                Print ([10060] @ lit '' No se encontr'' @ [243] @ lit '' Dockerfile en ''
                       @ (if strip raw_path \<noteq> [] then strip raw_path else lit ''.''))]\<rparr>))
   \<and> (inputs s = Line raw # Line raw_name # Line raw_port # rest \<and> strip raw = [] \<longrightarrow>
      run_container w s =
        Returned ()
          (s\<lparr>inputs := rest,
             out := out s @
               [Print ([10, 128640] @ lit '' EJECUTAR CONTENEDOR''),
                Prompt (lit ''Nombre de la imagen: ''),
                Prompt (lit ''Nombre del contenedor (opcional): ''),
                Prompt (lit ''Mapeo de puertos (ej: 8080:80, opcional): ''),
                Print ([10060] @ lit '' Nombre de imagen no puede estar vac'' @ [237] @ lit ''o'')]\<rparr>))
   \<and> (list_images w s = Returned () si \<and> inputs s = Line raw # rest \<and> strip raw = [] \<longrightarrow>
      remove_image w s =
        Returned ()
          (si\<lparr>inputs := rest,
             out := out si @
               [Print ([10, 128465, 65039] @ lit '' ELIMINAR IMAGEN''),
                Prompt (lit ''Ingresa el ID o nombre de la imagen a eliminar: ''),
                Print ([10060] @ lit '' ID de imagen no puede estar vac'' @ [237] @ lit ''o'')]\<rparr>)
      \<and> calls si = calls s @ [(Captured,
          [lit ''docker'', lit ''images'', lit ''--format'',
           lit ''table {{.Repository}}'' @ [9] @ lit ''{{.Tag}}'' @ [9] @ lit ''{{.ID}}''
            @ [9] @ lit ''{{.Size}}'' @ [9] @ lit ''{{.CreatedSince}}''])])
   \<and> (list_containers w True s = Returned () sc \<and> inputs s = Line raw # rest \<and> strip raw = [] \<longrightarrow>
      stop_container w s =
        Returned ()
          (sc\<lparr>inputs := rest,
             out := out sc @
               [Print ([10, 9209, 65039] @ lit '' DETENER CONTENEDOR''),
                Prompt (lit ''ID o nombre del contenedor a detener: ''),
                Print ([10060] @ lit '' ID de contenedor no puede estar vac'' @ [237] @ lit ''o'')]\<rparr>)
      \<and> calls sc = calls s @ [(Captured,
          [lit ''docker'', lit ''ps'', lit ''-a'', lit ''--format'',
           lit ''table {{.ID}}'' @ [9] @ lit ''{{.Names}}'' @ [9] @ lit ''{{.Image}}''
            @ [9] @ lit ''{{.Status}}'' @ [9] @ lit ''{{.Ports}}''])])
   \<and> (list_containers w True s = Returned () sc \<and> inputs s = Line raw # rest \<and> strip raw = [] \<longrightarrow>
      start_container w s =
        Returned ()
          (sc\<lparr>inputs := rest,
             out := out sc @
               [Print ([10, 9654, 65039] @ lit '' INICIAR CONTENEDOR''),
                Prompt (lit ''ID o nombre del contenedor a iniciar: ''),
                Print ([10060] @ lit '' ID de contenedor no puede estar vac'' @ [237] @ lit ''o'')]\<rparr>)
      \<and> calls sc = calls s @ [(Captured,
          [lit ''docker'', lit ''ps'', lit ''-a'', lit ''--format'',
           lit ''table {{.ID}}'' @ [9] @ lit ''{{.Names}}'' @ [9] @ lit ''{{.Image}}''
            @ [9] @ lit ''{{.Status}}'' @ [9] @ lit ''{{.Ports}}''])])
   \<and> (list_containers w True s = Returned () sc \<and> inputs s = Line raw # rest \<and> strip raw = [] \<longrightarrow>
      restart_container w s =
        Returned ()
          (sc\<lparr>inputs := rest,
             out := out sc @
               [Print ([10, 128260] @ lit '' REINICIAR CONTENEDOR''),
                Prompt (lit ''ID o nombre del contenedor a reiniciar: ''),
                Print ([10060] @ lit '' ID de contenedor no puede estar vac'' @ [237] @ lit ''o'')]\<rparr>)
      \<and> calls sc = calls s @ [(Captured,
          [lit ''docker'', lit ''ps'', lit ''-a'', lit ''--format'',
           lit ''table {{.ID}}'' @ [9] @ lit ''{{.Names}}'' @ [9] @ lit ''{{.Image}}''
            @ [9] @ lit ''{{.Status}}'' @ [9] @ lit ''{{.Ports}}''])])
   \<and> (list_containers w True s = Returned () sc \<and> inputs s = Line raw # rest \<and> strip raw = [] \<longrightarrow>
      remove_container w s =
        Returned ()
          (sc\<lparr>inputs := rest,
             out := out sc @
               [Print ([10, 128465, 65039] @ lit '' ELIMINAR CONTENEDOR''),
                Prompt (lit ''ID o nombre del contenedor a eliminar: ''),
                Print ([10060] @ lit '' ID de contenedor no puede estar vac'' @ [237] @ lit ''o'')]\<rparr>)
      \<and> calls sc = calls s @ [(Captured,
          [lit ''docker'', lit ''ps'', lit ''-a'', lit ''--format'',
           lit ''table {{.ID}}'' @ [9] @ lit ''{{.Names}}'' @ [9] @ lit ''{{.Image}}''
            @ [9] @ lit ''{{.Status}}'' @ [9] @ lit ''{{.Ports}}''])])
   \<and> (list_containers w True s = Returned () sc \<and> inputs s = Line raw # rest \<and> strip raw = [] \<longrightarrow>
      view_logs w s =
        Returned ()
          (sc\<lparr>inputs := rest,
             out := out sc @
               [Print ([10, 128203] @ lit '' VER LOGS''),
                Prompt (lit ''ID o nombre del contenedor: ''),
                Print ([10060] @ lit '' ID de contenedor no puede estar vac'' @ [237] @ lit ''o'')]\<rparr>)
      \<and> calls sc = calls s @ [(Captured,
          [lit ''docker'', lit ''ps'', lit ''-a'', lit ''--format'',
           lit ''table {{.ID}}'' @ [9] @ lit ''{{.Names}}'' @ [9] @ lit ''{{.Image}}''
            @ [9] @ lit ''{{.Status}}'' @ [9] @ lit ''{{.Ports}}''])])
   \<and> (list_containers w False s = Returned () sa \<and> inputs s = Line raw # rest \<and> strip raw = [] \<longrightarrow>
      exec_container w s =
        Returned ()
          (sa\<lparr>inputs := rest,
             out := out sa @
               [Print ([10, 128187] @ lit '' EJECUTAR COMANDO EN CONTENEDOR''),
                Prompt (lit ''ID o nombre del contenedor: ''),
                Print ([10060] @ lit '' ID de contenedor no puede estar vac'' @ [237] @ lit ''o'')]\<rparr>)
      \<and> calls sa = calls s @ [(Captured,
          [lit ''docker'', lit ''ps'', lit ''--format'',
           lit ''table {{.ID}}'' @ [9] @ lit ''{{.Names}}'' @ [9] @ lit ''{{.Image}}''
            @ [9] @ lit ''{{.Status}}'' @ [9] @ lit ''{{.Ports}}''])])"
  by (intro conjI)
     (rule pull_image_blank,
      rule build_image_blank,
      rule build_image_no_dockerfile,
      rule run_container_blank,
      rule remove_image_blank,
      rule stop_container_blank,
      rule start_container_blank,
      rule restart_container_blank,
      rule remove_container_blank,
      rule view_logs_blank,
      rule exec_container_blank)

theorem blank_required_input_rejected_witness:
  "pull_image (world_of (Exit 0 (lit ''CONTAINER ID'') []) False) (terminal [Line (lit '' ''), Line [], Line []])
     = Returned ()
         \<lparr>inputs = [Line [], Line []],
            out = [Print ([10, 11015, 65039] @ lit '' DESCARGAR IMAGEN''),
                   Prompt (lit ''Ingresa el nombre de la imagen (ej: nginx:latest): ''),
                   Print ([10060] @ lit '' Nombre de imagen no puede estar vac'' @ [237] @ lit ''o'')],
            calls = []\<rparr>
   \<and> build_image (world_of (Exit 0 (lit ''CONTAINER ID'') []) False) (terminal [Line (lit '' ''), Line [], Line []])
     = Returned ()
         \<lparr>inputs = [Line []],
            out = [Print ([10, 128296] @ lit '' CONSTRUIR IMAGEN''),
                   Prompt (lit ''Ruta del directorio con Dockerfile (. para actual): ''),
                   Prompt (lit ''Nombre para la nueva imagen: ''),
                   Print ([10060] @ lit '' Nombre de imagen no puede estar vac'' @ [237] @ lit ''o'')],
            calls = []\<rparr>
   \<and> build_image (world_of (Exit 0 (lit ''CONTAINER ID'') []) False) (terminal [Line [], Line (lit ''app'')])
     = Returned ()
         \<lparr>inputs = [],
            out = [Print ([10, 128296] @ lit '' CONSTRUIR IMAGEN''),
                   Prompt (lit ''Ruta del directorio con Dockerfile (. para actual): ''),
                   Prompt (lit ''Nombre para la nueva imagen: ''),
                   Print ([10060] @ lit '' No se encontr'' @ [243] @ lit '' Dockerfile en '' @ lit ''.'')],
            calls = []\<rparr>
   \<and> run_container (world_of (Exit 0 (lit ''CONTAINER ID'') []) False) (terminal [Line (lit '' ''), Line [], Line []])
     = Returned ()
         \<lparr>inputs = [],
            out = [Print ([10, 128640] @ lit '' EJECUTAR CONTENEDOR''),
                   Prompt (lit ''Nombre de la imagen: ''),
                   Prompt (lit ''Nombre del contenedor (opcional): ''),
                   Prompt (lit ''Mapeo de puertos (ej: 8080:80, opcional): ''),
                   Print ([10060] @ lit '' Nombre de imagen no puede estar vac'' @ [237] @ lit ''o'')],
            calls = []\<rparr>
   \<and> remove_image (world_of (Exit 0 (lit ''CONTAINER ID'') []) False) (terminal [Line (lit '' ''), Line [], Line []])
     = Returned ()
         \<lparr>inputs = [Line [], Line []],
            out = [Print ([10, 128230] @ lit '' IM'' @ [193] @ lit ''GENES DOCKER DISPONIBLES:''),
                   Print (str_mul (lit ''-'') 80),
                   Print (lit ''CONTAINER ID''),
                   Print ([10, 128465, 65039] @ lit '' ELIMINAR IMAGEN''),
                   Prompt (lit ''Ingresa el ID o nombre de la imagen a eliminar: ''),
                   Print ([10060] @ lit '' ID de imagen no puede estar vac'' @ [237] @ lit ''o'')],
            calls = [(Captured,
              [lit ''docker'', lit ''images'', lit ''--format'',
           lit ''table {{.Repository}}'' @ [9] @ lit ''{{.Tag}}'' @ [9] @ lit ''{{.ID}}''
            @ [9] @ lit ''{{.Size}}'' @ [9] @ lit ''{{.CreatedSince}}''])]\<rparr>
   \<and> stop_container (world_of (Exit 0 (lit ''CONTAINER ID'') []) False) (terminal [Line (lit '' ''), Line [], Line []])
     = Returned ()
         \<lparr>inputs = [Line [], Line []],
            out = [Print ([10, 128051] @ lit '' '' @ lit ''TODOS LOS CONTENEDORES'' @ lit '':''),
                   Print (str_mul (lit ''-'') 100),
                   Print (lit ''CONTAINER ID''),
                   Print ([10, 9209, 65039] @ lit '' DETENER CONTENEDOR''),
                   Prompt (lit ''ID o nombre del contenedor a detener: ''),
                   Print ([10060] @ lit '' ID de contenedor no puede estar vac'' @ [237] @ lit ''o'')],
            calls = [(Captured,
              [lit ''docker'', lit ''ps'', lit ''-a'', lit ''--format'',
           lit ''table {{.ID}}'' @ [9] @ lit ''{{.Names}}'' @ [9] @ lit ''{{.Image}}''
            @ [9] @ lit ''{{.Status}}'' @ [9] @ lit ''{{.Ports}}''])]\<rparr>
   \<and> start_container (world_of (Exit 0 (lit ''CONTAINER ID'') []) False) (terminal [Line (lit '' ''), Line [], Line []])
     = Returned ()
         \<lparr>inputs = [Line [], Line []],
            out = [Print ([10, 128051] @ lit '' '' @ lit ''TODOS LOS CONTENEDORES'' @ lit '':''),
                   Print (str_mul (lit ''-'') 100),
                   Print (lit ''CONTAINER ID''),
                   Print ([10, 9654, 65039] @ lit '' INICIAR CONTENEDOR''),
                   Prompt (lit ''ID o nombre del contenedor a iniciar: ''),
                   Print ([10060] @ lit '' ID de contenedor no puede estar vac'' @ [237] @ lit ''o'')],
            calls = [(Captured,
              [lit ''docker'', lit ''ps'', lit ''-a'', lit ''--format'',
           lit ''table {{.ID}}'' @ [9] @ lit ''{{.Names}}'' @ [9] @ lit ''{{.Image}}''
            @ [9] @ lit ''{{.Status}}'' @ [9] @ lit ''{{.Ports}}''])]\<rparr>
   \<and> restart_container (world_of (Exit 0 (lit ''CONTAINER ID'') []) False) (terminal [Line (lit '' ''), Line [], Line []])
     = Returned ()
         \<lparr>inputs = [Line [], Line []],
            out = [Print ([10, 128051] @ lit '' '' @ lit ''TODOS LOS CONTENEDORES'' @ lit '':''),
                   Print (str_mul (lit ''-'') 100),
                   Print (lit ''CONTAINER ID''),
                   Print ([10, 128260] @ lit '' REINICIAR CONTENEDOR''),
                   Prompt (lit ''ID o nombre del contenedor a reiniciar: ''),
                   Print ([10060] @ lit '' ID de contenedor no puede estar vac'' @ [237] @ lit ''o'')],
            calls = [(Captured,
              [lit ''docker'', lit ''ps'', lit ''-a'', lit ''--format'',
           lit ''table {{.ID}}'' @ [9] @ lit ''{{.Names}}'' @ [9] @ lit ''{{.Image}}''
            @ [9] @ lit ''{{.Status}}'' @ [9] @ lit ''{{.Ports}}''])]\<rparr>
   \<and> remove_container (world_of (Exit 0 (lit ''CONTAINER ID'') []) False) (terminal [Line (lit '' ''), Line [], Line []])
     = Returned ()
         \<lparr>inputs = [Line [], Line []],
            out = [Print ([10, 128051] @ lit '' '' @ lit ''TODOS LOS CONTENEDORES'' @ lit '':''),
                   Print (str_mul (lit ''-'') 100),
                   Print (lit ''CONTAINER ID''),
                   Print ([10, 128465, 65039] @ lit '' ELIMINAR CONTENEDOR''),
                   Prompt (lit ''ID o nombre del contenedor a eliminar: ''),
                   Print ([10060] @ lit '' ID de contenedor no puede estar vac'' @ [237] @ lit ''o'')],
            calls = [(Captured,
              [lit ''docker'', lit ''ps'', lit ''-a'', lit ''--format'',
           lit ''table {{.ID}}'' @ [9] @ lit ''{{.Names}}'' @ [9] @ lit ''{{.Image}}''
            @ [9] @ lit ''{{.Status}}'' @ [9] @ lit ''{{.Ports}}''])]\<rparr>
   \<and> view_logs (world_of (Exit 0 (lit ''CONTAINER ID'') []) False) (terminal [Line (lit '' ''), Line [], Line []])
     = Returned ()
         \<lparr>inputs = [Line [], Line []],
            out = [Print ([10, 128051] @ lit '' '' @ lit ''TODOS LOS CONTENEDORES'' @ lit '':''),
                   Print (str_mul (lit ''-'') 100),
                   Print (lit ''CONTAINER ID''),
                   Print ([10, 128203] @ lit '' VER LOGS''),
                   Prompt (lit ''ID o nombre del contenedor: ''),
                   Print ([10060] @ lit '' ID de contenedor no puede estar vac'' @ [237] @ lit ''o'')],
            calls = [(Captured,
              [lit ''docker'', lit ''ps'', lit ''-a'', lit ''--format'',
           lit ''table {{.ID}}'' @ [9] @ lit ''{{.Names}}'' @ [9] @ lit ''{{.Image}}''
            @ [9] @ lit ''{{.Status}}'' @ [9] @ lit ''{{.Ports}}''])]\<rparr>
   \<and> exec_container (world_of (Exit 0 (lit ''CONTAINER ID'') []) False) (terminal [Line (lit '' ''), Line [], Line []])
     = Returned ()
         \<lparr>inputs = [Line [], Line []],
            out = [Print ([10, 128051] @ lit '' '' @ lit ''CONTENEDORES ACTIVOS'' @ lit '':''),
                   Print (str_mul (lit ''-'') 100),
                   Print (lit ''CONTAINER ID''),
                   Print ([10, 128187] @ lit '' EJECUTAR COMANDO EN CONTENEDOR''),
                   Prompt (lit ''ID o nombre del contenedor: ''),
                   Print ([10060] @ lit '' ID de contenedor no puede estar vac'' @ [237] @ lit ''o'')],
            calls = [(Captured,
              [lit ''docker'', lit ''ps'', lit ''--format'',
           lit ''table {{.ID}}'' @ [9] @ lit ''{{.Names}}'' @ [9] @ lit ''{{.Image}}''
            @ [9] @ lit ''{{.Status}}'' @ [9] @ lit ''{{.Ports}}''])]\<rparr>"
proof -
  let ?w = "world_of (Exit 0 (lit ''CONTAINER ID'') []) False"
  let ?s = "terminal [Line (lit '' ''), Line [], Line []]"
  let ?t = "terminal [Line [], Line (lit ''app'')]"
  let ?i = "\<lparr>inputs = [Line (lit '' ''), Line [], Line []],
            out = [Print ([10, 128230] @ lit '' IM'' @ [193] @ lit ''GENES DOCKER DISPONIBLES:''),
                   Print (str_mul (lit ''-'') 80),
                   Print (lit ''CONTAINER ID'')],
            calls = [(Captured,
              [lit ''docker'', lit ''images'', lit ''--format'',
           lit ''table {{.Repository}}'' @ [9] @ lit ''{{.Tag}}'' @ [9] @ lit ''{{.ID}}''
            @ [9] @ lit ''{{.Size}}'' @ [9] @ lit ''{{.CreatedSince}}''])]\<rparr>"
  let ?c = "\<lparr>inputs = [Line (lit '' ''), Line [], Line []],
            out = [Print ([10, 128051] @ lit '' '' @ lit ''TODOS LOS CONTENEDORES'' @ lit '':''),
                   Print (str_mul (lit ''-'') 100),
                   Print (lit ''CONTAINER ID'')],
            calls = [(Captured,
              [lit ''docker'', lit ''ps'', lit ''-a'', lit ''--format'',
           lit ''table {{.ID}}'' @ [9] @ lit ''{{.Names}}'' @ [9] @ lit ''{{.Image}}''
            @ [9] @ lit ''{{.Status}}'' @ [9] @ lit ''{{.Ports}}''])]\<rparr>"
  let ?a = "\<lparr>inputs = [Line (lit '' ''), Line [], Line []],
            out = [Print ([10, 128051] @ lit '' '' @ lit ''CONTENEDORES ACTIVOS'' @ lit '':''),
                   Print (str_mul (lit ''-'') 100),
                   Print (lit ''CONTAINER ID'')],
            calls = [(Captured,
              [lit ''docker'', lit ''ps'', lit ''--format'',
           lit ''table {{.ID}}'' @ [9] @ lit ''{{.Names}}'' @ [9] @ lit ''{{.Image}}''
            @ [9] @ lit ''{{.Status}}'' @ [9] @ lit ''{{.Ports}}''])]\<rparr>"
  have l: "list_images ?w ?s = Returned () ?i" "list_containers ?w True ?s = Returned () ?c"
    "list_containers ?w False ?s = Returned () ?a"
    by (simp_all add: list_images_def list_containers_def run_command_def concrete_defs)
  have i: "inputs ?s = Line (lit '' '') # [Line [], Line []]"
    "inputs ?s = Line (lit '' '') # Line [] # [Line []]"
    "inputs ?s = Line (lit '' '') # Line [] # Line [] # []"
    "inputs ?t = Line [] # Line (lit ''app'') # []"
    by (simp_all add: terminal_def)
  have e: "strip (lit '' '') = []" "strip [] = []" "strip (lit ''app'') \<noteq> []"
    "\<not> path_exists ?w (calls ?t)
        ((if strip [] \<noteq> [] then strip [] else lit ''.'') @ lit ''/Dockerfile'')"
    by (simp_all add: concrete_defs)
  note A = blank_required_input_rejected
             [where w = ?w and s = ?s and raw = "lit '' ''" and rest = "[Line [], Line []]"
                and si = ?i and sc = ?c and sa = ?a]
  note B = blank_required_input_rejected
             [where w = ?w and s = ?s and raw_path = "lit '' ''" and raw = "[]"
                and rest = "[Line []]"]
  note C = blank_required_input_rejected
             [where w = ?w and s = ?s and raw = "lit '' ''" and raw_name = "[]"
                and raw_port = "[]" and rest = "[]"]
  note D = blank_required_input_rejected
             [where w = ?w and s = ?t and raw_path = "[]" and raw = "lit ''app''"
                and rest = "[]"]
  have 1: "pull_image ?w ?s =
        Returned ()
          (?s\<lparr>inputs := [Line [], Line []],
             out := out ?s @
               [Print ([10, 11015, 65039] @ lit '' DESCARGAR IMAGEN''),
                Prompt (lit ''Ingresa el nombre de la imagen (ej: nginx:latest): ''),
                Print ([10060] @ lit '' Nombre de imagen no puede estar vac'' @ [237] @ lit ''o'')]\<rparr>)"
    by (rule A [THEN conjunct1, THEN mp]) (simp add: i e)
  have 2: "build_image ?w ?s =
        Returned ()
          (?s\<lparr>inputs := [Line []],
             out := out ?s @
               [Print ([10, 128296] @ lit '' CONSTRUIR IMAGEN''),
                Prompt (lit ''Ruta del directorio con Dockerfile (. para actual): ''),
                Prompt (lit ''Nombre para la nueva imagen: ''),
                Print ([10060] @ lit '' Nombre de imagen no puede estar vac'' @ [237] @ lit ''o'')]\<rparr>)"
    by (rule B [THEN conjunct2, THEN conjunct1, THEN mp]) (simp add: i e)
  have 3: "build_image ?w ?t =
        Returned ()
          (?t\<lparr>inputs := [],
             out := out ?t @
               [Print ([10, 128296] @ lit '' CONSTRUIR IMAGEN''),
                Prompt (lit ''Ruta del directorio con Dockerfile (. para actual): ''),
                Prompt (lit ''Nombre para la nueva imagen: ''),
                Print ([10060] @ lit '' No se encontr'' @ [243] @ lit '' Dockerfile en ''
                       @ (if strip [] \<noteq> [] then strip [] else lit ''.''))]\<rparr>)"
    by (rule D [THEN conjunct2, THEN conjunct2, THEN conjunct1, THEN mp]) (use i e in simp)
  have 4: "run_container ?w ?s =
        Returned ()
          (?s\<lparr>inputs := [],
             out := out ?s @
               [Print ([10, 128640] @ lit '' EJECUTAR CONTENEDOR''),
                Prompt (lit ''Nombre de la imagen: ''),
                Prompt (lit ''Nombre del contenedor (opcional): ''),
                Prompt (lit ''Mapeo de puertos (ej: 8080:80, opcional): ''),
                Print ([10060] @ lit '' Nombre de imagen no puede estar vac'' @ [237] @ lit ''o'')]\<rparr>)"
    by (rule C [THEN conjunct2, THEN conjunct2, THEN conjunct2, THEN conjunct1, THEN mp]) (simp add: i e)
  have 5: "remove_image ?w ?s =
        Returned ()
          (?i\<lparr>inputs := [Line [], Line []],
             out := out ?i @
               [Print ([10, 128465, 65039] @ lit '' ELIMINAR IMAGEN''),
                Prompt (lit ''Ingresa el ID o nombre de la imagen a eliminar: ''),
                Print ([10060] @ lit '' ID de imagen no puede estar vac'' @ [237] @ lit ''o'')]\<rparr>)
      \<and> calls ?i = calls ?s @ [(Captured,
          [lit ''docker'', lit ''images'', lit ''--format'',
           lit ''table {{.Repository}}'' @ [9] @ lit ''{{.Tag}}'' @ [9] @ lit ''{{.ID}}''
            @ [9] @ lit ''{{.Size}}'' @ [9] @ lit ''{{.CreatedSince}}''])]"
    by (rule A [THEN conjunct2, THEN conjunct2, THEN conjunct2, THEN conjunct2, THEN conjunct1, THEN mp]) (simp add: l i e)
  have 6: "stop_container ?w ?s =
        Returned ()
          (?c\<lparr>inputs := [Line [], Line []],
             out := out ?c @
               [Print ([10, 9209, 65039] @ lit '' DETENER CONTENEDOR''),
                Prompt (lit ''ID o nombre del contenedor a detener: ''),
                Print ([10060] @ lit '' ID de contenedor no puede estar vac'' @ [237] @ lit ''o'')]\<rparr>)
      \<and> calls ?c = calls ?s @ [(Captured,
          [lit ''docker'', lit ''ps'', lit ''-a'', lit ''--format'',
           lit ''table {{.ID}}'' @ [9] @ lit ''{{.Names}}'' @ [9] @ lit ''{{.Image}}''
            @ [9] @ lit ''{{.Status}}'' @ [9] @ lit ''{{.Ports}}''])]"
    by (rule A [THEN conjunct2, THEN conjunct2, THEN conjunct2, THEN conjunct2, THEN conjunct2, THEN conjunct1, THEN mp]) (simp add: l i e)
  have 7: "start_container ?w ?s =
        Returned ()
          (?c\<lparr>inputs := [Line [], Line []],
             out := out ?c @
               [Print ([10, 9654, 65039] @ lit '' INICIAR CONTENEDOR''),
                Prompt (lit ''ID o nombre del contenedor a iniciar: ''),
                Print ([10060] @ lit '' ID de contenedor no puede estar vac'' @ [237] @ lit ''o'')]\<rparr>)
      \<and> calls ?c = calls ?s @ [(Captured,
          [lit ''docker'', lit ''ps'', lit ''-a'', lit ''--format'',
           lit ''table {{.ID}}'' @ [9] @ lit ''{{.Names}}'' @ [9] @ lit ''{{.Image}}''
            @ [9] @ lit ''{{.Status}}'' @ [9] @ lit ''{{.Ports}}''])]"
    by (rule A [THEN conjunct2, THEN conjunct2, THEN conjunct2, THEN conjunct2, THEN conjunct2, THEN conjunct2, THEN conjunct1, THEN mp]) (simp add: l i e)
  have 8: "restart_container ?w ?s =
        Returned ()
          (?c\<lparr>inputs := [Line [], Line []],
             out := out ?c @
               [Print ([10, 128260] @ lit '' REINICIAR CONTENEDOR''),
                Prompt (lit ''ID o nombre del contenedor a reiniciar: ''),
                Print ([10060] @ lit '' ID de contenedor no puede estar vac'' @ [237] @ lit ''o'')]\<rparr>)
      \<and> calls ?c = calls ?s @ [(Captured,
          [lit ''docker'', lit ''ps'', lit ''-a'', lit ''--format'',
           lit ''table {{.ID}}'' @ [9] @ lit ''{{.Names}}'' @ [9] @ lit ''{{.Image}}''
            @ [9] @ lit ''{{.Status}}'' @ [9] @ lit ''{{.Ports}}''])]"
    by (rule A [THEN conjunct2, THEN conjunct2, THEN conjunct2, THEN conjunct2, THEN conjunct2, THEN conjunct2, THEN conjunct2, THEN conjunct1, THEN mp]) (simp add: l i e)
  have 9: "remove_container ?w ?s =
        Returned ()
          (?c\<lparr>inputs := [Line [], Line []],
             out := out ?c @
               [Print ([10, 128465, 65039] @ lit '' ELIMINAR CONTENEDOR''),
                Prompt (lit ''ID o nombre del contenedor a eliminar: ''),
                Print ([10060] @ lit '' ID de contenedor no puede estar vac'' @ [237] @ lit ''o'')]\<rparr>)
      \<and> calls ?c = calls ?s @ [(Captured,
          [lit ''docker'', lit ''ps'', lit ''-a'', lit ''--format'',
           lit ''table {{.ID}}'' @ [9] @ lit ''{{.Names}}'' @ [9] @ lit ''{{.Image}}''
            @ [9] @ lit ''{{.Status}}'' @ [9] @ lit ''{{.Ports}}''])]"
    by (rule A [THEN conjunct2, THEN conjunct2, THEN conjunct2, THEN conjunct2, THEN conjunct2, THEN conjunct2, THEN conjunct2, THEN conjunct2, THEN conjunct1, THEN mp]) (simp add: l i e)
  have 10: "view_logs ?w ?s =
        Returned ()
          (?c\<lparr>inputs := [Line [], Line []],
             out := out ?c @
               [Print ([10, 128203] @ lit '' VER LOGS''),
                Prompt (lit ''ID o nombre del contenedor: ''),
                Print ([10060] @ lit '' ID de contenedor no puede estar vac'' @ [237] @ lit ''o'')]\<rparr>)
      \<and> calls ?c = calls ?s @ [(Captured,
          [lit ''docker'', lit ''ps'', lit ''-a'', lit ''--format'',
           lit ''table {{.ID}}'' @ [9] @ lit ''{{.Names}}'' @ [9] @ lit ''{{.Image}}''
            @ [9] @ lit ''{{.Status}}'' @ [9] @ lit ''{{.Ports}}''])]"
    by (rule A [THEN conjunct2, THEN conjunct2, THEN conjunct2, THEN conjunct2, THEN conjunct2, THEN conjunct2, THEN conjunct2, THEN conjunct2, THEN conjunct2, THEN conjunct1, THEN mp]) (simp add: l i e)
  have 11: "exec_container ?w ?s =
        Returned ()
          (?a\<lparr>inputs := [Line [], Line []],
             out := out ?a @
               [Print ([10, 128187] @ lit '' EJECUTAR COMANDO EN CONTENEDOR''),
                Prompt (lit ''ID o nombre del contenedor: ''),
                Print ([10060] @ lit '' ID de contenedor no puede estar vac'' @ [237] @ lit ''o'')]\<rparr>)
      \<and> calls ?a = calls ?s @ [(Captured,
          [lit ''docker'', lit ''ps'', lit ''--format'',
           lit ''table {{.ID}}'' @ [9] @ lit ''{{.Names}}'' @ [9] @ lit ''{{.Image}}''
            @ [9] @ lit ''{{.Status}}'' @ [9] @ lit ''{{.Ports}}''])]"
    by (rule A [THEN conjunct2, THEN conjunct2, THEN conjunct2, THEN conjunct2, THEN conjunct2, THEN conjunct2, THEN conjunct2, THEN conjunct2, THEN conjunct2, THEN conjunct2, THEN mp]) (simp add: l i e)
  from 1 2 3 4 5 6 7 8 9 10 11 show ?thesis
    by (simp add: terminal_def e)
qed

section \<open>Listings\<close>

lemma strip_decomp:
  "t = takeWhile isspace t @ strip t @ rev (takeWhile isspace (rev (dropWhile isspace t)))"
proof -
  let ?u = "dropWhile isspace t"
  have "strip t @ rev (takeWhile isspace (rev ?u))
          = rev (takeWhile isspace (rev ?u) @ dropWhile isspace (rev ?u))"
    by (simp only: strip_def rev_append)
  also have "\<dots> = ?u"
    by (simp only: takeWhile_dropWhile_id rev_rev_ident)
  finally have "takeWhile isspace t @ strip t @ rev (takeWhile isspace (rev ?u))
                  = takeWhile isspace t @ ?u"
    by (rule arg_cong)
  also have "\<dots> = t"
    by (rule takeWhile_dropWhile_id)
  finally show ?thesis
    by (rule sym)
qed

lemma strip_trims: "\<exists>a b. t = a @ strip t @ b \<and> list_all isspace a \<and> list_all isspace b"
proof (intro exI conjI)
  show "t = takeWhile isspace t @ strip t
              @ rev (takeWhile isspace (rev (dropWhile isspace t)))"
    by (rule strip_decomp)
  show "list_all isspace (takeWhile isspace t)"
    by (induction t) simp_all
  have "list_all isspace (takeWhile isspace xs)" for xs
    by (induction xs) simp_all
  then show "list_all isspace (rev (takeWhile isspace (rev (dropWhile isspace t))))"
    by (simp add: list_all_iff)
qed

lemma last_dropWhile: "dropWhile P xs \<noteq> [] \<Longrightarrow> last (dropWhile P xs) = last xs"
proof -
  assume n: "dropWhile P xs \<noteq> []"
  have "last xs = last (takeWhile P xs @ dropWhile P xs)"
    by simp
  also from n have "\<dots> = last (dropWhile P xs)"
    by (rule last_appendR)
  finally show ?thesis
    by (rule sym)
qed

lemma strip_trimmed: "strip t \<noteq> [] \<longrightarrow> \<not> isspace (hd (strip t)) \<and> \<not> isspace (last (strip t))"
proof (intro impI)
  let ?u = "dropWhile isspace t"
  let ?v = "dropWhile isspace (rev ?u)"
  assume n: "strip t \<noteq> []"
  then have v: "?v \<noteq> []"
    by (simp add: strip_def)
  have u: "?u \<noteq> []"
  proof
    assume "?u = []"
    with v show False by simp
  qed
  from v have "\<not> isspace (hd ?v)"
    by (rule hd_dropWhile)
  with v have l: "\<not> isspace (last (strip t))"
    by (simp add: strip_def last_rev)
  from v have "last ?v = last (rev ?u)"
    by (rule last_dropWhile)
  with u have "last ?v = hd ?u"
    by (simp add: last_rev)
  moreover from u have "\<not> isspace (hd ?u)"
    by (rule hd_dropWhile)
  ultimately have "\<not> isspace (hd (strip t))"
    using v by (simp add: strip_def hd_rev)
  with l show "\<not> isspace (hd (strip t)) \<and> \<not> isspace (last (strip t))"
    by simp
qed

lemma strip_ident: "t \<noteq> [] \<and> \<not> isspace (hd t) \<and> \<not> isspace (last t) \<longrightarrow> strip t = t"
proof (intro impI)
  assume h: "t \<noteq> [] \<and> \<not> isspace (hd t) \<and> \<not> isspace (last t)"
  then have 1: "dropWhile isspace t = t"
    by (cases t) simp_all
  from h have "rev t \<noteq> [] \<and> \<not> isspace (hd (rev t))"
    by (simp add: hd_rev)
  then have 2: "dropWhile isspace (rev t) = rev t"
    by (cases "rev t") simp_all
  from 1 2 show "strip t = t"
    by (simp add: strip_def)
qed

lemma translate_newlines_no_cr: "13 \<notin> set (translate_newlines t)"
  by (auto simp: translate_newlines_def replace_cr_def)

lemma replace_crlf_ident: "13 \<notin> set t \<Longrightarrow> replace_crlf t = t"
  by (induction t rule: replace_crlf.induct) auto

lemma translate_newlines_ident: "13 \<notin> set t \<longrightarrow> translate_newlines t = t"
  by (auto simp: translate_newlines_def replace_cr_def replace_crlf_ident intro: map_idI)

lemma list_images_prints_stdout:
  "spawn w (calls s) (Captured,
         [lit ''docker'', lit ''images'', lit ''--format'',
           lit ''table {{.Repository}}'' @ [9] @ lit ''{{.Tag}}'' @ [9] @ lit ''{{.ID}}''
            @ [9] @ lit ''{{.Size}}'' @ [9] @ lit ''{{.CreatedSince}}'']) = Exit 0 so se
      \<and> decode w so = Text stdout \<and> decode w se = Text stderr
      \<and> strip (translate_newlines stdout) \<noteq> [] \<longrightarrow>
      list_images w s =
        Returned ()
          (s\<lparr>out := out s @
               [Print ([10, 128230] @ lit '' IM'' @ [193] @ lit ''GENES DOCKER DISPONIBLES:''),
                Print (str_mul (lit ''-'') 80),
                Print (strip (translate_newlines stdout))],
             calls := calls s @ [(Captured,
               [lit ''docker'', lit ''images'', lit ''--format'',
           lit ''table {{.Repository}}'' @ [9] @ lit ''{{.Tag}}'' @ [9] @ lit ''{{.ID}}''
            @ [9] @ lit ''{{.Size}}'' @ [9] @ lit ''{{.CreatedSince}}''])]\<rparr>)"
proof (intro impI)
  assume h: "spawn w (calls s) (Captured,
         [lit ''docker'', lit ''images'', lit ''--format'',
           lit ''table {{.Repository}}'' @ [9] @ lit ''{{.Tag}}'' @ [9] @ lit ''{{.ID}}''
            @ [9] @ lit ''{{.Size}}'' @ [9] @ lit ''{{.CreatedSince}}'']) = Exit 0 so se
      \<and> decode w so = Text stdout \<and> decode w se = Text stderr
      \<and> strip (translate_newlines stdout) \<noteq> []"
  then have "run_command w
         [lit ''docker'', lit ''images'', lit ''--format'',
           lit ''table {{.Repository}}'' @ [9] @ lit ''{{.Tag}}'' @ [9] @ lit ''{{.ID}}''
            @ [9] @ lit ''{{.Size}}'' @ [9] @ lit ''{{.CreatedSince}}'']
         (print (str_mul (lit ''-'') 80)
            (print ([10, 128230] @ lit '' IM'' @ [193] @ lit ''GENES DOCKER DISPONIBLES:'') s))
       = Returned (Some (strip (translate_newlines stdout)))
           ((print (str_mul (lit ''-'') 80)
              (print ([10, 128230] @ lit '' IM'' @ [193] @ lit ''GENES DOCKER DISPONIBLES:'') s))
            \<lparr>calls := calls s @ [(Captured,
               [lit ''docker'', lit ''images'', lit ''--format'',
           lit ''table {{.Repository}}'' @ [9] @ lit ''{{.Tag}}'' @ [9] @ lit ''{{.ID}}''
            @ [9] @ lit ''{{.Size}}'' @ [9] @ lit ''{{.CreatedSince}}''])]\<rparr>)"
    by (subst run_command_zero [where so = so and se = se and stdout = stdout and stderr = stderr])
       simp_all
  with h show "list_images w s =
        Returned ()
          (s\<lparr>out := out s @
               [Print ([10, 128230] @ lit '' IM'' @ [193] @ lit ''GENES DOCKER DISPONIBLES:''),
                Print (str_mul (lit ''-'') 80),
                Print (strip (translate_newlines stdout))],
             calls := calls s @ [(Captured,
               [lit ''docker'', lit ''images'', lit ''--format'',
           lit ''table {{.Repository}}'' @ [9] @ lit ''{{.Tag}}'' @ [9] @ lit ''{{.ID}}''
            @ [9] @ lit ''{{.Size}}'' @ [9] @ lit ''{{.CreatedSince}}''])]\<rparr>)"
    unfolding list_images_def Let_def by (simp add: print_def)
qed

lemma list_containers_prints_stdout:
  "spawn w (calls s) (Captured,
         (if a then [lit ''docker'', lit ''ps'', lit ''-a'', lit ''--format'',
           lit ''table {{.ID}}'' @ [9] @ lit ''{{.Names}}'' @ [9] @ lit ''{{.Image}}''
            @ [9] @ lit ''{{.Status}}'' @ [9] @ lit ''{{.Ports}}'']
         else [lit ''docker'', lit ''ps'', lit ''--format'',
           lit ''table {{.ID}}'' @ [9] @ lit ''{{.Names}}'' @ [9] @ lit ''{{.Image}}''
            @ [9] @ lit ''{{.Status}}'' @ [9] @ lit ''{{.Ports}}''])) = Exit 0 so se
      \<and> decode w so = Text stdout \<and> decode w se = Text stderr
      \<and> strip (translate_newlines stdout) \<noteq> [] \<longrightarrow>
      list_containers w a s =
        Returned ()
          (s\<lparr>out := out s @
               [Print ([10, 128051] @ lit '' ''
                      @ (if a then lit ''TODOS LOS CONTENEDORES'' else lit ''CONTENEDORES ACTIVOS'')
                      @ lit '':''),
                Print (str_mul (lit ''-'') 100),
                Print (strip (translate_newlines stdout))],
             calls := calls s @ [(Captured,
               (if a then [lit ''docker'', lit ''ps'', lit ''-a'', lit ''--format'',
           lit ''table {{.ID}}'' @ [9] @ lit ''{{.Names}}'' @ [9] @ lit ''{{.Image}}''
            @ [9] @ lit ''{{.Status}}'' @ [9] @ lit ''{{.Ports}}'']
         else [lit ''docker'', lit ''ps'', lit ''--format'',
           lit ''table {{.ID}}'' @ [9] @ lit ''{{.Names}}'' @ [9] @ lit ''{{.Image}}''
            @ [9] @ lit ''{{.Status}}'' @ [9] @ lit ''{{.Ports}}'']))]\<rparr>)"
proof (intro impI)
  let ?s2 = "print (str_mul (lit ''-'') 100)
            (print ([10, 128051] @ lit '' ''
                      @ (if a then lit ''TODOS LOS CONTENEDORES'' else lit ''CONTENEDORES ACTIVOS'')
                      @ lit '':'') s)"
  assume h: "spawn w (calls s) (Captured,
         (if a then [lit ''docker'', lit ''ps'', lit ''-a'', lit ''--format'',
           lit ''table {{.ID}}'' @ [9] @ lit ''{{.Names}}'' @ [9] @ lit ''{{.Image}}''
            @ [9] @ lit ''{{.Status}}'' @ [9] @ lit ''{{.Ports}}'']
         else [lit ''docker'', lit ''ps'', lit ''--format'',
           lit ''table {{.ID}}'' @ [9] @ lit ''{{.Names}}'' @ [9] @ lit ''{{.Image}}''
            @ [9] @ lit ''{{.Status}}'' @ [9] @ lit ''{{.Ports}}''])) = Exit 0 so se
      \<and> decode w so = Text stdout \<and> decode w se = Text stderr
      \<and> strip (translate_newlines stdout) \<noteq> []"
  then have "run_command w
         (if a then [lit ''docker'', lit ''ps'', lit ''-a'', lit ''--format'',
           lit ''table {{.ID}}'' @ [9] @ lit ''{{.Names}}'' @ [9] @ lit ''{{.Image}}''
            @ [9] @ lit ''{{.Status}}'' @ [9] @ lit ''{{.Ports}}'']
         else [lit ''docker'', lit ''ps'', lit ''--format'',
           lit ''table {{.ID}}'' @ [9] @ lit ''{{.Names}}'' @ [9] @ lit ''{{.Image}}''
            @ [9] @ lit ''{{.Status}}'' @ [9] @ lit ''{{.Ports}}''])
         ?s2
       = Returned (Some (strip (translate_newlines stdout)))
           (?s2\<lparr>calls := calls s @ [(Captured,
               (if a then [lit ''docker'', lit ''ps'', lit ''-a'', lit ''--format'',
           lit ''table {{.ID}}'' @ [9] @ lit ''{{.Names}}'' @ [9] @ lit ''{{.Image}}''
            @ [9] @ lit ''{{.Status}}'' @ [9] @ lit ''{{.Ports}}'']
         else [lit ''docker'', lit ''ps'', lit ''--format'',
           lit ''table {{.ID}}'' @ [9] @ lit ''{{.Names}}'' @ [9] @ lit ''{{.Image}}''
            @ [9] @ lit ''{{.Status}}'' @ [9] @ lit ''{{.Ports}}'']))]\<rparr>)"
    by (subst run_command_zero [where so = so and se = se and stdout = stdout and stderr = stderr])
       (simp_all split: if_splits)
  with h show "list_containers w a s =
        Returned ()
          (s\<lparr>out := out s @
               [Print ([10, 128051] @ lit '' ''
                      @ (if a then lit ''TODOS LOS CONTENEDORES'' else lit ''CONTENEDORES ACTIVOS'')
                      @ lit '':''),
                Print (str_mul (lit ''-'') 100),
                Print (strip (translate_newlines stdout))],
             calls := calls s @ [(Captured,
               (if a then [lit ''docker'', lit ''ps'', lit ''-a'', lit ''--format'',
           lit ''table {{.ID}}'' @ [9] @ lit ''{{.Names}}'' @ [9] @ lit ''{{.Image}}''
            @ [9] @ lit ''{{.Status}}'' @ [9] @ lit ''{{.Ports}}'']
         else [lit ''docker'', lit ''ps'', lit ''--format'',
           lit ''table {{.ID}}'' @ [9] @ lit ''{{.Names}}'' @ [9] @ lit ''{{.Image}}''
            @ [9] @ lit ''{{.Status}}'' @ [9] @ lit ''{{.Ports}}'']))]\<rparr>)"
    unfolding list_containers_def Let_def by (cases a) (simp_all add: print_def)
qed

text \<open>
  C8, as stated, fails: \<open>run_command\<close> returns \<open>result.stdout.strip()\<close>, so
  what \<open>list_images\<close> prints is the engine's output without its leading and
  trailing whitespace.  Here the engine writes \<open>" REPOSITORY TAG "\<close> and the
  operator reads \<open>"REPOSITORY TAG"\<close>.
\<close>

theorem list_images_prints_other_text:
  "out (final (list_images (world_of (Exit 0 (lit '' REPOSITORY TAG '') []) False) (terminal [])))
     = [Print ([10, 128230] @ lit '' IM'' @ [193] @ lit ''GENES DOCKER DISPONIBLES:''),
        Print (str_mul (lit ''-'') 80),
        Print (lit ''REPOSITORY TAG'')]
   \<and> lit ''REPOSITORY TAG'' \<noteq> lit '' REPOSITORY TAG ''"
  by (simp add: list_images_def run_command_def concrete_defs)

text \<open>
  C8, amended.  When the engine exits with status zero, its two streams can be
  decoded and its standard output is not blank, \<open>list_images\<close> and
  \<open>list_containers\<close> print, after their heading and rule, the engine's standard
  output as text mode delivers it (decoded, every CR LF and every CR turned into
  LF), trimmed.  The trimmed text is the text less a prefix and a suffix of
  whitespace, and itself neither begins nor ends with whitespace; it is the text
  when that neither begins nor ends with whitespace.  The translation leaves no CR,
  and leaves a text without CR as it is.
\<close>

theorem listing_prints_trimmed_stdout:
  "(spawn w (calls s) (Captured,
         [lit ''docker'', lit ''images'', lit ''--format'',
           lit ''table {{.Repository}}'' @ [9] @ lit ''{{.Tag}}'' @ [9] @ lit ''{{.ID}}''
            @ [9] @ lit ''{{.Size}}'' @ [9] @ lit ''{{.CreatedSince}}'']) = Exit 0 so se
      \<and> decode w so = Text stdout \<and> decode w se = Text stderr
      \<and> strip (translate_newlines stdout) \<noteq> [] \<longrightarrow>
      list_images w s =
        Returned ()
          (s\<lparr>out := out s @
               [Print ([10, 128230] @ lit '' IM'' @ [193] @ lit ''GENES DOCKER DISPONIBLES:''),
                Print (str_mul (lit ''-'') 80),
                Print (strip (translate_newlines stdout))],
             calls := calls s @ [(Captured,
               [lit ''docker'', lit ''images'', lit ''--format'',
           lit ''table {{.Repository}}'' @ [9] @ lit ''{{.Tag}}'' @ [9] @ lit ''{{.ID}}''
            @ [9] @ lit ''{{.Size}}'' @ [9] @ lit ''{{.CreatedSince}}''])]\<rparr>))
   \<and> (spawn w (calls s) (Captured,
         (if a then [lit ''docker'', lit ''ps'', lit ''-a'', lit ''--format'',
           lit ''table {{.ID}}'' @ [9] @ lit ''{{.Names}}'' @ [9] @ lit ''{{.Image}}''
            @ [9] @ lit ''{{.Status}}'' @ [9] @ lit ''{{.Ports}}'']
         else [lit ''docker'', lit ''ps'', lit ''--format'',
           lit ''table {{.ID}}'' @ [9] @ lit ''{{.Names}}'' @ [9] @ lit ''{{.Image}}''
            @ [9] @ lit ''{{.Status}}'' @ [9] @ lit ''{{.Ports}}''])) = Exit 0 so se
      \<and> decode w so = Text stdout \<and> decode w se = Text stderr
      \<and> strip (translate_newlines stdout) \<noteq> [] \<longrightarrow>
      list_containers w a s =
        Returned ()
          (s\<lparr>out := out s @
               [Print ([10, 128051] @ lit '' ''
                      @ (if a then lit ''TODOS LOS CONTENEDORES'' else lit ''CONTENEDORES ACTIVOS'')
                      @ lit '':''),
                Print (str_mul (lit ''-'') 100),
                Print (strip (translate_newlines stdout))],
             calls := calls s @ [(Captured,
               (if a then [lit ''docker'', lit ''ps'', lit ''-a'', lit ''--format'',
           lit ''table {{.ID}}'' @ [9] @ lit ''{{.Names}}'' @ [9] @ lit ''{{.Image}}''
            @ [9] @ lit ''{{.Status}}'' @ [9] @ lit ''{{.Ports}}'']
         else [lit ''docker'', lit ''ps'', lit ''--format'',
           lit ''table {{.ID}}'' @ [9] @ lit ''{{.Names}}'' @ [9] @ lit ''{{.Image}}''
            @ [9] @ lit ''{{.Status}}'' @ [9] @ lit ''{{.Ports}}'']))]\<rparr>))
   \<and> (\<exists>a b. t = a @ strip t @ b \<and> list_all isspace a \<and> list_all isspace b)
   \<and> (strip t \<noteq> [] \<longrightarrow> \<not> isspace (hd (strip t)) \<and> \<not> isspace (last (strip t)))
   \<and> (t \<noteq> [] \<and> \<not> isspace (hd t) \<and> \<not> isspace (last t) \<longrightarrow> strip t = t)
   \<and> 13 \<notin> set (translate_newlines t)
   \<and> (13 \<notin> set t \<longrightarrow> translate_newlines t = t)"
  by (intro conjI)
     (rule list_images_prints_stdout,
      rule list_containers_prints_stdout,
      rule strip_trims,
      rule strip_trimmed,
      rule strip_ident,
      rule translate_newlines_no_cr,
      rule translate_newlines_ident)

theorem listing_prints_trimmed_stdout_witness:
  "list_images (world_of (Exit 0 (lit '' REPOSITORY TAG '') []) False) (terminal [])
     = Returned ()
         \<lparr>inputs = [],
            out = [Print ([10, 128230] @ lit '' IM'' @ [193] @ lit ''GENES DOCKER DISPONIBLES:''),
                   Print (str_mul (lit ''-'') 80),
                   Print (lit ''REPOSITORY TAG'')],
            calls = [(Captured,
              [lit ''docker'', lit ''images'', lit ''--format'',
           lit ''table {{.Repository}}'' @ [9] @ lit ''{{.Tag}}'' @ [9] @ lit ''{{.ID}}''
            @ [9] @ lit ''{{.Size}}'' @ [9] @ lit ''{{.CreatedSince}}''])]\<rparr>
   \<and> list_containers (world_of (Exit 0 (lit '' REPOSITORY TAG '') []) False) False (terminal [])
     = Returned ()
         \<lparr>inputs = [],
            out = [Print ([10, 128051] @ lit '' '' @ lit ''CONTENEDORES ACTIVOS'' @ lit '':''),
                   Print (str_mul (lit ''-'') 100),
                   Print (lit ''REPOSITORY TAG'')],
            calls = [(Captured,
              [lit ''docker'', lit ''ps'', lit ''--format'',
           lit ''table {{.ID}}'' @ [9] @ lit ''{{.Names}}'' @ [9] @ lit ''{{.Image}}''
            @ [9] @ lit ''{{.Status}}'' @ [9] @ lit ''{{.Ports}}''])]\<rparr>
   \<and> (\<exists>a b. lit '' REPOSITORY TAG '' = a @ lit ''REPOSITORY TAG'' @ b
          \<and> list_all isspace a \<and> list_all isspace b)
   \<and> \<not> isspace (hd (lit ''REPOSITORY TAG'')) \<and> \<not> isspace (last (lit ''REPOSITORY TAG''))
   \<and> strip (lit ''REPOSITORY TAG'') = lit ''REPOSITORY TAG''
   \<and> 13 \<notin> set (translate_newlines (lit '' REPOSITORY TAG ''))
   \<and> translate_newlines (lit '' REPOSITORY TAG '') = lit '' REPOSITORY TAG ''"
proof -
  let ?w = "world_of (Exit 0 (lit '' REPOSITORY TAG '') []) False"
  have e: "strip (translate_newlines (lit '' REPOSITORY TAG '')) = lit ''REPOSITORY TAG''"
    "strip (lit '' REPOSITORY TAG '') = lit ''REPOSITORY TAG''"
    "lit ''REPOSITORY TAG'' \<noteq> []" "lit '' REPOSITORY TAG '' \<noteq> []"
    "\<not> isspace (hd (lit ''REPOSITORY TAG''))" "\<not> isspace (last (lit ''REPOSITORY TAG''))"
    "13 \<notin> set (lit '' REPOSITORY TAG '')"
    by (simp_all add: concrete_defs)
  have h: "spawn ?w (calls (terminal [])) (Captured, c) = Exit 0 (lit '' REPOSITORY TAG '') []"
    "decode ?w (lit '' REPOSITORY TAG '') = Text (lit '' REPOSITORY TAG '')" "decode ?w [] = Text []" for c
    by (simp_all add: concrete_defs)
  note A = listing_prints_trimmed_stdout
             [where w = ?w and s = "terminal []" and so = "lit '' REPOSITORY TAG ''" and se = "[]"
                and stdout = "lit '' REPOSITORY TAG ''" and stderr = "[]" and a = False and t = "lit '' REPOSITORY TAG ''"]
  note B = listing_prints_trimmed_stdout
             [where w = ?w and s = "terminal []" and t = "lit ''REPOSITORY TAG''"]
  from A h e have 1: "list_images ?w (terminal []) =
        Returned ()
          ((terminal [])\<lparr>out := out (terminal []) @
               [Print ([10, 128230] @ lit '' IM'' @ [193] @ lit ''GENES DOCKER DISPONIBLES:''),
                Print (str_mul (lit ''-'') 80),
                Print (lit ''REPOSITORY TAG'')],
             calls := calls (terminal []) @ [(Captured,
               [lit ''docker'', lit ''images'', lit ''--format'',
           lit ''table {{.Repository}}'' @ [9] @ lit ''{{.Tag}}'' @ [9] @ lit ''{{.ID}}''
            @ [9] @ lit ''{{.Size}}'' @ [9] @ lit ''{{.CreatedSince}}''])]\<rparr>)"
    by simp
  from A h e have 2: "list_containers ?w False (terminal []) =
        Returned ()
          ((terminal [])\<lparr>out := out (terminal []) @
               [Print ([10, 128051] @ lit '' '' @ lit ''CONTENEDORES ACTIVOS'' @ lit '':''),
                Print (str_mul (lit ''-'') 100),
                Print (lit ''REPOSITORY TAG'')],
             calls := calls (terminal []) @ [(Captured,
               [lit ''docker'', lit ''ps'', lit ''--format'',
           lit ''table {{.ID}}'' @ [9] @ lit ''{{.Names}}'' @ [9] @ lit ''{{.Image}}''
            @ [9] @ lit ''{{.Status}}'' @ [9] @ lit ''{{.Ports}}''])]\<rparr>)"
    by simp
  from A e have 3: "\<exists>a b. lit '' REPOSITORY TAG '' = a @ lit ''REPOSITORY TAG'' @ b
          \<and> list_all isspace a \<and> list_all isspace b"
    by simp
  from A e have 4: "\<not> isspace (hd (lit ''REPOSITORY TAG'')) \<and> \<not> isspace (last (lit ''REPOSITORY TAG''))"
    by simp
  from B e have 5: "strip (lit ''REPOSITORY TAG'') = lit ''REPOSITORY TAG''"
    by blast
  from A have 6: "13 \<notin> set (translate_newlines (lit '' REPOSITORY TAG ''))"
    by blast
  from A e have 7: "translate_newlines (lit '' REPOSITORY TAG '') = lit '' REPOSITORY TAG ''"
    by blast
  from 1 2 3 4 5 6 7 show ?thesis
    by (simp add: terminal_def)
qed

section \<open>Success with no output\<close>

lemma run_command_blank:
  "command \<noteq> [] \<and> spawn w (calls s) (Captured, command) = Exit 0 so se
      \<and> decode w so = Text stdout \<and> decode w se = Text stderr
      \<and> strip (translate_newlines stdout) = [] \<longrightarrow>
      run_command w command s =
        Returned (Some []) (s\<lparr>calls := calls s @ [(Captured, command)]\<rparr>)
      \<and> \<not> truthy (Some [])"
  by (simp add: run_command_zero truthy_def)

lemma list_images_blank_stdout:
  "spawn w (calls s) (Captured,
         [lit ''docker'', lit ''images'', lit ''--format'',
           lit ''table {{.Repository}}'' @ [9] @ lit ''{{.Tag}}'' @ [9] @ lit ''{{.ID}}''
            @ [9] @ lit ''{{.Size}}'' @ [9] @ lit ''{{.CreatedSince}}'']) = Exit 0 so se
      \<and> decode w so = Text stdout \<and> decode w se = Text stderr
      \<and> strip (translate_newlines stdout) = [] \<longrightarrow>
      list_images w s =
        Returned ()
          (s\<lparr>out := out s @
               [Print ([10, 128230] @ lit '' IM'' @ [193] @ lit ''GENES DOCKER DISPONIBLES:''),
                Print (str_mul (lit ''-'') 80),
                Print (lit ''No se pudieron listar las im'' @ [225] @ lit ''genes'')],
             calls := calls s @ [(Captured,
               [lit ''docker'', lit ''images'', lit ''--format'',
           lit ''table {{.Repository}}'' @ [9] @ lit ''{{.Tag}}'' @ [9] @ lit ''{{.ID}}''
            @ [9] @ lit ''{{.Size}}'' @ [9] @ lit ''{{.CreatedSince}}''])]\<rparr>)"
  unfolding list_images_def Let_def by (simp add: run_command_zero print_def)

lemma list_containers_blank_stdout:
  "spawn w (calls s) (Captured,
         (if a then [lit ''docker'', lit ''ps'', lit ''-a'', lit ''--format'',
           lit ''table {{.ID}}'' @ [9] @ lit ''{{.Names}}'' @ [9] @ lit ''{{.Image}}''
            @ [9] @ lit ''{{.Status}}'' @ [9] @ lit ''{{.Ports}}'']
         else [lit ''docker'', lit ''ps'', lit ''--format'',
           lit ''table {{.ID}}'' @ [9] @ lit ''{{.Names}}'' @ [9] @ lit ''{{.Image}}''
            @ [9] @ lit ''{{.Status}}'' @ [9] @ lit ''{{.Ports}}''])) = Exit 0 so se
      \<and> decode w so = Text stdout \<and> decode w se = Text stderr
      \<and> strip (translate_newlines stdout) = [] \<longrightarrow>
      list_containers w a s =
        Returned ()
          (s\<lparr>out := out s @
               [Print ([10, 128051] @ lit '' ''
                      @ (if a then lit ''TODOS LOS CONTENEDORES'' else lit ''CONTENEDORES ACTIVOS'')
                      @ lit '':''),
                Print (str_mul (lit ''-'') 100),
                Print (lit ''No se pudieron listar los contenedores'')],
             calls := calls s @ [(Captured,
               (if a then [lit ''docker'', lit ''ps'', lit ''-a'', lit ''--format'',
           lit ''table {{.ID}}'' @ [9] @ lit ''{{.Names}}'' @ [9] @ lit ''{{.Image}}''
            @ [9] @ lit ''{{.Status}}'' @ [9] @ lit ''{{.Ports}}'']
         else [lit ''docker'', lit ''ps'', lit ''--format'',
           lit ''table {{.ID}}'' @ [9] @ lit ''{{.Names}}'' @ [9] @ lit ''{{.Image}}''
            @ [9] @ lit ''{{.Status}}'' @ [9] @ lit ''{{.Ports}}'']))]\<rparr>)"
  unfolding list_containers_def Let_def by (simp add: run_command_zero print_def)

lemma run_container_cmd_not_Nil [simp]: "run_container_cmd i n p \<noteq> []"
  by (simp add: run_container_cmd_def Let_def)

lemma run_container_blank_stdout:
  "inputs s = Line raw_image # Line raw_name # Line raw_port # rest \<and> strip raw_image \<noteq> []
      \<and> spawn w (calls s)
            (Captured, run_container_cmd (strip raw_image) (strip raw_name) (strip raw_port))
          = Exit 0 so se
      \<and> decode w so = Text stdout \<and> decode w se = Text stderr
      \<and> strip (translate_newlines stdout) = [] \<longrightarrow>
      run_container w s =
        Returned ()
          (s\<lparr>inputs := rest,
             out := out s @
               [Print ([10, 128640] @ lit '' EJECUTAR CONTENEDOR''),
                Prompt (lit ''Nombre de la imagen: ''),
                Prompt (lit ''Nombre del contenedor (opcional): ''),
                Prompt (lit ''Mapeo de puertos (ej: 8080:80, opcional): ''),
                Print ([10060] @ lit '' Error al iniciar el contenedor'')],
             calls := calls s @
               [(Captured, run_container_cmd (strip raw_image) (strip raw_name) (strip raw_port))]\<rparr>)"
  unfolding run_container_def Let_def
  by (simp add: input_Line run_command_zero print_def)

lemma stop_container_blank_stdout:
  "list_containers w True s = Returned () sc \<and> inputs s = Line raw # rest \<and> strip raw \<noteq> []
      \<and> spawn w (calls sc) (Captured, [lit ''docker'', lit ''stop'', strip raw]) = Exit 0 so se
      \<and> decode w so = Text stdout \<and> decode w se = Text stderr
      \<and> strip (translate_newlines stdout) = [] \<longrightarrow>
      stop_container w s =
        Returned ()
          (sc\<lparr>inputs := rest,
             out := out sc @
               [Print ([10, 9209, 65039] @ lit '' DETENER CONTENEDOR''),
                Prompt (lit ''ID o nombre del contenedor a detener: ''),
                Print ([10060] @ lit '' Error al detener el contenedor '' @ strip raw)],
             calls := calls sc @ [(Captured, [lit ''docker'', lit ''stop'', strip raw])]\<rparr>)"
proof (intro impI)
  assume "list_containers w True s = Returned () sc \<and> inputs s = Line raw # rest \<and> strip raw \<noteq> []
      \<and> spawn w (calls sc) (Captured, [lit ''docker'', lit ''stop'', strip raw]) = Exit 0 so se
      \<and> decode w so = Text stdout \<and> decode w se = Text stderr
      \<and> strip (translate_newlines stdout) = []"
  with after_list_containers [of w True s sc]
  show "stop_container w s =
        Returned ()
          (sc\<lparr>inputs := rest,
             out := out sc @
               [Print ([10, 9209, 65039] @ lit '' DETENER CONTENEDOR''),
                Prompt (lit ''ID o nombre del contenedor a detener: ''),
                Print ([10060] @ lit '' Error al detener el contenedor '' @ strip raw)],
             calls := calls sc @ [(Captured, [lit ''docker'', lit ''stop'', strip raw])]\<rparr>)"
    unfolding stop_container_def Let_def
    by (simp add: input_Line run_command_zero truthy_def print_def)
qed

lemma start_container_blank_stdout:
  "list_containers w True s = Returned () sc \<and> inputs s = Line raw # rest \<and> strip raw \<noteq> []
      \<and> spawn w (calls sc) (Captured, [lit ''docker'', lit ''start'', strip raw]) = Exit 0 so se
      \<and> decode w so = Text stdout \<and> decode w se = Text stderr
      \<and> strip (translate_newlines stdout) = [] \<longrightarrow>
      start_container w s =
        Returned ()
          (sc\<lparr>inputs := rest,
             out := out sc @
               [Print ([10, 9654, 65039] @ lit '' INICIAR CONTENEDOR''),
                Prompt (lit ''ID o nombre del contenedor a iniciar: ''),
                Print ([10060] @ lit '' Error al iniciar el contenedor '' @ strip raw)],
             calls := calls sc @ [(Captured, [lit ''docker'', lit ''start'', strip raw])]\<rparr>)"
proof (intro impI)
  assume "list_containers w True s = Returned () sc \<and> inputs s = Line raw # rest \<and> strip raw \<noteq> []
      \<and> spawn w (calls sc) (Captured, [lit ''docker'', lit ''start'', strip raw]) = Exit 0 so se
      \<and> decode w so = Text stdout \<and> decode w se = Text stderr
      \<and> strip (translate_newlines stdout) = []"
  with after_list_containers [of w True s sc]
  show "start_container w s =
        Returned ()
          (sc\<lparr>inputs := rest,
             out := out sc @
               [Print ([10, 9654, 65039] @ lit '' INICIAR CONTENEDOR''),
                Prompt (lit ''ID o nombre del contenedor a iniciar: ''),
                Print ([10060] @ lit '' Error al iniciar el contenedor '' @ strip raw)],
             calls := calls sc @ [(Captured, [lit ''docker'', lit ''start'', strip raw])]\<rparr>)"
    unfolding start_container_def Let_def
    by (simp add: input_Line run_command_zero truthy_def print_def)
qed

lemma restart_container_blank_stdout:
  "list_containers w True s = Returned () sc \<and> inputs s = Line raw # rest \<and> strip raw \<noteq> []
      \<and> spawn w (calls sc) (Captured, [lit ''docker'', lit ''restart'', strip raw]) = Exit 0 so se
      \<and> decode w so = Text stdout \<and> decode w se = Text stderr
      \<and> strip (translate_newlines stdout) = [] \<longrightarrow>
      restart_container w s =
        Returned ()
          (sc\<lparr>inputs := rest,
             out := out sc @
               [Print ([10, 128260] @ lit '' REINICIAR CONTENEDOR''),
                Prompt (lit ''ID o nombre del contenedor a reiniciar: ''),
                Print ([10060] @ lit '' Error al reiniciar el contenedor '' @ strip raw)],
             calls := calls sc @ [(Captured, [lit ''docker'', lit ''restart'', strip raw])]\<rparr>)"
proof (intro impI)
  assume "list_containers w True s = Returned () sc \<and> inputs s = Line raw # rest \<and> strip raw \<noteq> []
      \<and> spawn w (calls sc) (Captured, [lit ''docker'', lit ''restart'', strip raw]) = Exit 0 so se
      \<and> decode w so = Text stdout \<and> decode w se = Text stderr
      \<and> strip (translate_newlines stdout) = []"
  with after_list_containers [of w True s sc]
  show "restart_container w s =
        Returned ()
          (sc\<lparr>inputs := rest,
             out := out sc @
               [Print ([10, 128260] @ lit '' REINICIAR CONTENEDOR''),
                Prompt (lit ''ID o nombre del contenedor a reiniciar: ''),
                Print ([10060] @ lit '' Error al reiniciar el contenedor '' @ strip raw)],
             calls := calls sc @ [(Captured, [lit ''docker'', lit ''restart'', strip raw])]\<rparr>)"
    unfolding restart_container_def Let_def
    by (simp add: input_Line run_command_zero truthy_def print_def)
qed

lemma remove_container_blank_stdout:
  "list_containers w True s = Returned () sc \<and> inputs s = Line raw # Line answer # rest
      \<and> strip raw \<noteq> [] \<and> lower (strip answer) = lit ''s''
      \<and> spawn w (calls sc) (Captured, [lit ''docker'', lit ''rm'', lit ''-f'', strip raw])
          = Exit 0 so se
      \<and> decode w so = Text stdout \<and> decode w se = Text stderr
      \<and> strip (translate_newlines stdout) = [] \<longrightarrow>
      remove_container w s =
        Returned ()
          (sc\<lparr>inputs := rest,
             out := out sc @
               [Print ([10, 128465, 65039] @ lit '' ELIMINAR CONTENEDOR''),
                Prompt (lit ''ID o nombre del contenedor a eliminar: ''),
                Prompt ([191] @ lit ''Est'' @ [225] @ lit ''s seguro de eliminar el contenedor ''
                        @ strip raw @ lit ''? (s/N): ''),
                Print ([10060] @ lit '' Error al eliminar el contenedor '' @ strip raw)],
             calls := calls sc @
               [(Captured, [lit ''docker'', lit ''rm'', lit ''-f'', strip raw])]\<rparr>)"
proof (intro impI)
  assume "list_containers w True s = Returned () sc \<and> inputs s = Line raw # Line answer # rest
      \<and> strip raw \<noteq> [] \<and> lower (strip answer) = lit ''s''
      \<and> spawn w (calls sc) (Captured, [lit ''docker'', lit ''rm'', lit ''-f'', strip raw])
          = Exit 0 so se
      \<and> decode w so = Text stdout \<and> decode w se = Text stderr
      \<and> strip (translate_newlines stdout) = []"
  with after_list_containers [of w True s sc]
  show "remove_container w s =
        Returned ()
          (sc\<lparr>inputs := rest,
             out := out sc @
               [Print ([10, 128465, 65039] @ lit '' ELIMINAR CONTENEDOR''),
                Prompt (lit ''ID o nombre del contenedor a eliminar: ''),
                Prompt ([191] @ lit ''Est'' @ [225] @ lit ''s seguro de eliminar el contenedor ''
                        @ strip raw @ lit ''? (s/N): ''),
                Print ([10060] @ lit '' Error al eliminar el contenedor '' @ strip raw)],
             calls := calls sc @
               [(Captured, [lit ''docker'', lit ''rm'', lit ''-f'', strip raw])]\<rparr>)"
    unfolding remove_container_def Let_def
    by (simp add: input_Line run_command_zero truthy_def print_def)
qed

lemma remove_image_blank_stdout:
  "list_images w s = Returned () si \<and> inputs s = Line raw # Line answer # rest
      \<and> strip raw \<noteq> [] \<and> lower (strip answer) = lit ''s''
      \<and> spawn w (calls si) (Captured, [lit ''docker'', lit ''rmi'', strip raw]) = Exit 0 so se
      \<and> decode w so = Text stdout \<and> decode w se = Text stderr
      \<and> strip (translate_newlines stdout) = [] \<longrightarrow>
      remove_image w s =
        Returned ()
          (si\<lparr>inputs := rest,
             out := out si @
               [Print ([10, 128465, 65039] @ lit '' ELIMINAR IMAGEN''),
                Prompt (lit ''Ingresa el ID o nombre de la imagen a eliminar: ''),
                Prompt ([191] @ lit ''Est'' @ [225] @ lit ''s seguro de eliminar la imagen ''
                        @ strip raw @ lit ''? (s/N): ''),
                Print ([10060] @ lit '' Error al eliminar la imagen '' @ strip raw)],
             calls := calls si @
               [(Captured, [lit ''docker'', lit ''rmi'', strip raw])]\<rparr>)"
proof (intro impI)
  assume "list_images w s = Returned () si \<and> inputs s = Line raw # Line answer # rest
      \<and> strip raw \<noteq> [] \<and> lower (strip answer) = lit ''s''
      \<and> spawn w (calls si) (Captured, [lit ''docker'', lit ''rmi'', strip raw]) = Exit 0 so se
      \<and> decode w so = Text stdout \<and> decode w se = Text stderr
      \<and> strip (translate_newlines stdout) = []"
  with after_list_images [of w s si]
  show "remove_image w s =
        Returned ()
          (si\<lparr>inputs := rest,
             out := out si @
               [Print ([10, 128465, 65039] @ lit '' ELIMINAR IMAGEN''),
                Prompt (lit ''Ingresa el ID o nombre de la imagen a eliminar: ''),
                Prompt ([191] @ lit ''Est'' @ [225] @ lit ''s seguro de eliminar la imagen ''
                        @ strip raw @ lit ''? (s/N): ''),
                Print ([10060] @ lit '' Error al eliminar la imagen '' @ strip raw)],
             calls := calls si @
               [(Captured, [lit ''docker'', lit ''rmi'', strip raw])]\<rparr>)"
    unfolding remove_image_def Let_def
    by (simp add: input_Line run_command_zero truthy_def print_def)
qed

text \<open>
  C10, as stated, fails where a stream of the child cannot be decoded: with exit
  status zero and nothing on its standard output, but the byte 255 on its standard
  error, \<open>run_command\<close> raises \<open>UnicodeDecodeError\<close> instead of returning the
  empty string, and \<open>list_images\<close> raises it too, having printed its heading and
  rule and no error line.
\<close>

theorem blank_stdout_undecodable_stderr_raises:
  "run_command (world_of (Exit 0 [] [255]) False) [lit ''docker'', lit ''ps''] (terminal [])
     = Raised (UnicodeDecodeError (lit ''codec can not decode byte''))
         \<lparr>inputs = [], out = [],
            calls = [(Captured, [lit ''docker'', lit ''ps''])]\<rparr>
   \<and> list_images (world_of (Exit 0 [] [255]) False) (terminal [])
     = Raised (UnicodeDecodeError (lit ''codec can not decode byte''))
         \<lparr>inputs = [],
            out = [Print ([10, 128230] @ lit '' IM'' @ [193] @ lit ''GENES DOCKER DISPONIBLES:''),
                   Print (str_mul (lit ''-'') 80)],
            calls = [(Captured,
              [lit ''docker'', lit ''images'', lit ''--format'',
           lit ''table {{.Repository}}'' @ [9] @ lit ''{{.Tag}}'' @ [9] @ lit ''{{.ID}}''
            @ [9] @ lit ''{{.Size}}'' @ [9] @ lit ''{{.CreatedSince}}''])]\<rparr>"
  by (simp add: list_images_def run_command_def concrete_defs)

text \<open>
  C10, amended.  When the child exits with status zero, its two streams can be
  decoded and its standard output is blank, \<open>run_command\<close> returns the empty
  string, which is false for \<open>if result\<close>: each of the eight operations that call
  \<open>run_command\<close> then prints its error line, although the engine's command
  succeeded.
\<close>

theorem blank_stdout_reported_as_error:
  "(command \<noteq> [] \<and> spawn w (calls s) (Captured, command) = Exit 0 so se
      \<and> decode w so = Text stdout \<and> decode w se = Text stderr
      \<and> strip (translate_newlines stdout) = [] \<longrightarrow>
      run_command w command s =
        Returned (Some []) (s\<lparr>calls := calls s @ [(Captured, command)]\<rparr>)
      \<and> \<not> truthy (Some []))
   \<and> (spawn w (calls s) (Captured,
         [lit ''docker'', lit ''images'', lit ''--format'',
           lit ''table {{.Repository}}'' @ [9] @ lit ''{{.Tag}}'' @ [9] @ lit ''{{.ID}}''
            @ [9] @ lit ''{{.Size}}'' @ [9] @ lit ''{{.CreatedSince}}'']) = Exit 0 so se
      \<and> decode w so = Text stdout \<and> decode w se = Text stderr
      \<and> strip (translate_newlines stdout) = [] \<longrightarrow>
      list_images w s =
        Returned ()
          (s\<lparr>out := out s @
               [Print ([10, 128230] @ lit '' IM'' @ [193] @ lit ''GENES DOCKER DISPONIBLES:''),
                Print (str_mul (lit ''-'') 80),
                Print (lit ''No se pudieron listar las im'' @ [225] @ lit ''genes'')],
             calls := calls s @ [(Captured,
               [lit ''docker'', lit ''images'', lit ''--format'',
           lit ''table {{.Repository}}'' @ [9] @ lit ''{{.Tag}}'' @ [9] @ lit ''{{.ID}}''
            @ [9] @ lit ''{{.Size}}'' @ [9] @ lit ''{{.CreatedSince}}''])]\<rparr>))
   \<and> (spawn w (calls s) (Captured,
         (if a then [lit ''docker'', lit ''ps'', lit ''-a'', lit ''--format'',
           lit ''table {{.ID}}'' @ [9] @ lit ''{{.Names}}'' @ [9] @ lit ''{{.Image}}''
            @ [9] @ lit ''{{.Status}}'' @ [9] @ lit ''{{.Ports}}'']
         else [lit ''docker'', lit ''ps'', lit ''--format'',
           lit ''table {{.ID}}'' @ [9] @ lit ''{{.Names}}'' @ [9] @ lit ''{{.Image}}''
            @ [9] @ lit ''{{.Status}}'' @ [9] @ lit ''{{.Ports}}''])) = Exit 0 so se
      \<and> decode w so = Text stdout \<and> decode w se = Text stderr
      \<and> strip (translate_newlines stdout) = [] \<longrightarrow>
      list_containers w a s =
        Returned ()
          (s\<lparr>out := out s @
               [Print ([10, 128051] @ lit '' ''
                      @ (if a then lit ''TODOS LOS CONTENEDORES'' else lit ''CONTENEDORES ACTIVOS'')
                      @ lit '':''),
                Print (str_mul (lit ''-'') 100),
                Print (lit ''No se pudieron listar los contenedores'')],
             calls := calls s @ [(Captured,
               (if a then [lit ''docker'', lit ''ps'', lit ''-a'', lit ''--format'',
           lit ''table {{.ID}}'' @ [9] @ lit ''{{.Names}}'' @ [9] @ lit ''{{.Image}}''
            @ [9] @ lit ''{{.Status}}'' @ [9] @ lit ''{{.Ports}}'']
         else [lit ''docker'', lit ''ps'', lit ''--format'',
           lit ''table {{.ID}}'' @ [9] @ lit ''{{.Names}}'' @ [9] @ lit ''{{.Image}}''
            @ [9] @ lit ''{{.Status}}'' @ [9] @ lit ''{{.Ports}}'']))]\<rparr>))
   \<and> (inputs s = Line raw_image # Line raw_name # Line raw_port # rest \<and> strip raw_image \<noteq> []
      \<and> spawn w (calls s)
            (Captured, run_container_cmd (strip raw_image) (strip raw_name) (strip raw_port))
          = Exit 0 so se
      \<and> decode w so = Text stdout \<and> decode w se = Text stderr
      \<and> strip (translate_newlines stdout) = [] \<longrightarrow>
      run_container w s =
        Returned ()
          (s\<lparr>inputs := rest,
             out := out s @
               [Print ([10, 128640] @ lit '' EJECUTAR CONTENEDOR''),
                Prompt (lit ''Nombre de la imagen: ''),
                Prompt (lit ''Nombre del contenedor (opcional): ''),
                Prompt (lit ''Mapeo de puertos (ej: 8080:80, opcional): ''),
                Print ([10060] @ lit '' Error al iniciar el contenedor'')],
             calls := calls s @
               [(Captured, run_container_cmd (strip raw_image) (strip raw_name) (strip raw_port))]\<rparr>))
   \<and> (list_containers w True s = Returned () sc \<and> inputs s = Line raw # rest \<and> strip raw \<noteq> []
      \<and> spawn w (calls sc) (Captured, [lit ''docker'', lit ''stop'', strip raw]) = Exit 0 so se
      \<and> decode w so = Text stdout \<and> decode w se = Text stderr
      \<and> strip (translate_newlines stdout) = [] \<longrightarrow>
      stop_container w s =
        Returned ()
          (sc\<lparr>inputs := rest,
             out := out sc @
               [Print ([10, 9209, 65039] @ lit '' DETENER CONTENEDOR''),
                Prompt (lit ''ID o nombre del contenedor a detener: ''),
                Print ([10060] @ lit '' Error al detener el contenedor '' @ strip raw)],
             calls := calls sc @ [(Captured, [lit ''docker'', lit ''stop'', strip raw])]\<rparr>))
   \<and> (list_containers w True s = Returned () sc \<and> inputs s = Line raw # rest \<and> strip raw \<noteq> []
      \<and> spawn w (calls sc) (Captured, [lit ''docker'', lit ''start'', strip raw]) = Exit 0 so se
      \<and> decode w so = Text stdout \<and> decode w se = Text stderr
      \<and> strip (translate_newlines stdout) = [] \<longrightarrow>
      start_container w s =
        Returned ()
          (sc\<lparr>inputs := rest,
             out := out sc @
               [Print ([10, 9654, 65039] @ lit '' INICIAR CONTENEDOR''),
                Prompt (lit ''ID o nombre del contenedor a iniciar: ''),
                Print ([10060] @ lit '' Error al iniciar el contenedor '' @ strip raw)],
             calls := calls sc @ [(Captured, [lit ''docker'', lit ''start'', strip raw])]\<rparr>))
   \<and> (list_containers w True s = Returned () sc \<and> inputs s = Line raw # rest \<and> strip raw \<noteq> []
      \<and> spawn w (calls sc) (Captured, [lit ''docker'', lit ''restart'', strip raw]) = Exit 0 so se
      \<and> decode w so = Text stdout \<and> decode w se = Text stderr
      \<and> strip (translate_newlines stdout) = [] \<longrightarrow>
      restart_container w s =
        Returned ()
          (sc\<lparr>inputs := rest,
             out := out sc @
               [Print ([10, 128260] @ lit '' REINICIAR CONTENEDOR''),
                Prompt (lit ''ID o nombre del contenedor a reiniciar: ''),
                Print ([10060] @ lit '' Error al reiniciar el contenedor '' @ strip raw)],
             calls := calls sc @ [(Captured, [lit ''docker'', lit ''restart'', strip raw])]\<rparr>))
   \<and> (list_containers w True s = Returned () sc \<and> inputs s = Line raw # Line answer # rest
      \<and> strip raw \<noteq> [] \<and> lower (strip answer) = lit ''s''
      \<and> spawn w (calls sc) (Captured, [lit ''docker'', lit ''rm'', lit ''-f'', strip raw])
          = Exit 0 so se
      \<and> decode w so = Text stdout \<and> decode w se = Text stderr
      \<and> strip (translate_newlines stdout) = [] \<longrightarrow>
      remove_container w s =
        Returned ()
          (sc\<lparr>inputs := rest,
             out := out sc @
               [Print ([10, 128465, 65039] @ lit '' ELIMINAR CONTENEDOR''),
                Prompt (lit ''ID o nombre del contenedor a eliminar: ''),
                Prompt ([191] @ lit ''Est'' @ [225] @ lit ''s seguro de eliminar el contenedor ''
                        @ strip raw @ lit ''? (s/N): ''),
                Print ([10060] @ lit '' Error al eliminar el contenedor '' @ strip raw)],
             calls := calls sc @
               [(Captured, [lit ''docker'', lit ''rm'', lit ''-f'', strip raw])]\<rparr>))
   \<and> (list_images w s = Returned () si \<and> inputs s = Line raw # Line answer # rest
      \<and> strip raw \<noteq> [] \<and> lower (strip answer) = lit ''s''
      \<and> spawn w (calls si) (Captured, [lit ''docker'', lit ''rmi'', strip raw]) = Exit 0 so se
      \<and> decode w so = Text stdout \<and> decode w se = Text stderr
      \<and> strip (translate_newlines stdout) = [] \<longrightarrow>
      remove_image w s =
        Returned ()
          (si\<lparr>inputs := rest,
             out := out si @
               [Print ([10, 128465, 65039] @ lit '' ELIMINAR IMAGEN''),
                Prompt (lit ''Ingresa el ID o nombre de la imagen a eliminar: ''),
                Prompt ([191] @ lit ''Est'' @ [225] @ lit ''s seguro de eliminar la imagen ''
                        @ strip raw @ lit ''? (s/N): ''),
                Print ([10060] @ lit '' Error al eliminar la imagen '' @ strip raw)],
             calls := calls si @
               [(Captured, [lit ''docker'', lit ''rmi'', strip raw])]\<rparr>))"
  by (intro conjI)
     (rule run_command_blank,
      rule list_images_blank_stdout,
      rule list_containers_blank_stdout,
      rule run_container_blank_stdout,
      rule stop_container_blank_stdout,
      rule start_container_blank_stdout,
      rule restart_container_blank_stdout,
      rule remove_container_blank_stdout,
      rule remove_image_blank_stdout)

theorem blank_stdout_reported_as_error_witness:
  "run_command (world_of (Exit 0 (lit '' '') []) False) [lit ''docker'', lit ''ps''] (terminal [Line (lit ''web1''), Line (lit ''s''), Line []])
     = Returned (Some [])
         \<lparr>inputs = [Line (lit ''web1''), Line (lit ''s''), Line []], out = [],
            calls = [(Captured, [lit ''docker'', lit ''ps''])]\<rparr>
   \<and> \<not> truthy (Some [])
   \<and> list_images (world_of (Exit 0 (lit '' '') []) False) (terminal [Line (lit ''web1''), Line (lit ''s''), Line []])
     = Returned ()
         \<lparr>inputs = [Line (lit ''web1''), Line (lit ''s''), Line []],
            out = [Print ([10, 128230] @ lit '' IM'' @ [193] @ lit ''GENES DOCKER DISPONIBLES:''),
                   Print (str_mul (lit ''-'') 80),
                   Print (lit ''No se pudieron listar las im'' @ [225] @ lit ''genes'')],
            calls = [(Captured,
              [lit ''docker'', lit ''images'', lit ''--format'',
           lit ''table {{.Repository}}'' @ [9] @ lit ''{{.Tag}}'' @ [9] @ lit ''{{.ID}}''
            @ [9] @ lit ''{{.Size}}'' @ [9] @ lit ''{{.CreatedSince}}''])]\<rparr>
   \<and> list_containers (world_of (Exit 0 (lit '' '') []) False) True (terminal [Line (lit ''web1''), Line (lit ''s''), Line []])
     = Returned ()
         \<lparr>inputs = [Line (lit ''web1''), Line (lit ''s''), Line []],
            out = [Print ([10, 128051] @ lit '' '' @ lit ''TODOS LOS CONTENEDORES'' @ lit '':''),
                   Print (str_mul (lit ''-'') 100),
                   Print (lit ''No se pudieron listar los contenedores'')],
            calls = [(Captured,
              [lit ''docker'', lit ''ps'', lit ''-a'', lit ''--format'',
           lit ''table {{.ID}}'' @ [9] @ lit ''{{.Names}}'' @ [9] @ lit ''{{.Image}}''
            @ [9] @ lit ''{{.Status}}'' @ [9] @ lit ''{{.Ports}}''])]\<rparr>
   \<and> run_container (world_of (Exit 0 (lit '' '') []) False) (terminal [Line (lit ''web1''), Line (lit ''s''), Line []])
     = Returned ()
         \<lparr>inputs = [],
            out = [Print ([10, 128640] @ lit '' EJECUTAR CONTENEDOR''),
                   Prompt (lit ''Nombre de la imagen: ''),
                   Prompt (lit ''Nombre del contenedor (opcional): ''),
                   Prompt (lit ''Mapeo de puertos (ej: 8080:80, opcional): ''),
                   Print ([10060] @ lit '' Error al iniciar el contenedor'')],
            calls = [(Captured, [lit ''docker'', lit ''run'', lit ''-d'', lit ''--name'', lit ''s'', lit ''web1''])]\<rparr>
   \<and> stop_container (world_of (Exit 0 (lit '' '') []) False) (terminal [Line (lit ''web1''), Line (lit ''s''), Line []])
     = Returned ()
         \<lparr>inputs = [Line (lit ''s''), Line []],
            out = [Print ([10, 128051] @ lit '' '' @ lit ''TODOS LOS CONTENEDORES'' @ lit '':''),
                   Print (str_mul (lit ''-'') 100),
                   Print (lit ''No se pudieron listar los contenedores''),
                   Print ([10, 9209, 65039] @ lit '' DETENER CONTENEDOR''),
                   Prompt (lit ''ID o nombre del contenedor a detener: ''),
                   Print ([10060] @ lit '' Error al detener el contenedor '' @ lit ''web1'')],
            calls = [(Captured,
              [lit ''docker'', lit ''ps'', lit ''-a'', lit ''--format'',
           lit ''table {{.ID}}'' @ [9] @ lit ''{{.Names}}'' @ [9] @ lit ''{{.Image}}''
            @ [9] @ lit ''{{.Status}}'' @ [9] @ lit ''{{.Ports}}'']),
              (Captured, [lit ''docker'', lit ''stop'', lit ''web1''])]\<rparr>
   \<and> start_container (world_of (Exit 0 (lit '' '') []) False) (terminal [Line (lit ''web1''), Line (lit ''s''), Line []])
     = Returned ()
         \<lparr>inputs = [Line (lit ''s''), Line []],
            out = [Print ([10, 128051] @ lit '' '' @ lit ''TODOS LOS CONTENEDORES'' @ lit '':''),
                   Print (str_mul (lit ''-'') 100),
                   Print (lit ''No se pudieron listar los contenedores''),
                   Print ([10, 9654, 65039] @ lit '' INICIAR CONTENEDOR''),
                   Prompt (lit ''ID o nombre del contenedor a iniciar: ''),
                   Print ([10060] @ lit '' Error al iniciar el contenedor '' @ lit ''web1'')],
            calls = [(Captured,
              [lit ''docker'', lit ''ps'', lit ''-a'', lit ''--format'',
           lit ''table {{.ID}}'' @ [9] @ lit ''{{.Names}}'' @ [9] @ lit ''{{.Image}}''
            @ [9] @ lit ''{{.Status}}'' @ [9] @ lit ''{{.Ports}}'']),
              (Captured, [lit ''docker'', lit ''start'', lit ''web1''])]\<rparr>
   \<and> restart_container (world_of (Exit 0 (lit '' '') []) False) (terminal [Line (lit ''web1''), Line (lit ''s''), Line []])
     = Returned ()
         \<lparr>inputs = [Line (lit ''s''), Line []],
            out = [Print ([10, 128051] @ lit '' '' @ lit ''TODOS LOS CONTENEDORES'' @ lit '':''),
                   Print (str_mul (lit ''-'') 100),
                   Print (lit ''No se pudieron listar los contenedores''),
                   Print ([10, 128260] @ lit '' REINICIAR CONTENEDOR''),
                   Prompt (lit ''ID o nombre del contenedor a reiniciar: ''),
                   Print ([10060] @ lit '' Error al reiniciar el contenedor '' @ lit ''web1'')],
            calls = [(Captured,
              [lit ''docker'', lit ''ps'', lit ''-a'', lit ''--format'',
           lit ''table {{.ID}}'' @ [9] @ lit ''{{.Names}}'' @ [9] @ lit ''{{.Image}}''
            @ [9] @ lit ''{{.Status}}'' @ [9] @ lit ''{{.Ports}}'']),
              (Captured, [lit ''docker'', lit ''restart'', lit ''web1''])]\<rparr>
   \<and> remove_container (world_of (Exit 0 (lit '' '') []) False) (terminal [Line (lit ''web1''), Line (lit ''s''), Line []])
     = Returned ()
         \<lparr>inputs = [Line []],
            out = [Print ([10, 128051] @ lit '' '' @ lit ''TODOS LOS CONTENEDORES'' @ lit '':''),
                   Print (str_mul (lit ''-'') 100),
                   Print (lit ''No se pudieron listar los contenedores''),
                   Print ([10, 128465, 65039] @ lit '' ELIMINAR CONTENEDOR''),
                   Prompt (lit ''ID o nombre del contenedor a eliminar: ''),
                   Prompt ([191] @ lit ''Est'' @ [225] @ lit ''s seguro de eliminar el contenedor ''
                        @ lit ''web1'' @ lit ''? (s/N): ''),
                   Print ([10060] @ lit '' Error al eliminar el contenedor '' @ lit ''web1'')],
            calls = [(Captured,
              [lit ''docker'', lit ''ps'', lit ''-a'', lit ''--format'',
           lit ''table {{.ID}}'' @ [9] @ lit ''{{.Names}}'' @ [9] @ lit ''{{.Image}}''
            @ [9] @ lit ''{{.Status}}'' @ [9] @ lit ''{{.Ports}}'']),
              (Captured, [lit ''docker'', lit ''rm'', lit ''-f'', lit ''web1''])]\<rparr>
   \<and> remove_image (world_of (Exit 0 (lit '' '') []) False) (terminal [Line (lit ''web1''), Line (lit ''s''), Line []])
     = Returned ()
         \<lparr>inputs = [Line []],
            out = [Print ([10, 128230] @ lit '' IM'' @ [193] @ lit ''GENES DOCKER DISPONIBLES:''),
                   Print (str_mul (lit ''-'') 80),
                   Print (lit ''No se pudieron listar las im'' @ [225] @ lit ''genes''),
                   Print ([10, 128465, 65039] @ lit '' ELIMINAR IMAGEN''),
                   Prompt (lit ''Ingresa el ID o nombre de la imagen a eliminar: ''),
                   Prompt ([191] @ lit ''Est'' @ [225] @ lit ''s seguro de eliminar la imagen ''
                        @ lit ''web1'' @ lit ''? (s/N): ''),
                   Print ([10060] @ lit '' Error al eliminar la imagen '' @ lit ''web1'')],
            calls = [(Captured,
              [lit ''docker'', lit ''images'', lit ''--format'',
           lit ''table {{.Repository}}'' @ [9] @ lit ''{{.Tag}}'' @ [9] @ lit ''{{.ID}}''
            @ [9] @ lit ''{{.Size}}'' @ [9] @ lit ''{{.CreatedSince}}'']),
              (Captured, [lit ''docker'', lit ''rmi'', lit ''web1''])]\<rparr>"
proof -
  let ?w = "world_of (Exit 0 (lit '' '') []) False"
  let ?s = "terminal [Line (lit ''web1''), Line (lit ''s''), Line []]"
  let ?c = "\<lparr>inputs = [Line (lit ''web1''), Line (lit ''s''), Line []],
            out = [Print ([10, 128051] @ lit '' '' @ lit ''TODOS LOS CONTENEDORES'' @ lit '':''),
                   Print (str_mul (lit ''-'') 100),
                   Print (lit ''No se pudieron listar los contenedores'')],
            calls = [(Captured,
              [lit ''docker'', lit ''ps'', lit ''-a'', lit ''--format'',
           lit ''table {{.ID}}'' @ [9] @ lit ''{{.Names}}'' @ [9] @ lit ''{{.Image}}''
            @ [9] @ lit ''{{.Status}}'' @ [9] @ lit ''{{.Ports}}''])]\<rparr>"
  let ?i = "\<lparr>inputs = [Line (lit ''web1''), Line (lit ''s''), Line []],
            out = [Print ([10, 128230] @ lit '' IM'' @ [193] @ lit ''GENES DOCKER DISPONIBLES:''),
                   Print (str_mul (lit ''-'') 80),
                   Print (lit ''No se pudieron listar las im'' @ [225] @ lit ''genes'')],
            calls = [(Captured,
              [lit ''docker'', lit ''images'', lit ''--format'',
           lit ''table {{.Repository}}'' @ [9] @ lit ''{{.Tag}}'' @ [9] @ lit ''{{.ID}}''
            @ [9] @ lit ''{{.Size}}'' @ [9] @ lit ''{{.CreatedSince}}''])]\<rparr>"
  have h: "spawn ?w x y = Exit 0 (lit '' '') []"
    "decode ?w (lit '' '') = Text (lit '' '')" "decode ?w [] = Text []" for x y
    by (simp_all add: concrete_defs)
  have e: "strip (translate_newlines (lit '' '')) = []" "strip (lit ''web1'') = lit ''web1''"
    "strip (lit ''s'') = lit ''s''" "strip [] = []" "lower (lit ''s'') = lit ''s''"
    by (simp_all add: concrete_defs)
  have i: "inputs ?s = Line (lit ''web1'') # [Line (lit ''s''), Line []]"
    "inputs ?s = Line (lit ''web1'') # Line (lit ''s'') # [Line []]"
    "inputs ?s = Line (lit ''web1'') # Line (lit ''s'') # Line [] # []"
    by (simp_all add: terminal_def)
  note A = blank_stdout_reported_as_error
             [where w = ?w and s = ?s and command = "[lit ''docker'', lit ''ps'']"
                and so = "lit '' ''" and se = "[]" and stdout = "lit '' ''" and stderr = "[]" and a = True and raw = "lit ''web1''"
                and rest = "[Line (lit ''s''), Line []]" and sc = ?c and si = ?i]
  note B = blank_stdout_reported_as_error
             [where w = ?w and s = ?s and so = "lit '' ''" and se = "[]" and stdout = "lit '' ''" and stderr = "[]"
                and raw = "lit ''web1''" and answer = "lit ''s''"
                and rest = "[Line []]" and sc = ?c and si = ?i]
  note C = blank_stdout_reported_as_error
             [where w = ?w and s = ?s and so = "lit '' ''" and se = "[]" and stdout = "lit '' ''" and stderr = "[]"
                and raw_image = "lit ''web1''" and raw_name = "lit ''s''" and raw_port = "[]"
                and rest = "[]"]
  have 1: "run_command ?w [lit ''docker'', lit ''ps''] ?s =
        Returned (Some []) (?s\<lparr>calls := calls ?s @ [(Captured, [lit ''docker'', lit ''ps''])]\<rparr>)
      \<and> \<not> truthy (Some [])"
    by (rule A [THEN conjunct1, THEN mp]) (simp add: h e)
  have 2: "list_images ?w ?s =
        Returned ()
          (?s\<lparr>out := out ?s @
               [Print ([10, 128230] @ lit '' IM'' @ [193] @ lit ''GENES DOCKER DISPONIBLES:''),
                Print (str_mul (lit ''-'') 80),
                Print (lit ''No se pudieron listar las im'' @ [225] @ lit ''genes'')],
             calls := calls ?s @ [(Captured,
               [lit ''docker'', lit ''images'', lit ''--format'',
           lit ''table {{.Repository}}'' @ [9] @ lit ''{{.Tag}}'' @ [9] @ lit ''{{.ID}}''
            @ [9] @ lit ''{{.Size}}'' @ [9] @ lit ''{{.CreatedSince}}''])]\<rparr>)"
    by (rule A [THEN conjunct2, THEN conjunct1, THEN mp]) (simp add: h e)
  have 3: "list_containers ?w True ?s =
        Returned ()
          (?s\<lparr>out := out ?s @
               [Print ([10, 128051] @ lit '' ''
                      @ (if True then lit ''TODOS LOS CONTENEDORES'' else lit ''CONTENEDORES ACTIVOS'')
                      @ lit '':''),
                Print (str_mul (lit ''-'') 100),
                Print (lit ''No se pudieron listar los contenedores'')],
             calls := calls ?s @ [(Captured,
               (if True then [lit ''docker'', lit ''ps'', lit ''-a'', lit ''--format'',
           lit ''table {{.ID}}'' @ [9] @ lit ''{{.Names}}'' @ [9] @ lit ''{{.Image}}''
            @ [9] @ lit ''{{.Status}}'' @ [9] @ lit ''{{.Ports}}'']
         else [lit ''docker'', lit ''ps'', lit ''--format'',
           lit ''table {{.ID}}'' @ [9] @ lit ''{{.Names}}'' @ [9] @ lit ''{{.Image}}''
            @ [9] @ lit ''{{.Status}}'' @ [9] @ lit ''{{.Ports}}'']))]\<rparr>)"
    by (rule A [THEN conjunct2, THEN conjunct2, THEN conjunct1, THEN mp]) (simp add: h e)
  have 4: "run_container ?w ?s =
        Returned ()
          (?s\<lparr>inputs := [],
             out := out ?s @
               [Print ([10, 128640] @ lit '' EJECUTAR CONTENEDOR''),
                Prompt (lit ''Nombre de la imagen: ''),
                Prompt (lit ''Nombre del contenedor (opcional): ''),
                Prompt (lit ''Mapeo de puertos (ej: 8080:80, opcional): ''),
                Print ([10060] @ lit '' Error al iniciar el contenedor'')],
             calls := calls ?s @
               [(Captured, run_container_cmd (strip (lit ''web1'')) (strip (lit ''s'')) (strip []))]\<rparr>)"
    by (rule C [THEN conjunct2, THEN conjunct2, THEN conjunct2, THEN conjunct1, THEN mp]) (simp add: h e i)
  from 2 have li: "list_images ?w ?s = Returned () ?i"
    by (simp add: terminal_def)
  from 3 have lc: "list_containers ?w True ?s = Returned () ?c"
    by (simp add: terminal_def)
  have 5: "stop_container ?w ?s =
        Returned ()
          (?c\<lparr>inputs := [Line (lit ''s''), Line []],
             out := out ?c @
               [Print ([10, 9209, 65039] @ lit '' DETENER CONTENEDOR''),
                Prompt (lit ''ID o nombre del contenedor a detener: ''),
                Print ([10060] @ lit '' Error al detener el contenedor '' @ strip (lit ''web1''))],
             calls := calls ?c @ [(Captured, [lit ''docker'', lit ''stop'', strip (lit ''web1'')])]\<rparr>)"
    by (rule A [THEN conjunct2, THEN conjunct2, THEN conjunct2, THEN conjunct2, THEN conjunct1, THEN mp]) (simp add: h e i lc)
  have 6: "start_container ?w ?s =
        Returned ()
          (?c\<lparr>inputs := [Line (lit ''s''), Line []],
             out := out ?c @
               [Print ([10, 9654, 65039] @ lit '' INICIAR CONTENEDOR''),
                Prompt (lit ''ID o nombre del contenedor a iniciar: ''),
                Print ([10060] @ lit '' Error al iniciar el contenedor '' @ strip (lit ''web1''))],
             calls := calls ?c @ [(Captured, [lit ''docker'', lit ''start'', strip (lit ''web1'')])]\<rparr>)"
    by (rule A [THEN conjunct2, THEN conjunct2, THEN conjunct2, THEN conjunct2, THEN conjunct2, THEN conjunct1, THEN mp]) (simp add: h e i lc)
  have 7: "restart_container ?w ?s =
        Returned ()
          (?c\<lparr>inputs := [Line (lit ''s''), Line []],
             out := out ?c @
               [Print ([10, 128260] @ lit '' REINICIAR CONTENEDOR''),
                Prompt (lit ''ID o nombre del contenedor a reiniciar: ''),
                Print ([10060] @ lit '' Error al reiniciar el contenedor '' @ strip (lit ''web1''))],
             calls := calls ?c @ [(Captured, [lit ''docker'', lit ''restart'', strip (lit ''web1'')])]\<rparr>)"
    by (rule A [THEN conjunct2, THEN conjunct2, THEN conjunct2, THEN conjunct2, THEN conjunct2, THEN conjunct2, THEN conjunct1, THEN mp]) (simp add: h e i lc)
  have 8: "remove_container ?w ?s =
        Returned ()
          (?c\<lparr>inputs := [Line []],
             out := out ?c @
               [Print ([10, 128465, 65039] @ lit '' ELIMINAR CONTENEDOR''),
                Prompt (lit ''ID o nombre del contenedor a eliminar: ''),
                Prompt ([191] @ lit ''Est'' @ [225] @ lit ''s seguro de eliminar el contenedor ''
                        @ strip (lit ''web1'') @ lit ''? (s/N): ''),
                Print ([10060] @ lit '' Error al eliminar el contenedor '' @ strip (lit ''web1''))],
             calls := calls ?c @
               [(Captured, [lit ''docker'', lit ''rm'', lit ''-f'', strip (lit ''web1'')])]\<rparr>)"
    by (rule B [THEN conjunct2, THEN conjunct2, THEN conjunct2, THEN conjunct2, THEN conjunct2, THEN conjunct2, THEN conjunct2, THEN conjunct1, THEN mp]) (simp add: h e i lc)
  have 9: "remove_image ?w ?s =
        Returned ()
          (?i\<lparr>inputs := [Line []],
             out := out ?i @
               [Print ([10, 128465, 65039] @ lit '' ELIMINAR IMAGEN''),
                Prompt (lit ''Ingresa el ID o nombre de la imagen a eliminar: ''),
                Prompt ([191] @ lit ''Est'' @ [225] @ lit ''s seguro de eliminar la imagen ''
                        @ strip (lit ''web1'') @ lit ''? (s/N): ''),
                Print ([10060] @ lit '' Error al eliminar la imagen '' @ strip (lit ''web1''))],
             calls := calls ?i @
               [(Captured, [lit ''docker'', lit ''rmi'', strip (lit ''web1'')])]\<rparr>)"
    by (rule B [THEN conjunct2, THEN conjunct2, THEN conjunct2, THEN conjunct2, THEN conjunct2, THEN conjunct2, THEN conjunct2, THEN conjunct2, THEN mp]) (simp add: h e i li)
  from 1 2 3 4 5 6 7 8 9 show ?thesis
    by (simp add: terminal_def e run_container_cmd_def)
qed

section \<open>Unrecognized options\<close>

lemma prints_out: "prints ts s = s\<lparr>out := out s @ map Print ts\<rparr>"
  unfolding prints_def by (induction ts arbitrary: s) (simp_all add: print_def)

lemma input_Nil:
  "inputs s = [] \<Longrightarrow> input p s = Raised EOFError (s\<lparr>out := out s @ [Prompt p]\<rparr>)"
  by (simp add: input_def)

lemma input_Interrupt:
  "inputs s = Interrupt # rest \<Longrightarrow>
     input p s = Raised KeyboardInterrupt (s\<lparr>inputs := rest, out := out s @ [Prompt p]\<rparr>)"
  by (simp add: input_def)

lemmas input_steps = input_Line input_Nil input_Interrupt

lemma main_turn_unrecognized_line:
  "inputs s = Line raw # Line enter # rest \<and> strip raw \<notin> {lit ''1'', lit ''2'', lit ''3'', lit ''4''} \<longrightarrow>
      main_turn w s =
        Returned False
          (s\<lparr>inputs := rest,
             out := out (show_main_menu (show_header s)) @
               [Prompt (lit ''Selecciona una opci'' @ [243] @ lit ''n: ''),
                Print ([10060] @ lit '' Opci'' @ [243] @ lit ''n inv'' @ [225] @ lit ''lida''),
                Prompt ([10] @ lit ''Presiona Enter para continuar...'')]\<rparr>)
      \<and> main_loop w s =
          main_loop w
          (s\<lparr>inputs := rest,
             out := out (show_main_menu (show_header s)) @
               [Prompt (lit ''Selecciona una opci'' @ [243] @ lit ''n: ''),
                Print ([10060] @ lit '' Opci'' @ [243] @ lit ''n inv'' @ [225] @ lit ''lida''),
                Prompt ([10] @ lit ''Presiona Enter para continuar...'')]\<rparr>)"
  by (subst main_loop.simps) (simp add: input_steps main_turn_def show_main_menu_def show_header_def prints_out print_def Let_def)

lemma main_turn_unrecognized_eof:
  "inputs s = [Line raw] \<and> strip raw \<notin> {lit ''1'', lit ''2'', lit ''3'', lit ''4''} \<longrightarrow>
      main_turn w s =
        Raised EOFError
          (s\<lparr>inputs := [],
             out := out (show_main_menu (show_header s)) @
               [Prompt (lit ''Selecciona una opci'' @ [243] @ lit ''n: ''),
                Print ([10060] @ lit '' Opci'' @ [243] @ lit ''n inv'' @ [225] @ lit ''lida''),
                Prompt ([10] @ lit ''Presiona Enter para continuar...'')]\<rparr>)
      \<and> main_loop w s =
        Raised EOFError
          (s\<lparr>inputs := [],
             out := out (show_main_menu (show_header s)) @
               [Prompt (lit ''Selecciona una opci'' @ [243] @ lit ''n: ''),
                Print ([10060] @ lit '' Opci'' @ [243] @ lit ''n inv'' @ [225] @ lit ''lida''),
                Prompt ([10] @ lit ''Presiona Enter para continuar...'')]\<rparr>)"
  by (subst main_loop.simps) (simp add: input_steps main_turn_def show_main_menu_def show_header_def prints_out print_def Let_def)

lemma main_turn_unrecognized_interrupt:
  "inputs s = Line raw # Interrupt # rest \<and> strip raw \<notin> {lit ''1'', lit ''2'', lit ''3'', lit ''4''} \<longrightarrow>
      main_turn w s =
        Raised KeyboardInterrupt
          (s\<lparr>inputs := rest,
             out := out (show_main_menu (show_header s)) @
               [Prompt (lit ''Selecciona una opci'' @ [243] @ lit ''n: ''),
                Print ([10060] @ lit '' Opci'' @ [243] @ lit ''n inv'' @ [225] @ lit ''lida''),
                Prompt ([10] @ lit ''Presiona Enter para continuar...'')]\<rparr>)
      \<and> main_loop w s =
        Raised KeyboardInterrupt
          (s\<lparr>inputs := rest,
             out := out (show_main_menu (show_header s)) @
               [Prompt (lit ''Selecciona una opci'' @ [243] @ lit ''n: ''),
                Print ([10060] @ lit '' Opci'' @ [243] @ lit ''n inv'' @ [225] @ lit ''lida''),
                Prompt ([10] @ lit ''Presiona Enter para continuar...'')]\<rparr>)"
  by (subst main_loop.simps) (simp add: input_steps main_turn_def show_main_menu_def show_header_def prints_out print_def Let_def)

lemma main_turn_unrecognized:
  "inputs s = Line raw # rest \<and> strip raw \<notin> {lit ''1'', lit ''2'', lit ''3'', lit ''4''} \<longrightarrow>
      calls (final (main_turn w s)) = calls s
      \<and> out (final (main_turn w s)) =
          out (show_main_menu (show_header s)) @
               [Prompt (lit ''Selecciona una opci'' @ [243] @ lit ''n: ''),
                Print ([10060] @ lit '' Opci'' @ [243] @ lit ''n inv'' @ [225] @ lit ''lida''),
                Prompt ([10] @ lit ''Presiona Enter para continuar...'')]"
proof (intro impI)
  assume h: "inputs s = Line raw # rest \<and> strip raw \<notin> {lit ''1'', lit ''2'', lit ''3'', lit ''4''}"
  show "calls (final (main_turn w s)) = calls s
      \<and> out (final (main_turn w s)) =
          out (show_main_menu (show_header s)) @
               [Prompt (lit ''Selecciona una opci'' @ [243] @ lit ''n: ''),
                Print ([10060] @ lit '' Opci'' @ [243] @ lit ''n inv'' @ [225] @ lit ''lida''),
                Prompt ([10] @ lit ''Presiona Enter para continuar...'')]"
  proof (cases rest)
    case Nil
    with h main_turn_unrecognized_eof [of s raw w] show ?thesis
      by simp
  next
    case (Cons k rest')
    show ?thesis
    proof (cases k)
      case (Line enter)
      with h Cons main_turn_unrecognized_line [of s raw enter rest' w] show ?thesis
        by simp
    next
      case Interrupt
      with h Cons main_turn_unrecognized_interrupt [of s raw rest' w] show ?thesis
        by simp
    qed
  qed
qed

lemma image_menu_turn_unrecognized_line:
  "inputs s = Line raw # Line enter # rest \<and> strip raw \<notin> {lit ''1'', lit ''2'', lit ''3'', lit ''4'', lit ''5''} \<longrightarrow>
      image_menu_turn w s =
        Returned False
          (s\<lparr>inputs := rest,
             out := out (show_image_menu s) @
               [Prompt (lit ''Selecciona una opci'' @ [243] @ lit ''n: ''),
                Print ([10060] @ lit '' Opci'' @ [243] @ lit ''n inv'' @ [225] @ lit ''lida''),
                Prompt ([10] @ lit ''Presiona Enter para continuar...'')]\<rparr>)
      \<and> handle_image_menu w s =
          handle_image_menu w
          (s\<lparr>inputs := rest,
             out := out (show_image_menu s) @
               [Prompt (lit ''Selecciona una opci'' @ [243] @ lit ''n: ''),
                Print ([10060] @ lit '' Opci'' @ [243] @ lit ''n inv'' @ [225] @ lit ''lida''),
                Prompt ([10] @ lit ''Presiona Enter para continuar...'')]\<rparr>)"
  by (subst handle_image_menu.simps) (simp add: input_steps image_menu_turn_def image_menu_choice_def show_image_menu_def prints_out print_def Let_def)

lemma image_menu_turn_unrecognized_eof:
  "inputs s = [Line raw] \<and> strip raw \<notin> {lit ''1'', lit ''2'', lit ''3'', lit ''4'', lit ''5''} \<longrightarrow>
      image_menu_turn w s =
        Raised EOFError
          (s\<lparr>inputs := [],
             out := out (show_image_menu s) @
               [Prompt (lit ''Selecciona una opci'' @ [243] @ lit ''n: ''),
                Print ([10060] @ lit '' Opci'' @ [243] @ lit ''n inv'' @ [225] @ lit ''lida''),
                Prompt ([10] @ lit ''Presiona Enter para continuar...'')]\<rparr>)
      \<and> handle_image_menu w s =
        Raised EOFError
          (s\<lparr>inputs := [],
             out := out (show_image_menu s) @
               [Prompt (lit ''Selecciona una opci'' @ [243] @ lit ''n: ''),
                Print ([10060] @ lit '' Opci'' @ [243] @ lit ''n inv'' @ [225] @ lit ''lida''),
                Prompt ([10] @ lit ''Presiona Enter para continuar...'')]\<rparr>)"
  by (subst handle_image_menu.simps) (simp add: input_steps image_menu_turn_def image_menu_choice_def show_image_menu_def prints_out print_def Let_def)

lemma image_menu_turn_unrecognized_interrupt:
  "inputs s = Line raw # Interrupt # rest \<and> strip raw \<notin> {lit ''1'', lit ''2'', lit ''3'', lit ''4'', lit ''5''} \<longrightarrow>
      image_menu_turn w s =
        Raised KeyboardInterrupt
          (s\<lparr>inputs := rest,
             out := out (show_image_menu s) @
               [Prompt (lit ''Selecciona una opci'' @ [243] @ lit ''n: ''),
                Print ([10060] @ lit '' Opci'' @ [243] @ lit ''n inv'' @ [225] @ lit ''lida''),
                Prompt ([10] @ lit ''Presiona Enter para continuar...'')]\<rparr>)
      \<and> handle_image_menu w s =
        Raised KeyboardInterrupt
          (s\<lparr>inputs := rest,
             out := out (show_image_menu s) @
               [Prompt (lit ''Selecciona una opci'' @ [243] @ lit ''n: ''),
                Print ([10060] @ lit '' Opci'' @ [243] @ lit ''n inv'' @ [225] @ lit ''lida''),
                Prompt ([10] @ lit ''Presiona Enter para continuar...'')]\<rparr>)"
  by (subst handle_image_menu.simps) (simp add: input_steps image_menu_turn_def image_menu_choice_def show_image_menu_def prints_out print_def Let_def)

lemma image_menu_turn_unrecognized:
  "inputs s = Line raw # rest \<and> strip raw \<notin> {lit ''1'', lit ''2'', lit ''3'', lit ''4'', lit ''5''} \<longrightarrow>
      calls (final (image_menu_turn w s)) = calls s
      \<and> out (final (image_menu_turn w s)) =
          out (show_image_menu s) @
               [Prompt (lit ''Selecciona una opci'' @ [243] @ lit ''n: ''),
                Print ([10060] @ lit '' Opci'' @ [243] @ lit ''n inv'' @ [225] @ lit ''lida''),
                Prompt ([10] @ lit ''Presiona Enter para continuar...'')]"
proof (intro impI)
  assume h: "inputs s = Line raw # rest \<and> strip raw \<notin> {lit ''1'', lit ''2'', lit ''3'', lit ''4'', lit ''5''}"
  show "calls (final (image_menu_turn w s)) = calls s
      \<and> out (final (image_menu_turn w s)) =
          out (show_image_menu s) @
               [Prompt (lit ''Selecciona una opci'' @ [243] @ lit ''n: ''),
                Print ([10060] @ lit '' Opci'' @ [243] @ lit ''n inv'' @ [225] @ lit ''lida''),
                Prompt ([10] @ lit ''Presiona Enter para continuar...'')]"
  proof (cases rest)
    case Nil
    with h image_menu_turn_unrecognized_eof [of s raw w] show ?thesis
      by simp
  next
    case (Cons k rest')
    show ?thesis
    proof (cases k)
      case (Line enter)
      with h Cons image_menu_turn_unrecognized_line [of s raw enter rest' w] show ?thesis
        by simp
    next
      case Interrupt
      with h Cons image_menu_turn_unrecognized_interrupt [of s raw rest' w] show ?thesis
        by simp
    qed
  qed
qed

lemma container_menu_turn_unrecognized_line:
  "inputs s = Line raw # Line enter # rest \<and> strip raw \<notin> {lit ''1'', lit ''2'', lit ''3'', lit ''4'', lit ''5'', lit ''6'', lit ''7'', lit ''8'', lit ''9'', lit ''10''} \<longrightarrow>
      container_menu_turn w s =
        Returned False
          (s\<lparr>inputs := rest,
             out := out (show_container_menu s) @
               [Prompt (lit ''Selecciona una opci'' @ [243] @ lit ''n: ''),
                Print ([10060] @ lit '' Opci'' @ [243] @ lit ''n inv'' @ [225] @ lit ''lida''),
                Prompt ([10] @ lit ''Presiona Enter para continuar...'')]\<rparr>)
      \<and> handle_container_menu w s =
          handle_container_menu w
          (s\<lparr>inputs := rest,
             out := out (show_container_menu s) @
               [Prompt (lit ''Selecciona una opci'' @ [243] @ lit ''n: ''),
                Print ([10060] @ lit '' Opci'' @ [243] @ lit ''n inv'' @ [225] @ lit ''lida''),
                Prompt ([10] @ lit ''Presiona Enter para continuar...'')]\<rparr>)"
  by (subst handle_container_menu.simps) (simp add: input_steps container_menu_turn_def container_menu_choice_def show_container_menu_def prints_out print_def Let_def)

lemma container_menu_turn_unrecognized_eof:
  "inputs s = [Line raw] \<and> strip raw \<notin> {lit ''1'', lit ''2'', lit ''3'', lit ''4'', lit ''5'', lit ''6'', lit ''7'', lit ''8'', lit ''9'', lit ''10''} \<longrightarrow>
      container_menu_turn w s =
        Raised EOFError
          (s\<lparr>inputs := [],
             out := out (show_container_menu s) @
               [Prompt (lit ''Selecciona una opci'' @ [243] @ lit ''n: ''),
                Print ([10060] @ lit '' Opci'' @ [243] @ lit ''n inv'' @ [225] @ lit ''lida''),
                Prompt ([10] @ lit ''Presiona Enter para continuar...'')]\<rparr>)
      \<and> handle_container_menu w s =
        Raised EOFError
          (s\<lparr>inputs := [],
             out := out (show_container_menu s) @
               [Prompt (lit ''Selecciona una opci'' @ [243] @ lit ''n: ''),
                Print ([10060] @ lit '' Opci'' @ [243] @ lit ''n inv'' @ [225] @ lit ''lida''),
                Prompt ([10] @ lit ''Presiona Enter para continuar...'')]\<rparr>)"
  by (subst handle_container_menu.simps) (simp add: input_steps container_menu_turn_def container_menu_choice_def show_container_menu_def prints_out print_def Let_def)

lemma container_menu_turn_unrecognized_interrupt:
  "inputs s = Line raw # Interrupt # rest \<and> strip raw \<notin> {lit ''1'', lit ''2'', lit ''3'', lit ''4'', lit ''5'', lit ''6'', lit ''7'', lit ''8'', lit ''9'', lit ''10''} \<longrightarrow>
      container_menu_turn w s =
        Raised KeyboardInterrupt
          (s\<lparr>inputs := rest,
             out := out (show_container_menu s) @
               [Prompt (lit ''Selecciona una opci'' @ [243] @ lit ''n: ''),
                Print ([10060] @ lit '' Opci'' @ [243] @ lit ''n inv'' @ [225] @ lit ''lida''),
                Prompt ([10] @ lit ''Presiona Enter para continuar...'')]\<rparr>)
      \<and> handle_container_menu w s =
        Raised KeyboardInterrupt
          (s\<lparr>inputs := rest,
             out := out (show_container_menu s) @
               [Prompt (lit ''Selecciona una opci'' @ [243] @ lit ''n: ''),
                Print ([10060] @ lit '' Opci'' @ [243] @ lit ''n inv'' @ [225] @ lit ''lida''),
                Prompt ([10] @ lit ''Presiona Enter para continuar...'')]\<rparr>)"
  by (subst handle_container_menu.simps) (simp add: input_steps container_menu_turn_def container_menu_choice_def show_container_menu_def prints_out print_def Let_def)

lemma container_menu_turn_unrecognized:
  "inputs s = Line raw # rest \<and> strip raw \<notin> {lit ''1'', lit ''2'', lit ''3'', lit ''4'', lit ''5'', lit ''6'', lit ''7'', lit ''8'', lit ''9'', lit ''10''} \<longrightarrow>
      calls (final (container_menu_turn w s)) = calls s
      \<and> out (final (container_menu_turn w s)) =
          out (show_container_menu s) @
               [Prompt (lit ''Selecciona una opci'' @ [243] @ lit ''n: ''),
                Print ([10060] @ lit '' Opci'' @ [243] @ lit ''n inv'' @ [225] @ lit ''lida''),
                Prompt ([10] @ lit ''Presiona Enter para continuar...'')]"
proof (intro impI)
  assume h: "inputs s = Line raw # rest \<and> strip raw \<notin> {lit ''1'', lit ''2'', lit ''3'', lit ''4'', lit ''5'', lit ''6'', lit ''7'', lit ''8'', lit ''9'', lit ''10''}"
  show "calls (final (container_menu_turn w s)) = calls s
      \<and> out (final (container_menu_turn w s)) =
          out (show_container_menu s) @
               [Prompt (lit ''Selecciona una opci'' @ [243] @ lit ''n: ''),
                Print ([10060] @ lit '' Opci'' @ [243] @ lit ''n inv'' @ [225] @ lit ''lida''),
                Prompt ([10] @ lit ''Presiona Enter para continuar...'')]"
  proof (cases rest)
    case Nil
    with h container_menu_turn_unrecognized_eof [of s raw w] show ?thesis
      by simp
  next
    case (Cons k rest')
    show ?thesis
    proof (cases k)
      case (Line enter)
      with h Cons container_menu_turn_unrecognized_line [of s raw enter rest' w] show ?thesis
        by simp
    next
      case Interrupt
      with h Cons container_menu_turn_unrecognized_interrupt [of s raw rest' w] show ?thesis
        by simp
    qed
  qed
qed

lemma system_menu_turn_unrecognized_line:
  "inputs s = Line raw # Line enter # rest \<and> strip raw \<notin> {lit ''1'', lit ''2'', lit ''3'', lit ''4''} \<longrightarrow>
      system_menu_turn w s =
        Returned False
          (s\<lparr>inputs := rest,
             out := out (show_system_menu s) @
               [Prompt (lit ''Selecciona una opci'' @ [243] @ lit ''n: ''),
                Print ([10060] @ lit '' Opci'' @ [243] @ lit ''n inv'' @ [225] @ lit ''lida''),
                Prompt ([10] @ lit ''Presiona Enter para continuar...'')]\<rparr>)
      \<and> handle_system_menu w s =
          handle_system_menu w
          (s\<lparr>inputs := rest,
             out := out (show_system_menu s) @
               [Prompt (lit ''Selecciona una opci'' @ [243] @ lit ''n: ''),
                Print ([10060] @ lit '' Opci'' @ [243] @ lit ''n inv'' @ [225] @ lit ''lida''),
                Prompt ([10] @ lit ''Presiona Enter para continuar...'')]\<rparr>)"
  by (subst handle_system_menu.simps) (simp add: input_steps system_menu_turn_def system_menu_choice_def show_system_menu_def prints_out print_def Let_def)

lemma system_menu_turn_unrecognized_eof:
  "inputs s = [Line raw] \<and> strip raw \<notin> {lit ''1'', lit ''2'', lit ''3'', lit ''4''} \<longrightarrow>
      system_menu_turn w s =
        Raised EOFError
          (s\<lparr>inputs := [],
             out := out (show_system_menu s) @
               [Prompt (lit ''Selecciona una opci'' @ [243] @ lit ''n: ''),
                Print ([10060] @ lit '' Opci'' @ [243] @ lit ''n inv'' @ [225] @ lit ''lida''),
                Prompt ([10] @ lit ''Presiona Enter para continuar...'')]\<rparr>)
      \<and> handle_system_menu w s =
        Raised EOFError
          (s\<lparr>inputs := [],
             out := out (show_system_menu s) @
               [Prompt (lit ''Selecciona una opci'' @ [243] @ lit ''n: ''),
                Print ([10060] @ lit '' Opci'' @ [243] @ lit ''n inv'' @ [225] @ lit ''lida''),
                Prompt ([10] @ lit ''Presiona Enter para continuar...'')]\<rparr>)"
  by (subst handle_system_menu.simps) (simp add: input_steps system_menu_turn_def system_menu_choice_def show_system_menu_def prints_out print_def Let_def)

lemma system_menu_turn_unrecognized_interrupt:
  "inputs s = Line raw # Interrupt # rest \<and> strip raw \<notin> {lit ''1'', lit ''2'', lit ''3'', lit ''4''} \<longrightarrow>
      system_menu_turn w s =
        Raised KeyboardInterrupt
          (s\<lparr>inputs := rest,
             out := out (show_system_menu s) @
               [Prompt (lit ''Selecciona una opci'' @ [243] @ lit ''n: ''),
                Print ([10060] @ lit '' Opci'' @ [243] @ lit ''n inv'' @ [225] @ lit ''lida''),
                Prompt ([10] @ lit ''Presiona Enter para continuar...'')]\<rparr>)
      \<and> handle_system_menu w s =
        Raised KeyboardInterrupt
          (s\<lparr>inputs := rest,
             out := out (show_system_menu s) @
               [Prompt (lit ''Selecciona una opci'' @ [243] @ lit ''n: ''),
                Print ([10060] @ lit '' Opci'' @ [243] @ lit ''n inv'' @ [225] @ lit ''lida''),
                Prompt ([10] @ lit ''Presiona Enter para continuar...'')]\<rparr>)"
  by (subst handle_system_menu.simps) (simp add: input_steps system_menu_turn_def system_menu_choice_def show_system_menu_def prints_out print_def Let_def)

lemma system_menu_turn_unrecognized:
  "inputs s = Line raw # rest \<and> strip raw \<notin> {lit ''1'', lit ''2'', lit ''3'', lit ''4''} \<longrightarrow>
      calls (final (system_menu_turn w s)) = calls s
      \<and> out (final (system_menu_turn w s)) =
          out (show_system_menu s) @
               [Prompt (lit ''Selecciona una opci'' @ [243] @ lit ''n: ''),
                Print ([10060] @ lit '' Opci'' @ [243] @ lit ''n inv'' @ [225] @ lit ''lida''),
                Prompt ([10] @ lit ''Presiona Enter para continuar...'')]"
proof (intro impI)
  assume h: "inputs s = Line raw # rest \<and> strip raw \<notin> {lit ''1'', lit ''2'', lit ''3'', lit ''4''}"
  show "calls (final (system_menu_turn w s)) = calls s
      \<and> out (final (system_menu_turn w s)) =
          out (show_system_menu s) @
               [Prompt (lit ''Selecciona una opci'' @ [243] @ lit ''n: ''),
                Print ([10060] @ lit '' Opci'' @ [243] @ lit ''n inv'' @ [225] @ lit ''lida''),
                Prompt ([10] @ lit ''Presiona Enter para continuar...'')]"
  proof (cases rest)
    case Nil
    with h system_menu_turn_unrecognized_eof [of s raw w] show ?thesis
      by simp
  next
    case (Cons k rest')
    show ?thesis
    proof (cases k)
      case (Line enter)
      with h Cons system_menu_turn_unrecognized_line [of s raw enter rest' w] show ?thesis
        by simp
    next
      case Interrupt
      with h Cons system_menu_turn_unrecognized_interrupt [of s raw rest' w] show ?thesis
        by simp
    qed
  qed
qed

text \<open>
  C9, as stated, fails: the turn that rejects the option goes on to the pause, and
  what the operator does there decides whether the menu stays.  Here, in the menu
  of containers, the operator types \<open>99\<close> and then interrupts: the loop of the
  menu is left with \<open>KeyboardInterrupt\<close>, and the session, entered through option
  \<open>2\<close> of the main menu, ends with the line of \<open>run\<close> for an interrupt.
\<close>

theorem unrecognized_option_then_interrupt_leaves:
  "handle_container_menu (world_of (NoSuchBinary []) False) (terminal [Line (lit ''99''), Interrupt])
     = Raised KeyboardInterrupt
         ((terminal [Line (lit ''99''), Interrupt])\<lparr>inputs := [],
             out := out (show_container_menu (terminal [Line (lit ''99''), Interrupt])) @
               [Prompt (lit ''Selecciona una opci'' @ [243] @ lit ''n: ''),
                Print ([10060] @ lit '' Opci'' @ [243] @ lit ''n inv'' @ [225] @ lit ''lida''),
                Prompt ([10] @ lit ''Presiona Enter para continuar...'')]\<rparr>)
   \<and> run (world_of (NoSuchBinary []) False) (terminal [Line (lit ''2''), Line (lit ''99''), Interrupt])
       = Returned () (final (run (world_of (NoSuchBinary []) False) (terminal [Line (lit ''2''), Line (lit ''99''), Interrupt])))
   \<and> inputs (final (run (world_of (NoSuchBinary []) False) (terminal [Line (lit ''2''), Line (lit ''99''), Interrupt]))) = []
   \<and> last (out (final (run (world_of (NoSuchBinary []) False) (terminal [Line (lit ''2''), Line (lit ''99''), Interrupt]))))
       = Print ([10, 10, 128075] @ lit '' Aplicaci'' @ [243] @ lit ''n terminada por el usuario'')"
proof -
  have 1: "handle_container_menu (world_of (NoSuchBinary []) False) (terminal [Line (lit ''99''), Interrupt])
     = Raised KeyboardInterrupt
         ((terminal [Line (lit ''99''), Interrupt])\<lparr>inputs := [],
             out := out (show_container_menu (terminal [Line (lit ''99''), Interrupt])) @
               [Prompt (lit ''Selecciona una opci'' @ [243] @ lit ''n: ''),
                Print ([10060] @ lit '' Opci'' @ [243] @ lit ''n inv'' @ [225] @ lit ''lida''),
                Prompt ([10] @ lit ''Presiona Enter para continuar...'')]\<rparr>)"
    by (subst handle_container_menu.simps)
       (simp add: input_def container_menu_turn_def container_menu_choice_def
          show_container_menu_def prints_out concrete_defs)
  have "strip (lit ''99'') \<notin> {lit ''1'', lit ''2'', lit ''3'', lit ''4'', lit ''5'', lit ''6'', lit ''7'', lit ''8'', lit ''9'', lit ''10''}"
    by (simp add: concrete_defs)
  then have "\<exists>st. handle_container_menu (world_of (NoSuchBinary []) False)
          (show_main_menu (show_header (terminal [Line (lit ''2''), Line (lit ''99''), Interrupt]))
             \<lparr>inputs := [Line (lit ''99''), Interrupt],
                out := out (show_main_menu (show_header (terminal [Line (lit ''2''), Line (lit ''99''), Interrupt])))
                       @ [Prompt (lit ''Selecciona una opci'' @ [243] @ lit ''n: '')]\<rparr>)
        = Raised KeyboardInterrupt st \<and> inputs st = []"
    using container_menu_turn_unrecognized_interrupt
      [of "show_main_menu (show_header (terminal [Line (lit ''2''), Line (lit ''99''), Interrupt]))
             \<lparr>inputs := [Line (lit ''99''), Interrupt],
                out := out (show_main_menu (show_header (terminal [Line (lit ''2''), Line (lit ''99''), Interrupt])))
                       @ [Prompt (lit ''Selecciona una opci'' @ [243] @ lit ''n: '')]\<rparr>"
          "lit ''99''" "[]" "world_of (NoSuchBinary []) False"]
    by simp
  then obtain st where st: "handle_container_menu (world_of (NoSuchBinary []) False)
          (show_main_menu (show_header (terminal [Line (lit ''2''), Line (lit ''99''), Interrupt]))
             \<lparr>inputs := [Line (lit ''99''), Interrupt],
                out := out (show_main_menu (show_header (terminal [Line (lit ''2''), Line (lit ''99''), Interrupt])))
                       @ [Prompt (lit ''Selecciona una opci'' @ [243] @ lit ''n: '')]\<rparr>)
        = Raised KeyboardInterrupt st" and i: "inputs st = []"
    by blast
  have "inputs (show_main_menu (show_header (terminal [Line (lit ''2''), Line (lit ''99''), Interrupt])))
        = Line (lit ''2'') # [Line (lit ''99''), Interrupt]"
    by (simp add: show_main_menu_def show_header_def prints_out print_def terminal_def)
  then have "input (lit ''Selecciona una opci'' @ [243] @ lit ''n: '')
          (show_main_menu (show_header (terminal [Line (lit ''2''), Line (lit ''99''), Interrupt])))
      = Returned (lit ''2'')
          (show_main_menu (show_header (terminal [Line (lit ''2''), Line (lit ''99''), Interrupt]))
             \<lparr>inputs := [Line (lit ''99''), Interrupt],
                out := out (show_main_menu (show_header (terminal [Line (lit ''2''), Line (lit ''99''), Interrupt])))
                       @ [Prompt (lit ''Selecciona una opci'' @ [243] @ lit ''n: '')]\<rparr>)"
    by (rule input_Line)
  moreover have "strip (lit ''2'') = lit ''2''" "lit ''2'' \<noteq> lit ''1''"
    by (simp_all add: concrete_defs)
  ultimately have "main_turn (world_of (NoSuchBinary []) False) (terminal [Line (lit ''2''), Line (lit ''99''), Interrupt])
      = Raised KeyboardInterrupt st"
    using st by (simp add: main_turn_def)
  then have "main_loop (world_of (NoSuchBinary []) False) (terminal [Line (lit ''2''), Line (lit ''99''), Interrupt])
      = Raised KeyboardInterrupt st"
    by (subst main_loop.simps) simp
  then have "run (world_of (NoSuchBinary []) False) (terminal [Line (lit ''2''), Line (lit ''99''), Interrupt])
     = Returned () (print ([10, 10, 128075] @ lit '' Aplicaci'' @ [243] @ lit ''n terminada por el usuario'') st)"
    by (simp add: run_def)
  with 1 i show ?thesis
    by (simp add: print_def)
qed

text \<open>
  C9, amended.  In each of the four menus, when the operator's line, trimmed, is
  none of the menu's options, the turn invokes no operation: the list of executor
  invocations is what it was, and what has been written after the menu is the
  prompt for the option, the one line that the option is invalid, and the prompt
  of the pause.  When a line answers the pause, the turn ends without \<open>break\<close>
  and the same loop continues from the state in which the two lines are consumed.
  When the input ends at the pause, or an interrupt arrives there, the turn and
  the loop raise \<open>EOFError\<close> or \<open>KeyboardInterrupt\<close> and the menu is left.
\<close>

theorem unrecognized_option_stays:
  "(inputs s = Line raw # rest \<and> strip raw \<notin> {lit ''1'', lit ''2'', lit ''3'', lit ''4''} \<longrightarrow>
      calls (final (main_turn w s)) = calls s
      \<and> out (final (main_turn w s)) =
          out (show_main_menu (show_header s)) @
               [Prompt (lit ''Selecciona una opci'' @ [243] @ lit ''n: ''),
                Print ([10060] @ lit '' Opci'' @ [243] @ lit ''n inv'' @ [225] @ lit ''lida''),
                Prompt ([10] @ lit ''Presiona Enter para continuar...'')])
   \<and> (inputs s = Line raw # Line enter # rest \<and> strip raw \<notin> {lit ''1'', lit ''2'', lit ''3'', lit ''4''} \<longrightarrow>
      main_turn w s =
        Returned False
          (s\<lparr>inputs := rest,
             out := out (show_main_menu (show_header s)) @
               [Prompt (lit ''Selecciona una opci'' @ [243] @ lit ''n: ''),
                Print ([10060] @ lit '' Opci'' @ [243] @ lit ''n inv'' @ [225] @ lit ''lida''),
                Prompt ([10] @ lit ''Presiona Enter para continuar...'')]\<rparr>)
      \<and> main_loop w s =
          main_loop w
          (s\<lparr>inputs := rest,
             out := out (show_main_menu (show_header s)) @
               [Prompt (lit ''Selecciona una opci'' @ [243] @ lit ''n: ''),
                Print ([10060] @ lit '' Opci'' @ [243] @ lit ''n inv'' @ [225] @ lit ''lida''),
                Prompt ([10] @ lit ''Presiona Enter para continuar...'')]\<rparr>))
   \<and> (inputs s = [Line raw] \<and> strip raw \<notin> {lit ''1'', lit ''2'', lit ''3'', lit ''4''} \<longrightarrow>
      main_turn w s =
        Raised EOFError
          (s\<lparr>inputs := [],
             out := out (show_main_menu (show_header s)) @
               [Prompt (lit ''Selecciona una opci'' @ [243] @ lit ''n: ''),
                Print ([10060] @ lit '' Opci'' @ [243] @ lit ''n inv'' @ [225] @ lit ''lida''),
                Prompt ([10] @ lit ''Presiona Enter para continuar...'')]\<rparr>)
      \<and> main_loop w s =
        Raised EOFError
          (s\<lparr>inputs := [],
             out := out (show_main_menu (show_header s)) @
               [Prompt (lit ''Selecciona una opci'' @ [243] @ lit ''n: ''),
                Print ([10060] @ lit '' Opci'' @ [243] @ lit ''n inv'' @ [225] @ lit ''lida''),
                Prompt ([10] @ lit ''Presiona Enter para continuar...'')]\<rparr>))
   \<and> (inputs s = Line raw # Interrupt # rest \<and> strip raw \<notin> {lit ''1'', lit ''2'', lit ''3'', lit ''4''} \<longrightarrow>
      main_turn w s =
        Raised KeyboardInterrupt
          (s\<lparr>inputs := rest,
             out := out (show_main_menu (show_header s)) @
               [Prompt (lit ''Selecciona una opci'' @ [243] @ lit ''n: ''),
                Print ([10060] @ lit '' Opci'' @ [243] @ lit ''n inv'' @ [225] @ lit ''lida''),
                Prompt ([10] @ lit ''Presiona Enter para continuar...'')]\<rparr>)
      \<and> main_loop w s =
        Raised KeyboardInterrupt
          (s\<lparr>inputs := rest,
             out := out (show_main_menu (show_header s)) @
               [Prompt (lit ''Selecciona una opci'' @ [243] @ lit ''n: ''),
                Print ([10060] @ lit '' Opci'' @ [243] @ lit ''n inv'' @ [225] @ lit ''lida''),
                Prompt ([10] @ lit ''Presiona Enter para continuar...'')]\<rparr>))
   \<and> (inputs s = Line raw # rest \<and> strip raw \<notin> {lit ''1'', lit ''2'', lit ''3'', lit ''4'', lit ''5''} \<longrightarrow>
      calls (final (image_menu_turn w s)) = calls s
      \<and> out (final (image_menu_turn w s)) =
          out (show_image_menu s) @
               [Prompt (lit ''Selecciona una opci'' @ [243] @ lit ''n: ''),
                Print ([10060] @ lit '' Opci'' @ [243] @ lit ''n inv'' @ [225] @ lit ''lida''),
                Prompt ([10] @ lit ''Presiona Enter para continuar...'')])
   \<and> (inputs s = Line raw # Line enter # rest \<and> strip raw \<notin> {lit ''1'', lit ''2'', lit ''3'', lit ''4'', lit ''5''} \<longrightarrow>
      image_menu_turn w s =
        Returned False
          (s\<lparr>inputs := rest,
             out := out (show_image_menu s) @
               [Prompt (lit ''Selecciona una opci'' @ [243] @ lit ''n: ''),
                Print ([10060] @ lit '' Opci'' @ [243] @ lit ''n inv'' @ [225] @ lit ''lida''),
                Prompt ([10] @ lit ''Presiona Enter para continuar...'')]\<rparr>)
      \<and> handle_image_menu w s =
          handle_image_menu w
          (s\<lparr>inputs := rest,
             out := out (show_image_menu s) @
               [Prompt (lit ''Selecciona una opci'' @ [243] @ lit ''n: ''),
                Print ([10060] @ lit '' Opci'' @ [243] @ lit ''n inv'' @ [225] @ lit ''lida''),
                Prompt ([10] @ lit ''Presiona Enter para continuar...'')]\<rparr>))
   \<and> (inputs s = [Line raw] \<and> strip raw \<notin> {lit ''1'', lit ''2'', lit ''3'', lit ''4'', lit ''5''} \<longrightarrow>
      image_menu_turn w s =
        Raised EOFError
          (s\<lparr>inputs := [],
             out := out (show_image_menu s) @
               [Prompt (lit ''Selecciona una opci'' @ [243] @ lit ''n: ''),
                Print ([10060] @ lit '' Opci'' @ [243] @ lit ''n inv'' @ [225] @ lit ''lida''),
                Prompt ([10] @ lit ''Presiona Enter para continuar...'')]\<rparr>)
      \<and> handle_image_menu w s =
        Raised EOFError
          (s\<lparr>inputs := [],
             out := out (show_image_menu s) @
               [Prompt (lit ''Selecciona una opci'' @ [243] @ lit ''n: ''),
                Print ([10060] @ lit '' Opci'' @ [243] @ lit ''n inv'' @ [225] @ lit ''lida''),
                Prompt ([10] @ lit ''Presiona Enter para continuar...'')]\<rparr>))
   \<and> (inputs s = Line raw # Interrupt # rest \<and> strip raw \<notin> {lit ''1'', lit ''2'', lit ''3'', lit ''4'', lit ''5''} \<longrightarrow>
      image_menu_turn w s =
        Raised KeyboardInterrupt
          (s\<lparr>inputs := rest,
             out := out (show_image_menu s) @
               [Prompt (lit ''Selecciona una opci'' @ [243] @ lit ''n: ''),
                Print ([10060] @ lit '' Opci'' @ [243] @ lit ''n inv'' @ [225] @ lit ''lida''),
                Prompt ([10] @ lit ''Presiona Enter para continuar...'')]\<rparr>)
      \<and> handle_image_menu w s =
        Raised KeyboardInterrupt
          (s\<lparr>inputs := rest,
             out := out (show_image_menu s) @
               [Prompt (lit ''Selecciona una opci'' @ [243] @ lit ''n: ''),
                Print ([10060] @ lit '' Opci'' @ [243] @ lit ''n inv'' @ [225] @ lit ''lida''),
                Prompt ([10] @ lit ''Presiona Enter para continuar...'')]\<rparr>))
   \<and> (inputs s = Line raw # rest \<and> strip raw \<notin> {lit ''1'', lit ''2'', lit ''3'', lit ''4'', lit ''5'', lit ''6'', lit ''7'', lit ''8'', lit ''9'', lit ''10''} \<longrightarrow>
      calls (final (container_menu_turn w s)) = calls s
      \<and> out (final (container_menu_turn w s)) =
          out (show_container_menu s) @
               [Prompt (lit ''Selecciona una opci'' @ [243] @ lit ''n: ''),
                Print ([10060] @ lit '' Opci'' @ [243] @ lit ''n inv'' @ [225] @ lit ''lida''),
                Prompt ([10] @ lit ''Presiona Enter para continuar...'')])
   \<and> (inputs s = Line raw # Line enter # rest \<and> strip raw \<notin> {lit ''1'', lit ''2'', lit ''3'', lit ''4'', lit ''5'', lit ''6'', lit ''7'', lit ''8'', lit ''9'', lit ''10''} \<longrightarrow>
      container_menu_turn w s =
        Returned False
          (s\<lparr>inputs := rest,
             out := out (show_container_menu s) @
               [Prompt (lit ''Selecciona una opci'' @ [243] @ lit ''n: ''),
                Print ([10060] @ lit '' Opci'' @ [243] @ lit ''n inv'' @ [225] @ lit ''lida''),
                Prompt ([10] @ lit ''Presiona Enter para continuar...'')]\<rparr>)
      \<and> handle_container_menu w s =
          handle_container_menu w
          (s\<lparr>inputs := rest,
             out := out (show_container_menu s) @
               [Prompt (lit ''Selecciona una opci'' @ [243] @ lit ''n: ''),
                Print ([10060] @ lit '' Opci'' @ [243] @ lit ''n inv'' @ [225] @ lit ''lida''),
                Prompt ([10] @ lit ''Presiona Enter para continuar...'')]\<rparr>))
   \<and> (inputs s = [Line raw] \<and> strip raw \<notin> {lit ''1'', lit ''2'', lit ''3'', lit ''4'', lit ''5'', lit ''6'', lit ''7'', lit ''8'', lit ''9'', lit ''10''} \<longrightarrow>
      container_menu_turn w s =
        Raised EOFError
          (s\<lparr>inputs := [],
             out := out (show_container_menu s) @
               [Prompt (lit ''Selecciona una opci'' @ [243] @ lit ''n: ''),
                Print ([10060] @ lit '' Opci'' @ [243] @ lit ''n inv'' @ [225] @ lit ''lida''),
                Prompt ([10] @ lit ''Presiona Enter para continuar...'')]\<rparr>)
      \<and> handle_container_menu w s =
        Raised EOFError
          (s\<lparr>inputs := [],
             out := out (show_container_menu s) @
               [Prompt (lit ''Selecciona una opci'' @ [243] @ lit ''n: ''),
                Print ([10060] @ lit '' Opci'' @ [243] @ lit ''n inv'' @ [225] @ lit ''lida''),
                Prompt ([10] @ lit ''Presiona Enter para continuar...'')]\<rparr>))
   \<and> (inputs s = Line raw # Interrupt # rest \<and> strip raw \<notin> {lit ''1'', lit ''2'', lit ''3'', lit ''4'', lit ''5'', lit ''6'', lit ''7'', lit ''8'', lit ''9'', lit ''10''} \<longrightarrow>
      container_menu_turn w s =
        Raised KeyboardInterrupt
          (s\<lparr>inputs := rest,
             out := out (show_container_menu s) @
               [Prompt (lit ''Selecciona una opci'' @ [243] @ lit ''n: ''),
                Print ([10060] @ lit '' Opci'' @ [243] @ lit ''n inv'' @ [225] @ lit ''lida''),
                Prompt ([10] @ lit ''Presiona Enter para continuar...'')]\<rparr>)
      \<and> handle_container_menu w s =
        Raised KeyboardInterrupt
          (s\<lparr>inputs := rest,
             out := out (show_container_menu s) @
               [Prompt (lit ''Selecciona una opci'' @ [243] @ lit ''n: ''),
                Print ([10060] @ lit '' Opci'' @ [243] @ lit ''n inv'' @ [225] @ lit ''lida''),
                Prompt ([10] @ lit ''Presiona Enter para continuar...'')]\<rparr>))
   \<and> (inputs s = Line raw # rest \<and> strip raw \<notin> {lit ''1'', lit ''2'', lit ''3'', lit ''4''} \<longrightarrow>
      calls (final (system_menu_turn w s)) = calls s
      \<and> out (final (system_menu_turn w s)) =
          out (show_system_menu s) @
               [Prompt (lit ''Selecciona una opci'' @ [243] @ lit ''n: ''),
                Print ([10060] @ lit '' Opci'' @ [243] @ lit ''n inv'' @ [225] @ lit ''lida''),
                Prompt ([10] @ lit ''Presiona Enter para continuar...'')])
   \<and> (inputs s = Line raw # Line enter # rest \<and> strip raw \<notin> {lit ''1'', lit ''2'', lit ''3'', lit ''4''} \<longrightarrow>
      system_menu_turn w s =
        Returned False
          (s\<lparr>inputs := rest,
             out := out (show_system_menu s) @
               [Prompt (lit ''Selecciona una opci'' @ [243] @ lit ''n: ''),
                Print ([10060] @ lit '' Opci'' @ [243] @ lit ''n inv'' @ [225] @ lit ''lida''),
                Prompt ([10] @ lit ''Presiona Enter para continuar...'')]\<rparr>)
      \<and> handle_system_menu w s =
          handle_system_menu w
          (s\<lparr>inputs := rest,
             out := out (show_system_menu s) @
               [Prompt (lit ''Selecciona una opci'' @ [243] @ lit ''n: ''),
                Print ([10060] @ lit '' Opci'' @ [243] @ lit ''n inv'' @ [225] @ lit ''lida''),
                Prompt ([10] @ lit ''Presiona Enter para continuar...'')]\<rparr>))
   \<and> (inputs s = [Line raw] \<and> strip raw \<notin> {lit ''1'', lit ''2'', lit ''3'', lit ''4''} \<longrightarrow>
      system_menu_turn w s =
        Raised EOFError
          (s\<lparr>inputs := [],
             out := out (show_system_menu s) @
               [Prompt (lit ''Selecciona una opci'' @ [243] @ lit ''n: ''),
                Print ([10060] @ lit '' Opci'' @ [243] @ lit ''n inv'' @ [225] @ lit ''lida''),
                Prompt ([10] @ lit ''Presiona Enter para continuar...'')]\<rparr>)
      \<and> handle_system_menu w s =
        Raised EOFError
          (s\<lparr>inputs := [],
             out := out (show_system_menu s) @
               [Prompt (lit ''Selecciona una opci'' @ [243] @ lit ''n: ''),
                Print ([10060] @ lit '' Opci'' @ [243] @ lit ''n inv'' @ [225] @ lit ''lida''),
                Prompt ([10] @ lit ''Presiona Enter para continuar...'')]\<rparr>))
   \<and> (inputs s = Line raw # Interrupt # rest \<and> strip raw \<notin> {lit ''1'', lit ''2'', lit ''3'', lit ''4''} \<longrightarrow>
      system_menu_turn w s =
        Raised KeyboardInterrupt
          (s\<lparr>inputs := rest,
             out := out (show_system_menu s) @
               [Prompt (lit ''Selecciona una opci'' @ [243] @ lit ''n: ''),
                Print ([10060] @ lit '' Opci'' @ [243] @ lit ''n inv'' @ [225] @ lit ''lida''),
                Prompt ([10] @ lit ''Presiona Enter para continuar...'')]\<rparr>)
      \<and> handle_system_menu w s =
        Raised KeyboardInterrupt
          (s\<lparr>inputs := rest,
             out := out (show_system_menu s) @
               [Prompt (lit ''Selecciona una opci'' @ [243] @ lit ''n: ''),
                Print ([10060] @ lit '' Opci'' @ [243] @ lit ''n inv'' @ [225] @ lit ''lida''),
                Prompt ([10] @ lit ''Presiona Enter para continuar...'')]\<rparr>))"
  by (intro conjI)
     (rule main_turn_unrecognized,
      rule main_turn_unrecognized_line,
      rule main_turn_unrecognized_eof,
      rule main_turn_unrecognized_interrupt,
      rule image_menu_turn_unrecognized,
      rule image_menu_turn_unrecognized_line,
      rule image_menu_turn_unrecognized_eof,
      rule image_menu_turn_unrecognized_interrupt,
      rule container_menu_turn_unrecognized,
      rule container_menu_turn_unrecognized_line,
      rule container_menu_turn_unrecognized_eof,
      rule container_menu_turn_unrecognized_interrupt,
      rule system_menu_turn_unrecognized,
      rule system_menu_turn_unrecognized_line,
      rule system_menu_turn_unrecognized_eof,
      rule system_menu_turn_unrecognized_interrupt)

theorem unrecognized_option_stays_witness:
  "calls (final (main_turn (world_of (NoSuchBinary []) False) (terminal [Line (lit '' 99 ''), Line (lit ''ok'')]))) = calls (terminal [Line (lit '' 99 ''), Line (lit ''ok'')])
      \<and> out (final (main_turn (world_of (NoSuchBinary []) False) (terminal [Line (lit '' 99 ''), Line (lit ''ok'')]))) =
          out (show_main_menu (show_header (terminal [Line (lit '' 99 ''), Line (lit ''ok'')]))) @
               [Prompt (lit ''Selecciona una opci'' @ [243] @ lit ''n: ''),
                Print ([10060] @ lit '' Opci'' @ [243] @ lit ''n inv'' @ [225] @ lit ''lida''),
                Prompt ([10] @ lit ''Presiona Enter para continuar...'')]
   \<and> main_turn (world_of (NoSuchBinary []) False) (terminal [Line (lit '' 99 ''), Line (lit ''ok'')]) =
        Returned False
          ((terminal [Line (lit '' 99 ''), Line (lit ''ok'')])\<lparr>inputs := [],
             out := out (show_main_menu (show_header (terminal [Line (lit '' 99 ''), Line (lit ''ok'')]))) @
               [Prompt (lit ''Selecciona una opci'' @ [243] @ lit ''n: ''),
                Print ([10060] @ lit '' Opci'' @ [243] @ lit ''n inv'' @ [225] @ lit ''lida''),
                Prompt ([10] @ lit ''Presiona Enter para continuar...'')]\<rparr>)
      \<and> main_loop (world_of (NoSuchBinary []) False) (terminal [Line (lit '' 99 ''), Line (lit ''ok'')]) =
          main_loop (world_of (NoSuchBinary []) False)
          ((terminal [Line (lit '' 99 ''), Line (lit ''ok'')])\<lparr>inputs := [],
             out := out (show_main_menu (show_header (terminal [Line (lit '' 99 ''), Line (lit ''ok'')]))) @
               [Prompt (lit ''Selecciona una opci'' @ [243] @ lit ''n: ''),
                Print ([10060] @ lit '' Opci'' @ [243] @ lit ''n inv'' @ [225] @ lit ''lida''),
                Prompt ([10] @ lit ''Presiona Enter para continuar...'')]\<rparr>)
   \<and> main_turn (world_of (NoSuchBinary []) False) (terminal [Line (lit '' 99 '')]) =
        Raised EOFError
          ((terminal [Line (lit '' 99 '')])\<lparr>inputs := [],
             out := out (show_main_menu (show_header (terminal [Line (lit '' 99 '')]))) @
               [Prompt (lit ''Selecciona una opci'' @ [243] @ lit ''n: ''),
                Print ([10060] @ lit '' Opci'' @ [243] @ lit ''n inv'' @ [225] @ lit ''lida''),
                Prompt ([10] @ lit ''Presiona Enter para continuar...'')]\<rparr>)
      \<and> main_loop (world_of (NoSuchBinary []) False) (terminal [Line (lit '' 99 '')]) =
        Raised EOFError
          ((terminal [Line (lit '' 99 '')])\<lparr>inputs := [],
             out := out (show_main_menu (show_header (terminal [Line (lit '' 99 '')]))) @
               [Prompt (lit ''Selecciona una opci'' @ [243] @ lit ''n: ''),
                Print ([10060] @ lit '' Opci'' @ [243] @ lit ''n inv'' @ [225] @ lit ''lida''),
                Prompt ([10] @ lit ''Presiona Enter para continuar...'')]\<rparr>)
   \<and> main_turn (world_of (NoSuchBinary []) False) (terminal [Line (lit '' 99 ''), Interrupt]) =
        Raised KeyboardInterrupt
          ((terminal [Line (lit '' 99 ''), Interrupt])\<lparr>inputs := [],
             out := out (show_main_menu (show_header (terminal [Line (lit '' 99 ''), Interrupt]))) @
               [Prompt (lit ''Selecciona una opci'' @ [243] @ lit ''n: ''),
                Print ([10060] @ lit '' Opci'' @ [243] @ lit ''n inv'' @ [225] @ lit ''lida''),
                Prompt ([10] @ lit ''Presiona Enter para continuar...'')]\<rparr>)
      \<and> main_loop (world_of (NoSuchBinary []) False) (terminal [Line (lit '' 99 ''), Interrupt]) =
        Raised KeyboardInterrupt
          ((terminal [Line (lit '' 99 ''), Interrupt])\<lparr>inputs := [],
             out := out (show_main_menu (show_header (terminal [Line (lit '' 99 ''), Interrupt]))) @
               [Prompt (lit ''Selecciona una opci'' @ [243] @ lit ''n: ''),
                Print ([10060] @ lit '' Opci'' @ [243] @ lit ''n inv'' @ [225] @ lit ''lida''),
                Prompt ([10] @ lit ''Presiona Enter para continuar...'')]\<rparr>)
   \<and> calls (final (image_menu_turn (world_of (NoSuchBinary []) False) (terminal [Line (lit '' 99 ''), Line (lit ''ok'')]))) = calls (terminal [Line (lit '' 99 ''), Line (lit ''ok'')])
      \<and> out (final (image_menu_turn (world_of (NoSuchBinary []) False) (terminal [Line (lit '' 99 ''), Line (lit ''ok'')]))) =
          out (show_image_menu (terminal [Line (lit '' 99 ''), Line (lit ''ok'')])) @
               [Prompt (lit ''Selecciona una opci'' @ [243] @ lit ''n: ''),
                Print ([10060] @ lit '' Opci'' @ [243] @ lit ''n inv'' @ [225] @ lit ''lida''),
                Prompt ([10] @ lit ''Presiona Enter para continuar...'')]
   \<and> image_menu_turn (world_of (NoSuchBinary []) False) (terminal [Line (lit '' 99 ''), Line (lit ''ok'')]) =
        Returned False
          ((terminal [Line (lit '' 99 ''), Line (lit ''ok'')])\<lparr>inputs := [],
             out := out (show_image_menu (terminal [Line (lit '' 99 ''), Line (lit ''ok'')])) @
               [Prompt (lit ''Selecciona una opci'' @ [243] @ lit ''n: ''),
                Print ([10060] @ lit '' Opci'' @ [243] @ lit ''n inv'' @ [225] @ lit ''lida''),
                Prompt ([10] @ lit ''Presiona Enter para continuar...'')]\<rparr>)
      \<and> handle_image_menu (world_of (NoSuchBinary []) False) (terminal [Line (lit '' 99 ''), Line (lit ''ok'')]) =
          handle_image_menu (world_of (NoSuchBinary []) False)
          ((terminal [Line (lit '' 99 ''), Line (lit ''ok'')])\<lparr>inputs := [],
             out := out (show_image_menu (terminal [Line (lit '' 99 ''), Line (lit ''ok'')])) @
               [Prompt (lit ''Selecciona una opci'' @ [243] @ lit ''n: ''),
                Print ([10060] @ lit '' Opci'' @ [243] @ lit ''n inv'' @ [225] @ lit ''lida''),
                Prompt ([10] @ lit ''Presiona Enter para continuar...'')]\<rparr>)
   \<and> image_menu_turn (world_of (NoSuchBinary []) False) (terminal [Line (lit '' 99 '')]) =
        Raised EOFError
          ((terminal [Line (lit '' 99 '')])\<lparr>inputs := [],
             out := out (show_image_menu (terminal [Line (lit '' 99 '')])) @
               [Prompt (lit ''Selecciona una opci'' @ [243] @ lit ''n: ''),
                Print ([10060] @ lit '' Opci'' @ [243] @ lit ''n inv'' @ [225] @ lit ''lida''),
                Prompt ([10] @ lit ''Presiona Enter para continuar...'')]\<rparr>)
      \<and> handle_image_menu (world_of (NoSuchBinary []) False) (terminal [Line (lit '' 99 '')]) =
        Raised EOFError
          ((terminal [Line (lit '' 99 '')])\<lparr>inputs := [],
             out := out (show_image_menu (terminal [Line (lit '' 99 '')])) @
               [Prompt (lit ''Selecciona una opci'' @ [243] @ lit ''n: ''),
                Print ([10060] @ lit '' Opci'' @ [243] @ lit ''n inv'' @ [225] @ lit ''lida''),
                Prompt ([10] @ lit ''Presiona Enter para continuar...'')]\<rparr>)
   \<and> image_menu_turn (world_of (NoSuchBinary []) False) (terminal [Line (lit '' 99 ''), Interrupt]) =
        Raised KeyboardInterrupt
          ((terminal [Line (lit '' 99 ''), Interrupt])\<lparr>inputs := [],
             out := out (show_image_menu (terminal [Line (lit '' 99 ''), Interrupt])) @
               [Prompt (lit ''Selecciona una opci'' @ [243] @ lit ''n: ''),
                Print ([10060] @ lit '' Opci'' @ [243] @ lit ''n inv'' @ [225] @ lit ''lida''),
                Prompt ([10] @ lit ''Presiona Enter para continuar...'')]\<rparr>)
      \<and> handle_image_menu (world_of (NoSuchBinary []) False) (terminal [Line (lit '' 99 ''), Interrupt]) =
        Raised KeyboardInterrupt
          ((terminal [Line (lit '' 99 ''), Interrupt])\<lparr>inputs := [],
             out := out (show_image_menu (terminal [Line (lit '' 99 ''), Interrupt])) @
               [Prompt (lit ''Selecciona una opci'' @ [243] @ lit ''n: ''),
                Print ([10060] @ lit '' Opci'' @ [243] @ lit ''n inv'' @ [225] @ lit ''lida''),
                Prompt ([10] @ lit ''Presiona Enter para continuar...'')]\<rparr>)
   \<and> calls (final (container_menu_turn (world_of (NoSuchBinary []) False) (terminal [Line (lit '' 99 ''), Line (lit ''ok'')]))) = calls (terminal [Line (lit '' 99 ''), Line (lit ''ok'')])
      \<and> out (final (container_menu_turn (world_of (NoSuchBinary []) False) (terminal [Line (lit '' 99 ''), Line (lit ''ok'')]))) =
          out (show_container_menu (terminal [Line (lit '' 99 ''), Line (lit ''ok'')])) @
               [Prompt (lit ''Selecciona una opci'' @ [243] @ lit ''n: ''),
                Print ([10060] @ lit '' Opci'' @ [243] @ lit ''n inv'' @ [225] @ lit ''lida''),
                Prompt ([10] @ lit ''Presiona Enter para continuar...'')]
   \<and> container_menu_turn (world_of (NoSuchBinary []) False) (terminal [Line (lit '' 99 ''), Line (lit ''ok'')]) =
        Returned False
          ((terminal [Line (lit '' 99 ''), Line (lit ''ok'')])\<lparr>inputs := [],
             out := out (show_container_menu (terminal [Line (lit '' 99 ''), Line (lit ''ok'')])) @
               [Prompt (lit ''Selecciona una opci'' @ [243] @ lit ''n: ''),
                Print ([10060] @ lit '' Opci'' @ [243] @ lit ''n inv'' @ [225] @ lit ''lida''),
                Prompt ([10] @ lit ''Presiona Enter para continuar...'')]\<rparr>)
      \<and> handle_container_menu (world_of (NoSuchBinary []) False) (terminal [Line (lit '' 99 ''), Line (lit ''ok'')]) =
          handle_container_menu (world_of (NoSuchBinary []) False)
          ((terminal [Line (lit '' 99 ''), Line (lit ''ok'')])\<lparr>inputs := [],
             out := out (show_container_menu (terminal [Line (lit '' 99 ''), Line (lit ''ok'')])) @
               [Prompt (lit ''Selecciona una opci'' @ [243] @ lit ''n: ''),
                Print ([10060] @ lit '' Opci'' @ [243] @ lit ''n inv'' @ [225] @ lit ''lida''),
                Prompt ([10] @ lit ''Presiona Enter para continuar...'')]\<rparr>)
   \<and> container_menu_turn (world_of (NoSuchBinary []) False) (terminal [Line (lit '' 99 '')]) =
        Raised EOFError
          ((terminal [Line (lit '' 99 '')])\<lparr>inputs := [],
             out := out (show_container_menu (terminal [Line (lit '' 99 '')])) @
               [Prompt (lit ''Selecciona una opci'' @ [243] @ lit ''n: ''),
                Print ([10060] @ lit '' Opci'' @ [243] @ lit ''n inv'' @ [225] @ lit ''lida''),
                Prompt ([10] @ lit ''Presiona Enter para continuar...'')]\<rparr>)
      \<and> handle_container_menu (world_of (NoSuchBinary []) False) (terminal [Line (lit '' 99 '')]) =
        Raised EOFError
          ((terminal [Line (lit '' 99 '')])\<lparr>inputs := [],
             out := out (show_container_menu (terminal [Line (lit '' 99 '')])) @
               [Prompt (lit ''Selecciona una opci'' @ [243] @ lit ''n: ''),
                Print ([10060] @ lit '' Opci'' @ [243] @ lit ''n inv'' @ [225] @ lit ''lida''),
                Prompt ([10] @ lit ''Presiona Enter para continuar...'')]\<rparr>)
   \<and> container_menu_turn (world_of (NoSuchBinary []) False) (terminal [Line (lit '' 99 ''), Interrupt]) =
        Raised KeyboardInterrupt
          ((terminal [Line (lit '' 99 ''), Interrupt])\<lparr>inputs := [],
             out := out (show_container_menu (terminal [Line (lit '' 99 ''), Interrupt])) @
               [Prompt (lit ''Selecciona una opci'' @ [243] @ lit ''n: ''),
                Print ([10060] @ lit '' Opci'' @ [243] @ lit ''n inv'' @ [225] @ lit ''lida''),
                Prompt ([10] @ lit ''Presiona Enter para continuar...'')]\<rparr>)
      \<and> handle_container_menu (world_of (NoSuchBinary []) False) (terminal [Line (lit '' 99 ''), Interrupt]) =
        Raised KeyboardInterrupt
          ((terminal [Line (lit '' 99 ''), Interrupt])\<lparr>inputs := [],
             out := out (show_container_menu (terminal [Line (lit '' 99 ''), Interrupt])) @
               [Prompt (lit ''Selecciona una opci'' @ [243] @ lit ''n: ''),
                Print ([10060] @ lit '' Opci'' @ [243] @ lit ''n inv'' @ [225] @ lit ''lida''),
                Prompt ([10] @ lit ''Presiona Enter para continuar...'')]\<rparr>)
   \<and> calls (final (system_menu_turn (world_of (NoSuchBinary []) False) (terminal [Line (lit '' 99 ''), Line (lit ''ok'')]))) = calls (terminal [Line (lit '' 99 ''), Line (lit ''ok'')])
      \<and> out (final (system_menu_turn (world_of (NoSuchBinary []) False) (terminal [Line (lit '' 99 ''), Line (lit ''ok'')]))) =
          out (show_system_menu (terminal [Line (lit '' 99 ''), Line (lit ''ok'')])) @
               [Prompt (lit ''Selecciona una opci'' @ [243] @ lit ''n: ''),
                Print ([10060] @ lit '' Opci'' @ [243] @ lit ''n inv'' @ [225] @ lit ''lida''),
                Prompt ([10] @ lit ''Presiona Enter para continuar...'')]
   \<and> system_menu_turn (world_of (NoSuchBinary []) False) (terminal [Line (lit '' 99 ''), Line (lit ''ok'')]) =
        Returned False
          ((terminal [Line (lit '' 99 ''), Line (lit ''ok'')])\<lparr>inputs := [],
             out := out (show_system_menu (terminal [Line (lit '' 99 ''), Line (lit ''ok'')])) @
               [Prompt (lit ''Selecciona una opci'' @ [243] @ lit ''n: ''),
                Print ([10060] @ lit '' Opci'' @ [243] @ lit ''n inv'' @ [225] @ lit ''lida''),
                Prompt ([10] @ lit ''Presiona Enter para continuar...'')]\<rparr>)
      \<and> handle_system_menu (world_of (NoSuchBinary []) False) (terminal [Line (lit '' 99 ''), Line (lit ''ok'')]) =
          handle_system_menu (world_of (NoSuchBinary []) False)
          ((terminal [Line (lit '' 99 ''), Line (lit ''ok'')])\<lparr>inputs := [],
             out := out (show_system_menu (terminal [Line (lit '' 99 ''), Line (lit ''ok'')])) @
               [Prompt (lit ''Selecciona una opci'' @ [243] @ lit ''n: ''),
                Print ([10060] @ lit '' Opci'' @ [243] @ lit ''n inv'' @ [225] @ lit ''lida''),
                Prompt ([10] @ lit ''Presiona Enter para continuar...'')]\<rparr>)
   \<and> system_menu_turn (world_of (NoSuchBinary []) False) (terminal [Line (lit '' 99 '')]) =
        Raised EOFError
          ((terminal [Line (lit '' 99 '')])\<lparr>inputs := [],
             out := out (show_system_menu (terminal [Line (lit '' 99 '')])) @
               [Prompt (lit ''Selecciona una opci'' @ [243] @ lit ''n: ''),
                Print ([10060] @ lit '' Opci'' @ [243] @ lit ''n inv'' @ [225] @ lit ''lida''),
                Prompt ([10] @ lit ''Presiona Enter para continuar...'')]\<rparr>)
      \<and> handle_system_menu (world_of (NoSuchBinary []) False) (terminal [Line (lit '' 99 '')]) =
        Raised EOFError
          ((terminal [Line (lit '' 99 '')])\<lparr>inputs := [],
             out := out (show_system_menu (terminal [Line (lit '' 99 '')])) @
               [Prompt (lit ''Selecciona una opci'' @ [243] @ lit ''n: ''),
                Print ([10060] @ lit '' Opci'' @ [243] @ lit ''n inv'' @ [225] @ lit ''lida''),
                Prompt ([10] @ lit ''Presiona Enter para continuar...'')]\<rparr>)
   \<and> system_menu_turn (world_of (NoSuchBinary []) False) (terminal [Line (lit '' 99 ''), Interrupt]) =
        Raised KeyboardInterrupt
          ((terminal [Line (lit '' 99 ''), Interrupt])\<lparr>inputs := [],
             out := out (show_system_menu (terminal [Line (lit '' 99 ''), Interrupt])) @
               [Prompt (lit ''Selecciona una opci'' @ [243] @ lit ''n: ''),
                Print ([10060] @ lit '' Opci'' @ [243] @ lit ''n inv'' @ [225] @ lit ''lida''),
                Prompt ([10] @ lit ''Presiona Enter para continuar...'')]\<rparr>)
      \<and> handle_system_menu (world_of (NoSuchBinary []) False) (terminal [Line (lit '' 99 ''), Interrupt]) =
        Raised KeyboardInterrupt
          ((terminal [Line (lit '' 99 ''), Interrupt])\<lparr>inputs := [],
             out := out (show_system_menu (terminal [Line (lit '' 99 ''), Interrupt])) @
               [Prompt (lit ''Selecciona una opci'' @ [243] @ lit ''n: ''),
                Print ([10060] @ lit '' Opci'' @ [243] @ lit ''n inv'' @ [225] @ lit ''lida''),
                Prompt ([10] @ lit ''Presiona Enter para continuar...'')]\<rparr>)"
proof -
  have e: "strip (lit '' 99 '') \<notin> {lit ''1'', lit ''2'', lit ''3'', lit ''4''}"
    "strip (lit '' 99 '') \<notin> {lit ''1'', lit ''2'', lit ''3'', lit ''4'', lit ''5''}"
    "strip (lit '' 99 '') \<notin> {lit ''1'', lit ''2'', lit ''3'', lit ''4'', lit ''5'', lit ''6'', lit ''7'', lit ''8'', lit ''9'', lit ''10''}"
    by (simp_all add: concrete_defs)
  have i: "inputs (terminal [Line (lit '' 99 ''), Line (lit ''ok'')]) = Line (lit '' 99 '') # Line (lit ''ok'') # []"
    "inputs (terminal [Line (lit '' 99 ''), Line (lit ''ok'')]) = Line (lit '' 99 '') # [Line (lit ''ok'')]"
    "inputs (terminal [Line (lit '' 99 '')]) = [Line (lit '' 99 '')]"
    "inputs (terminal [Line (lit '' 99 ''), Interrupt]) = Line (lit '' 99 '') # Interrupt # []"
    by (simp_all add: terminal_def)
  note L = unrecognized_option_stays
             [where w = "world_of (NoSuchBinary []) False" and s = "terminal [Line (lit '' 99 ''), Line (lit ''ok'')]" and raw = "lit '' 99 ''"
                and enter = "lit ''ok''" and rest = "[]"]
  note L' = unrecognized_option_stays
             [where w = "world_of (NoSuchBinary []) False" and s = "terminal [Line (lit '' 99 ''), Line (lit ''ok'')]" and raw = "lit '' 99 ''"
                and rest = "[Line (lit ''ok'')]"]
  note E = unrecognized_option_stays
             [where w = "world_of (NoSuchBinary []) False" and s = "terminal [Line (lit '' 99 '')]" and raw = "lit '' 99 ''"]
  note I = unrecognized_option_stays
             [where w = "world_of (NoSuchBinary []) False" and s = "terminal [Line (lit '' 99 ''), Interrupt]" and raw = "lit '' 99 ''" and rest = "[]"]
  have c0: "calls (final (main_turn (world_of (NoSuchBinary []) False) (terminal [Line (lit '' 99 ''), Line (lit ''ok'')]))) = calls (terminal [Line (lit '' 99 ''), Line (lit ''ok'')])
      \<and> out (final (main_turn (world_of (NoSuchBinary []) False) (terminal [Line (lit '' 99 ''), Line (lit ''ok'')]))) =
          out (show_main_menu (show_header (terminal [Line (lit '' 99 ''), Line (lit ''ok'')]))) @
               [Prompt (lit ''Selecciona una opci'' @ [243] @ lit ''n: ''),
                Print ([10060] @ lit '' Opci'' @ [243] @ lit ''n inv'' @ [225] @ lit ''lida''),
                Prompt ([10] @ lit ''Presiona Enter para continuar...'')]"
    by (rule L' [THEN conjunct1, THEN mp]) (insert e i, simp)
  have c1: "main_turn (world_of (NoSuchBinary []) False) (terminal [Line (lit '' 99 ''), Line (lit ''ok'')]) =
        Returned False
          ((terminal [Line (lit '' 99 ''), Line (lit ''ok'')])\<lparr>inputs := [],
             out := out (show_main_menu (show_header (terminal [Line (lit '' 99 ''), Line (lit ''ok'')]))) @
               [Prompt (lit ''Selecciona una opci'' @ [243] @ lit ''n: ''),
                Print ([10060] @ lit '' Opci'' @ [243] @ lit ''n inv'' @ [225] @ lit ''lida''),
                Prompt ([10] @ lit ''Presiona Enter para continuar...'')]\<rparr>)
      \<and> main_loop (world_of (NoSuchBinary []) False) (terminal [Line (lit '' 99 ''), Line (lit ''ok'')]) =
          main_loop (world_of (NoSuchBinary []) False)
          ((terminal [Line (lit '' 99 ''), Line (lit ''ok'')])\<lparr>inputs := [],
             out := out (show_main_menu (show_header (terminal [Line (lit '' 99 ''), Line (lit ''ok'')]))) @
               [Prompt (lit ''Selecciona una opci'' @ [243] @ lit ''n: ''),
                Print ([10060] @ lit '' Opci'' @ [243] @ lit ''n inv'' @ [225] @ lit ''lida''),
                Prompt ([10] @ lit ''Presiona Enter para continuar...'')]\<rparr>)"
    by (rule L [THEN conjunct2, THEN conjunct1, THEN mp]) (insert e i, simp)
  have c2: "main_turn (world_of (NoSuchBinary []) False) (terminal [Line (lit '' 99 '')]) =
        Raised EOFError
          ((terminal [Line (lit '' 99 '')])\<lparr>inputs := [],
             out := out (show_main_menu (show_header (terminal [Line (lit '' 99 '')]))) @
               [Prompt (lit ''Selecciona una opci'' @ [243] @ lit ''n: ''),
                Print ([10060] @ lit '' Opci'' @ [243] @ lit ''n inv'' @ [225] @ lit ''lida''),
                Prompt ([10] @ lit ''Presiona Enter para continuar...'')]\<rparr>)
      \<and> main_loop (world_of (NoSuchBinary []) False) (terminal [Line (lit '' 99 '')]) =
        Raised EOFError
          ((terminal [Line (lit '' 99 '')])\<lparr>inputs := [],
             out := out (show_main_menu (show_header (terminal [Line (lit '' 99 '')]))) @
               [Prompt (lit ''Selecciona una opci'' @ [243] @ lit ''n: ''),
                Print ([10060] @ lit '' Opci'' @ [243] @ lit ''n inv'' @ [225] @ lit ''lida''),
                Prompt ([10] @ lit ''Presiona Enter para continuar...'')]\<rparr>)"
    by (rule E [THEN conjunct2, THEN conjunct2, THEN conjunct1, THEN mp]) (insert e i, simp)
  have c3: "main_turn (world_of (NoSuchBinary []) False) (terminal [Line (lit '' 99 ''), Interrupt]) =
        Raised KeyboardInterrupt
          ((terminal [Line (lit '' 99 ''), Interrupt])\<lparr>inputs := [],
             out := out (show_main_menu (show_header (terminal [Line (lit '' 99 ''), Interrupt]))) @
               [Prompt (lit ''Selecciona una opci'' @ [243] @ lit ''n: ''),
                Print ([10060] @ lit '' Opci'' @ [243] @ lit ''n inv'' @ [225] @ lit ''lida''),
                Prompt ([10] @ lit ''Presiona Enter para continuar...'')]\<rparr>)
      \<and> main_loop (world_of (NoSuchBinary []) False) (terminal [Line (lit '' 99 ''), Interrupt]) =
        Raised KeyboardInterrupt
          ((terminal [Line (lit '' 99 ''), Interrupt])\<lparr>inputs := [],
             out := out (show_main_menu (show_header (terminal [Line (lit '' 99 ''), Interrupt]))) @
               [Prompt (lit ''Selecciona una opci'' @ [243] @ lit ''n: ''),
                Print ([10060] @ lit '' Opci'' @ [243] @ lit ''n inv'' @ [225] @ lit ''lida''),
                Prompt ([10] @ lit ''Presiona Enter para continuar...'')]\<rparr>)"
    by (rule I [THEN conjunct2, THEN conjunct2, THEN conjunct2, THEN conjunct1, THEN mp]) (insert e i, simp)
  have c4: "calls (final (image_menu_turn (world_of (NoSuchBinary []) False) (terminal [Line (lit '' 99 ''), Line (lit ''ok'')]))) = calls (terminal [Line (lit '' 99 ''), Line (lit ''ok'')])
      \<and> out (final (image_menu_turn (world_of (NoSuchBinary []) False) (terminal [Line (lit '' 99 ''), Line (lit ''ok'')]))) =
          out (show_image_menu (terminal [Line (lit '' 99 ''), Line (lit ''ok'')])) @
               [Prompt (lit ''Selecciona una opci'' @ [243] @ lit ''n: ''),
                Print ([10060] @ lit '' Opci'' @ [243] @ lit ''n inv'' @ [225] @ lit ''lida''),
                Prompt ([10] @ lit ''Presiona Enter para continuar...'')]"
    by (rule L' [THEN conjunct2, THEN conjunct2, THEN conjunct2, THEN conjunct2, THEN conjunct1, THEN mp]) (insert e i, simp)
  have c5: "image_menu_turn (world_of (NoSuchBinary []) False) (terminal [Line (lit '' 99 ''), Line (lit ''ok'')]) =
        Returned False
          ((terminal [Line (lit '' 99 ''), Line (lit ''ok'')])\<lparr>inputs := [],
             out := out (show_image_menu (terminal [Line (lit '' 99 ''), Line (lit ''ok'')])) @
               [Prompt (lit ''Selecciona una opci'' @ [243] @ lit ''n: ''),
                Print ([10060] @ lit '' Opci'' @ [243] @ lit ''n inv'' @ [225] @ lit ''lida''),
                Prompt ([10] @ lit ''Presiona Enter para continuar...'')]\<rparr>)
      \<and> handle_image_menu (world_of (NoSuchBinary []) False) (terminal [Line (lit '' 99 ''), Line (lit ''ok'')]) =
          handle_image_menu (world_of (NoSuchBinary []) False)
          ((terminal [Line (lit '' 99 ''), Line (lit ''ok'')])\<lparr>inputs := [],
             out := out (show_image_menu (terminal [Line (lit '' 99 ''), Line (lit ''ok'')])) @
               [Prompt (lit ''Selecciona una opci'' @ [243] @ lit ''n: ''),
                Print ([10060] @ lit '' Opci'' @ [243] @ lit ''n inv'' @ [225] @ lit ''lida''),
                Prompt ([10] @ lit ''Presiona Enter para continuar...'')]\<rparr>)"
    by (rule L [THEN conjunct2, THEN conjunct2, THEN conjunct2, THEN conjunct2, THEN conjunct2, THEN conjunct1, THEN mp]) (insert e i, simp)
  have c6: "image_menu_turn (world_of (NoSuchBinary []) False) (terminal [Line (lit '' 99 '')]) =
        Raised EOFError
          ((terminal [Line (lit '' 99 '')])\<lparr>inputs := [],
             out := out (show_image_menu (terminal [Line (lit '' 99 '')])) @
               [Prompt (lit ''Selecciona una opci'' @ [243] @ lit ''n: ''),
                Print ([10060] @ lit '' Opci'' @ [243] @ lit ''n inv'' @ [225] @ lit ''lida''),
                Prompt ([10] @ lit ''Presiona Enter para continuar...'')]\<rparr>)
      \<and> handle_image_menu (world_of (NoSuchBinary []) False) (terminal [Line (lit '' 99 '')]) =
        Raised EOFError
          ((terminal [Line (lit '' 99 '')])\<lparr>inputs := [],
             out := out (show_image_menu (terminal [Line (lit '' 99 '')])) @
               [Prompt (lit ''Selecciona una opci'' @ [243] @ lit ''n: ''),
                Print ([10060] @ lit '' Opci'' @ [243] @ lit ''n inv'' @ [225] @ lit ''lida''),
                Prompt ([10] @ lit ''Presiona Enter para continuar...'')]\<rparr>)"
    by (rule E [THEN conjunct2, THEN conjunct2, THEN conjunct2, THEN conjunct2, THEN conjunct2, THEN conjunct2, THEN conjunct1, THEN mp]) (insert e i, simp)
  have c7: "image_menu_turn (world_of (NoSuchBinary []) False) (terminal [Line (lit '' 99 ''), Interrupt]) =
        Raised KeyboardInterrupt
          ((terminal [Line (lit '' 99 ''), Interrupt])\<lparr>inputs := [],
             out := out (show_image_menu (terminal [Line (lit '' 99 ''), Interrupt])) @
               [Prompt (lit ''Selecciona una opci'' @ [243] @ lit ''n: ''),
                Print ([10060] @ lit '' Opci'' @ [243] @ lit ''n inv'' @ [225] @ lit ''lida''),
                Prompt ([10] @ lit ''Presiona Enter para continuar...'')]\<rparr>)
      \<and> handle_image_menu (world_of (NoSuchBinary []) False) (terminal [Line (lit '' 99 ''), Interrupt]) =
        Raised KeyboardInterrupt
          ((terminal [Line (lit '' 99 ''), Interrupt])\<lparr>inputs := [],
             out := out (show_image_menu (terminal [Line (lit '' 99 ''), Interrupt])) @
               [Prompt (lit ''Selecciona una opci'' @ [243] @ lit ''n: ''),
                Print ([10060] @ lit '' Opci'' @ [243] @ lit ''n inv'' @ [225] @ lit ''lida''),
                Prompt ([10] @ lit ''Presiona Enter para continuar...'')]\<rparr>)"
    by (rule I [THEN conjunct2, THEN conjunct2, THEN conjunct2, THEN conjunct2, THEN conjunct2, THEN conjunct2, THEN conjunct2, THEN conjunct1, THEN mp]) (insert e i, simp)
  have c8: "calls (final (container_menu_turn (world_of (NoSuchBinary []) False) (terminal [Line (lit '' 99 ''), Line (lit ''ok'')]))) = calls (terminal [Line (lit '' 99 ''), Line (lit ''ok'')])
      \<and> out (final (container_menu_turn (world_of (NoSuchBinary []) False) (terminal [Line (lit '' 99 ''), Line (lit ''ok'')]))) =
          out (show_container_menu (terminal [Line (lit '' 99 ''), Line (lit ''ok'')])) @
               [Prompt (lit ''Selecciona una opci'' @ [243] @ lit ''n: ''),
                Print ([10060] @ lit '' Opci'' @ [243] @ lit ''n inv'' @ [225] @ lit ''lida''),
                Prompt ([10] @ lit ''Presiona Enter para continuar...'')]"
    by (rule L' [THEN conjunct2, THEN conjunct2, THEN conjunct2, THEN conjunct2, THEN conjunct2, THEN conjunct2, THEN conjunct2, THEN conjunct2, THEN conjunct1, THEN mp]) (insert e i, simp)
  have c9: "container_menu_turn (world_of (NoSuchBinary []) False) (terminal [Line (lit '' 99 ''), Line (lit ''ok'')]) =
        Returned False
          ((terminal [Line (lit '' 99 ''), Line (lit ''ok'')])\<lparr>inputs := [],
             out := out (show_container_menu (terminal [Line (lit '' 99 ''), Line (lit ''ok'')])) @
               [Prompt (lit ''Selecciona una opci'' @ [243] @ lit ''n: ''),
                Print ([10060] @ lit '' Opci'' @ [243] @ lit ''n inv'' @ [225] @ lit ''lida''),
                Prompt ([10] @ lit ''Presiona Enter para continuar...'')]\<rparr>)
      \<and> handle_container_menu (world_of (NoSuchBinary []) False) (terminal [Line (lit '' 99 ''), Line (lit ''ok'')]) =
          handle_container_menu (world_of (NoSuchBinary []) False)
          ((terminal [Line (lit '' 99 ''), Line (lit ''ok'')])\<lparr>inputs := [],
             out := out (show_container_menu (terminal [Line (lit '' 99 ''), Line (lit ''ok'')])) @
               [Prompt (lit ''Selecciona una opci'' @ [243] @ lit ''n: ''),
                Print ([10060] @ lit '' Opci'' @ [243] @ lit ''n inv'' @ [225] @ lit ''lida''),
                Prompt ([10] @ lit ''Presiona Enter para continuar...'')]\<rparr>)"
    by (rule L [THEN conjunct2, THEN conjunct2, THEN conjunct2, THEN conjunct2, THEN conjunct2, THEN conjunct2, THEN conjunct2, THEN conjunct2, THEN conjunct2, THEN conjunct1, THEN mp]) (insert e i, simp)
  have c10: "container_menu_turn (world_of (NoSuchBinary []) False) (terminal [Line (lit '' 99 '')]) =
        Raised EOFError
          ((terminal [Line (lit '' 99 '')])\<lparr>inputs := [],
             out := out (show_container_menu (terminal [Line (lit '' 99 '')])) @
               [Prompt (lit ''Selecciona una opci'' @ [243] @ lit ''n: ''),
                Print ([10060] @ lit '' Opci'' @ [243] @ lit ''n inv'' @ [225] @ lit ''lida''),
                Prompt ([10] @ lit ''Presiona Enter para continuar...'')]\<rparr>)
      \<and> handle_container_menu (world_of (NoSuchBinary []) False) (terminal [Line (lit '' 99 '')]) =
        Raised EOFError
          ((terminal [Line (lit '' 99 '')])\<lparr>inputs := [],
             out := out (show_container_menu (terminal [Line (lit '' 99 '')])) @
               [Prompt (lit ''Selecciona una opci'' @ [243] @ lit ''n: ''),
                Print ([10060] @ lit '' Opci'' @ [243] @ lit ''n inv'' @ [225] @ lit ''lida''),
                Prompt ([10] @ lit ''Presiona Enter para continuar...'')]\<rparr>)"
    by (rule E [THEN conjunct2, THEN conjunct2, THEN conjunct2, THEN conjunct2, THEN conjunct2, THEN conjunct2, THEN conjunct2, THEN conjunct2, THEN conjunct2, THEN conjunct2, THEN conjunct1, THEN mp]) (insert e i, simp)
  have c11: "container_menu_turn (world_of (NoSuchBinary []) False) (terminal [Line (lit '' 99 ''), Interrupt]) =
        Raised KeyboardInterrupt
          ((terminal [Line (lit '' 99 ''), Interrupt])\<lparr>inputs := [],
             out := out (show_container_menu (terminal [Line (lit '' 99 ''), Interrupt])) @
               [Prompt (lit ''Selecciona una opci'' @ [243] @ lit ''n: ''),
                Print ([10060] @ lit '' Opci'' @ [243] @ lit ''n inv'' @ [225] @ lit ''lida''),
                Prompt ([10] @ lit ''Presiona Enter para continuar...'')]\<rparr>)
      \<and> handle_container_menu (world_of (NoSuchBinary []) False) (terminal [Line (lit '' 99 ''), Interrupt]) =
        Raised KeyboardInterrupt
          ((terminal [Line (lit '' 99 ''), Interrupt])\<lparr>inputs := [],
             out := out (show_container_menu (terminal [Line (lit '' 99 ''), Interrupt])) @
               [Prompt (lit ''Selecciona una opci'' @ [243] @ lit ''n: ''),
                Print ([10060] @ lit '' Opci'' @ [243] @ lit ''n inv'' @ [225] @ lit ''lida''),
                Prompt ([10] @ lit ''Presiona Enter para continuar...'')]\<rparr>)"
    by (rule I [THEN conjunct2, THEN conjunct2, THEN conjunct2, THEN conjunct2, THEN conjunct2, THEN conjunct2, THEN conjunct2, THEN conjunct2, THEN conjunct2, THEN conjunct2, THEN conjunct2, THEN conjunct1, THEN mp]) (insert e i, simp)
  have c12: "calls (final (system_menu_turn (world_of (NoSuchBinary []) False) (terminal [Line (lit '' 99 ''), Line (lit ''ok'')]))) = calls (terminal [Line (lit '' 99 ''), Line (lit ''ok'')])
      \<and> out (final (system_menu_turn (world_of (NoSuchBinary []) False) (terminal [Line (lit '' 99 ''), Line (lit ''ok'')]))) =
          out (show_system_menu (terminal [Line (lit '' 99 ''), Line (lit ''ok'')])) @
               [Prompt (lit ''Selecciona una opci'' @ [243] @ lit ''n: ''),
                Print ([10060] @ lit '' Opci'' @ [243] @ lit ''n inv'' @ [225] @ lit ''lida''),
                Prompt ([10] @ lit ''Presiona Enter para continuar...'')]"
    by (rule L' [THEN conjunct2, THEN conjunct2, THEN conjunct2, THEN conjunct2, THEN conjunct2, THEN conjunct2, THEN conjunct2, THEN conjunct2, THEN conjunct2, THEN conjunct2, THEN conjunct2, THEN conjunct2, THEN conjunct1, THEN mp]) (insert e i, simp)
  have c13: "system_menu_turn (world_of (NoSuchBinary []) False) (terminal [Line (lit '' 99 ''), Line (lit ''ok'')]) =
        Returned False
          ((terminal [Line (lit '' 99 ''), Line (lit ''ok'')])\<lparr>inputs := [],
             out := out (show_system_menu (terminal [Line (lit '' 99 ''), Line (lit ''ok'')])) @
               [Prompt (lit ''Selecciona una opci'' @ [243] @ lit ''n: ''),
                Print ([10060] @ lit '' Opci'' @ [243] @ lit ''n inv'' @ [225] @ lit ''lida''),
                Prompt ([10] @ lit ''Presiona Enter para continuar...'')]\<rparr>)
      \<and> handle_system_menu (world_of (NoSuchBinary []) False) (terminal [Line (lit '' 99 ''), Line (lit ''ok'')]) =
          handle_system_menu (world_of (NoSuchBinary []) False)
          ((terminal [Line (lit '' 99 ''), Line (lit ''ok'')])\<lparr>inputs := [],
             out := out (show_system_menu (terminal [Line (lit '' 99 ''), Line (lit ''ok'')])) @
               [Prompt (lit ''Selecciona una opci'' @ [243] @ lit ''n: ''),
                Print ([10060] @ lit '' Opci'' @ [243] @ lit ''n inv'' @ [225] @ lit ''lida''),
                Prompt ([10] @ lit ''Presiona Enter para continuar...'')]\<rparr>)"
    by (rule L [THEN conjunct2, THEN conjunct2, THEN conjunct2, THEN conjunct2, THEN conjunct2, THEN conjunct2, THEN conjunct2, THEN conjunct2, THEN conjunct2, THEN conjunct2, THEN conjunct2, THEN conjunct2, THEN conjunct2, THEN conjunct1, THEN mp]) (insert e i, simp)
  have c14: "system_menu_turn (world_of (NoSuchBinary []) False) (terminal [Line (lit '' 99 '')]) =
        Raised EOFError
          ((terminal [Line (lit '' 99 '')])\<lparr>inputs := [],
             out := out (show_system_menu (terminal [Line (lit '' 99 '')])) @
               [Prompt (lit ''Selecciona una opci'' @ [243] @ lit ''n: ''),
                Print ([10060] @ lit '' Opci'' @ [243] @ lit ''n inv'' @ [225] @ lit ''lida''),
                Prompt ([10] @ lit ''Presiona Enter para continuar...'')]\<rparr>)
      \<and> handle_system_menu (world_of (NoSuchBinary []) False) (terminal [Line (lit '' 99 '')]) =
        Raised EOFError
          ((terminal [Line (lit '' 99 '')])\<lparr>inputs := [],
             out := out (show_system_menu (terminal [Line (lit '' 99 '')])) @
               [Prompt (lit ''Selecciona una opci'' @ [243] @ lit ''n: ''),
                Print ([10060] @ lit '' Opci'' @ [243] @ lit ''n inv'' @ [225] @ lit ''lida''),
                Prompt ([10] @ lit ''Presiona Enter para continuar...'')]\<rparr>)"
    by (rule E [THEN conjunct2, THEN conjunct2, THEN conjunct2, THEN conjunct2, THEN conjunct2, THEN conjunct2, THEN conjunct2, THEN conjunct2, THEN conjunct2, THEN conjunct2, THEN conjunct2, THEN conjunct2, THEN conjunct2, THEN conjunct2, THEN conjunct1, THEN mp]) (insert e i, simp)
  have c15: "system_menu_turn (world_of (NoSuchBinary []) False) (terminal [Line (lit '' 99 ''), Interrupt]) =
        Raised KeyboardInterrupt
          ((terminal [Line (lit '' 99 ''), Interrupt])\<lparr>inputs := [],
             out := out (show_system_menu (terminal [Line (lit '' 99 ''), Interrupt])) @
               [Prompt (lit ''Selecciona una opci'' @ [243] @ lit ''n: ''),
                Print ([10060] @ lit '' Opci'' @ [243] @ lit ''n inv'' @ [225] @ lit ''lida''),
                Prompt ([10] @ lit ''Presiona Enter para continuar...'')]\<rparr>)
      \<and> handle_system_menu (world_of (NoSuchBinary []) False) (terminal [Line (lit '' 99 ''), Interrupt]) =
        Raised KeyboardInterrupt
          ((terminal [Line (lit '' 99 ''), Interrupt])\<lparr>inputs := [],
             out := out (show_system_menu (terminal [Line (lit '' 99 ''), Interrupt])) @
               [Prompt (lit ''Selecciona una opci'' @ [243] @ lit ''n: ''),
                Print ([10060] @ lit '' Opci'' @ [243] @ lit ''n inv'' @ [225] @ lit ''lida''),
                Prompt ([10] @ lit ''Presiona Enter para continuar...'')]\<rparr>)"
    by (rule I [THEN conjunct2, THEN conjunct2, THEN conjunct2, THEN conjunct2, THEN conjunct2, THEN conjunct2, THEN conjunct2, THEN conjunct2, THEN conjunct2, THEN conjunct2, THEN conjunct2, THEN conjunct2, THEN conjunct2, THEN conjunct2, THEN conjunct2, THEN mp]) (insert e i, simp)
  from c0 c1 c2 c3 c4 c5 c6 c7 c8 c9 c10 c11 c12 c13 c14 c15 show ?thesis
    by blast
qed

section \<open>Faults of the executor\<close>

lemma passes_unchanged: "calls (final m) = calls s \<Longrightarrow> passes w s m"
  by (simp add: passes_def)

lemma passes_Returned: "calls s' = calls s \<Longrightarrow> passes w s (Returned r s')"
  by (simp add: passes_def)

lemma input_calls: "calls (final (input p s)) = calls s"
  by (simp add: input_def Let_def split: list.splits key.splits)

lemma passes_input: "calls s0 = calls s \<Longrightarrow> passes w s (input p s0)"
  by (rule passes_unchanged) (simp add: input_calls)

lemma passes_from: "calls s1 = calls s \<Longrightarrow> passes w s1 m \<Longrightarrow> passes w s m"
proof -
  assume a: "calls s1 = calls s" and b: "passes w s1 m"
  from b show "passes w s m"
    unfolding passes_def a .
qed

lemma passes_Raised:
  "passes w s (Raised e s1 :: 'a outcome) \<Longrightarrow> passes w s (Raised e s1 :: 'b outcome)"
  unfolding passes_def final.simps outcome.inject by assumption

lemma subprocess_run_fault:
  "c \<noteq> [] \<Longrightarrow> fault_of (spawn w (calls s) (m, c)) e \<Longrightarrow>
     subprocess_run w m c s = Raised e (s\<lparr>calls := calls s @ [(m, c)]\<rparr>)"
  by (auto simp: subprocess_run_def fault_of_def)

lemma passes_one_call:
  assumes c: "calls (final x) = calls s @ [k]"
    and f: "\<And>e. fault_of (spawn w (calls s) k) e \<Longrightarrow> \<exists>s'. x = Raised e s'"
  shows "passes w s x"
  unfolding passes_def
proof (intro conjI allI)
  show "\<exists>new. calls (final x) = calls s @ new"
    using c by blast
next
  fix pre k' post e
  show "calls (final x) = calls s @ pre @ k' # post
          \<and> fault_of (spawn w (calls s @ pre) k') e
        \<longrightarrow> post = [] \<and> (\<exists>s'. x = Raised e s')"
  proof
    assume h: "calls (final x) = calls s @ pre @ k' # post
                 \<and> fault_of (spawn w (calls s @ pre) k') e"
    with c have "pre @ k' # post = [k]"
      by simp
    then have p: "pre = [] \<and> k' = k \<and> post = []"
      by (cases pre) simp_all
    with h f show "post = [] \<and> (\<exists>s'. x = Raised e s')"
      by simp
  qed
qed

lemma passes_run_command:
  assumes "c \<noteq> []" and "calls s0 = calls s"
  shows "passes w s (run_command w c s0)"
proof (rule passes_one_call)
  show "calls (final (run_command w c s0)) = calls s @ [(Captured, c)]"
    using assms(2) by simp
next
  fix e
  assume "fault_of (spawn w (calls s) (Captured, c)) e"
  with assms show "\<exists>s'. run_command w c s0 = Raised e s'"
    by (simp add: run_command_def subprocess_run_fault)
qed

lemma passes_run_command_interactive:
  assumes "c \<noteq> []" and "calls s0 = calls s"
  shows "passes w s (run_command_interactive w c s0)"
proof (rule passes_one_call)
  show "calls (final (run_command_interactive w c s0)) = calls s @ [(Interactive, c)]"
    using assms(2) by simp
next
  fix e
  assume "fault_of (spawn w (calls s) (Interactive, c)) e"
  with assms show "\<exists>s'. run_command_interactive w c s0 = Raised e s'"
    by (simp add: run_command_interactive_def subprocess_run_fault)
qed

lemma passes_bind:
  fixes m :: "'a outcome" and f :: "'a \<Rightarrow> state \<Rightarrow> 'b outcome"
  assumes m: "passes w s m"
    and f: "\<And>r s1. m = Returned r s1 \<Longrightarrow> passes w s1 (f r s1)"
  shows "passes w s (bind m f)"
proof (cases m)
  case (Raised e' s1)
  with m have "passes w s (Raised e' s1 :: 'a outcome)"
    by simp
  then have "passes w s (Raised e' s1 :: 'b outcome)"
    by (rule passes_Raised)
  with Raised show ?thesis
    by simp
next
  case (Returned r s1)
  from m Returned obtain new1 where n1: "calls s1 = calls s @ new1"
    by (auto simp: passes_def)
  from m Returned have quiet:
    "\<And>pre k post e. new1 = pre @ k # post \<Longrightarrow> \<not> fault_of (spawn w (calls s @ pre) k) e"
    using n1 by (auto simp: passes_def)
  note p2 = f [OF Returned]
  from p2 obtain new2 where n2: "calls (final (f r s1)) = calls s1 @ new2"
    by (auto simp: passes_def)
  have b: "bind m f = f r s1"
    using Returned by simp
  show ?thesis
    unfolding passes_def b
  proof (intro conjI allI)
    show "\<exists>new. calls (final (f r s1)) = calls s @ new"
      using n1 n2 by simp
  next
    fix pre k post e
    show "calls (final (f r s1)) = calls s @ pre @ k # post
            \<and> fault_of (spawn w (calls s @ pre) k) e
          \<longrightarrow> post = [] \<and> (\<exists>s'. f r s1 = Raised e s')"
    proof
    assume h: "calls (final (f r s1)) = calls s @ pre @ k # post
                 \<and> fault_of (spawn w (calls s @ pre) k) e"
    with n1 n2 have "pre @ k # post = new1 @ new2"
      by simp
    then obtain us where "(pre = new1 @ us \<and> us @ k # post = new2)
                          \<or> (pre @ us = new1 \<and> k # post = us @ new2)"
      unfolding append_eq_append_conv2 by blast
    then consider (later) us' where "pre = new1 @ us'" and "new2 = us' @ k # post"
      | (earlier) us' where "new1 = pre @ k # us'"
    proof (elim disjE conjE)
      assume "pre = new1 @ us" and "us @ k # post = new2"
      then show ?thesis
        using that(1) by blast
    next
      assume a: "pre @ us = new1" and b: "k # post = us @ new2"
      show ?thesis
      proof (cases us)
        case Nil
        with a b that(1) [of "[]"] show ?thesis
          by simp
      next
        case (Cons u us')
        with a b that(2) [of us'] show ?thesis
          by simp
      qed
    qed
    then show "post = [] \<and> (\<exists>s'. f r s1 = Raised e s')"
    proof cases
      case later
      with n1 n2 h
      have "calls (final (f r s1)) = calls s1 @ us' @ k # post
              \<and> fault_of (spawn w (calls s1 @ us') k) e"
        by simp
      with p2 show ?thesis
        unfolding passes_def by blast
    next
      case earlier
      with quiet [of pre k us' e] h show ?thesis
        by simp
    qed
    qed
  qed
qed

lemmas passes_steps =
  impI conjI allI passes_bind passes_Returned passes_input passes_run_command
  passes_run_command_interactive

lemma list_images_passes: "passes w s (list_images w s)"
  unfolding list_images_def Let_def
  by (rule passes_steps
      | simp split: option.splits)+

lemma pull_image_passes: "passes w s (pull_image w s)"
  unfolding pull_image_def Let_def
  by (rule passes_steps
      | simp split: option.splits)+

lemma build_image_passes: "passes w s (build_image w s)"
  unfolding build_image_def Let_def
  by (rule passes_steps
      | simp split: option.splits)+

lemma remove_image_passes: "passes w s (remove_image w s)"
  unfolding remove_image_def Let_def
  by (rule passes_steps passes_from [OF _ list_images_passes]
      | simp split: option.splits)+

lemma list_containers_passes: "passes w s (list_containers w a s)"
  unfolding list_containers_def Let_def
  by (rule passes_steps
      | simp split: option.splits)+

lemma run_container_passes: "passes w s (run_container w s)"
  unfolding run_container_def run_container_cmd_def Let_def
  by (rule passes_steps
      | simp split: option.splits)+

lemma start_container_passes: "passes w s (start_container w s)"
  unfolding start_container_def Let_def
  by (rule passes_steps passes_from [OF _ list_containers_passes]
      | simp split: option.splits)+

lemma stop_container_passes: "passes w s (stop_container w s)"
  unfolding stop_container_def Let_def
  by (rule passes_steps passes_from [OF _ list_containers_passes]
      | simp split: option.splits)+

lemma restart_container_passes: "passes w s (restart_container w s)"
  unfolding restart_container_def Let_def
  by (rule passes_steps passes_from [OF _ list_containers_passes]
      | simp split: option.splits)+

lemma remove_container_passes: "passes w s (remove_container w s)"
  unfolding remove_container_def Let_def
  by (rule passes_steps passes_from [OF _ list_containers_passes]
      | simp split: option.splits)+

lemma view_logs_passes: "passes w s (view_logs w s)"
  unfolding view_logs_def Let_def
  by (rule passes_steps passes_from [OF _ list_containers_passes]
      | simp split: option.splits)+

lemma exec_container_passes: "passes w s (exec_container w s)"
  unfolding exec_container_def Let_def
  by (rule passes_steps passes_from [OF _ list_containers_passes]
      | simp split: option.splits)+

lemma system_info_passes: "passes w s (system_info w s)"
  unfolding system_info_def Let_def
  by (rule passes_steps
      | simp split: option.splits)+

lemma disk_usage_passes: "passes w s (disk_usage w s)"
  unfolding disk_usage_def Let_def
  by (rule passes_steps
      | simp split: option.splits)+

lemma system_cleanup_passes: "passes w s (system_cleanup w s)"
  unfolding system_cleanup_def Let_def
  by (rule passes_steps
      | simp split: option.splits)+

lemmas image_ops_pass =
  list_images_passes pull_image_passes build_image_passes remove_image_passes

lemmas container_ops_pass =
  list_containers_passes run_container_passes start_container_passes stop_container_passes
  restart_container_passes remove_container_passes view_logs_passes exec_container_passes

lemmas system_ops_pass = system_info_passes disk_usage_passes system_cleanup_passes

lemma image_menu_choice_passes: "passes w s (image_menu_choice w c s)"
  unfolding image_menu_choice_def
  by (rule passes_steps image_ops_pass | simp)+

lemma image_menu_turn_passes: "passes w s (image_menu_turn w s)"
  unfolding image_menu_turn_def
  by (rule passes_steps image_menu_choice_passes | simp add: show_image_menu_def)+

lemma handle_image_menu_passes: "passes w s (handle_image_menu w s)"
proof (induction w s rule: handle_image_menu.induct)
  case (1 w s)
  show ?case
    apply (subst handle_image_menu.simps)
    apply (rule passes_bind)
     apply (rule image_menu_turn_passes)
    apply (split if_split, intro conjI impI)
     apply (rule passes_Returned, rule refl)
    apply (rule "1.IH"; assumption)
    done
qed

lemma container_menu_choice_passes: "passes w s (container_menu_choice w c s)"
  unfolding container_menu_choice_def
  by (rule passes_steps container_ops_pass | simp)+

lemma container_menu_turn_passes: "passes w s (container_menu_turn w s)"
  unfolding container_menu_turn_def
  by (rule passes_steps container_menu_choice_passes | simp add: show_container_menu_def)+

lemma handle_container_menu_passes: "passes w s (handle_container_menu w s)"
proof (induction w s rule: handle_container_menu.induct)
  case (1 w s)
  show ?case
    apply (subst handle_container_menu.simps)
    apply (rule passes_bind)
     apply (rule container_menu_turn_passes)
    apply (split if_split, intro conjI impI)
     apply (rule passes_Returned, rule refl)
    apply (rule "1.IH"; assumption)
    done
qed

lemma system_menu_choice_passes: "passes w s (system_menu_choice w c s)"
  unfolding system_menu_choice_def
  by (rule passes_steps system_ops_pass | simp)+

lemma system_menu_turn_passes: "passes w s (system_menu_turn w s)"
  unfolding system_menu_turn_def
  by (rule passes_steps system_menu_choice_passes | simp add: show_system_menu_def)+

lemma handle_system_menu_passes: "passes w s (handle_system_menu w s)"
proof (induction w s rule: handle_system_menu.induct)
  case (1 w s)
  show ?case
    apply (subst handle_system_menu.simps)
    apply (rule passes_bind)
     apply (rule system_menu_turn_passes)
    apply (split if_split, intro conjI impI)
     apply (rule passes_Returned, rule refl)
    apply (rule "1.IH"; assumption)
    done
qed

lemma main_turn_passes: "passes w s (main_turn w s)"
  unfolding main_turn_def Let_def
  by (rule passes_steps handle_image_menu_passes handle_container_menu_passes
        handle_system_menu_passes
      | simp add: show_main_menu_def show_header_def)+

lemma main_loop_passes: "passes w s (main_loop w s)"
proof (induction w s rule: main_loop.induct)
  case (1 w s)
  show ?case
    apply (subst main_loop.simps)
    apply (rule passes_bind)
     apply (rule main_turn_passes)
    apply (split if_split, intro conjI impI)
     apply (rule passes_Returned, rule refl)
    apply (rule "1.IH"; assumption)
    done
qed

lemma operations_pass: "op \<in> set operations \<Longrightarrow> passes w s (op w s)"
  unfolding operations_def
  by (auto intro: image_ops_pass container_ops_pass system_ops_pass)

lemma passes_fault:
  assumes "passes w s m"
    and "calls (final m) = calls s @ pre @ c # post"
    and "fault_of (spawn w (calls s @ pre) c) e"
  shows "post = [] \<and> (\<exists>s'. m = Raised e s')"
  using assms unfolding passes_def by blast

subsection \<open>The boundary of the session\<close>

lemma no_exit_Returned [simp]: "no_exit (Returned r s)"
  by (simp add: no_exit_def)

lemma no_exit_input: "no_exit (input p s)"
  by (simp add: no_exit_def input_def Let_def split: list.splits key.splits)

lemma no_exit_subprocess_run: "subprocess_run w m c s \<noteq> Raised SystemExit s'"
  by (simp add: subprocess_run_def Let_def
        split: proc_result.splits mode.splits decoded.splits)

lemma no_exit_run_command: "no_exit (run_command w c s)"
proof (cases "subprocess_run w Captured c s")
  case (Raised e s')
  with no_exit_subprocess_run [of w Captured c s s'] show ?thesis
    by (simp add: no_exit_def run_command_def)
next
  case (Returned r s')
  then show ?thesis
    by (cases r) (simp_all add: no_exit_def run_command_def)
qed

lemma no_exit_run_command_interactive: "no_exit (run_command_interactive w c s)"
proof (cases "subprocess_run w Interactive c s")
  case (Raised e s')
  with no_exit_subprocess_run [of w Interactive c s s'] show ?thesis
    by (simp add: no_exit_def run_command_interactive_def)
next
  case (Returned r s')
  then show ?thesis
    by (cases r) (simp_all add: no_exit_def run_command_interactive_def)
qed

lemma no_exit_bind:
  assumes "no_exit m" and "\<And>r s1. m = Returned r s1 \<Longrightarrow> no_exit (f r s1)"
  shows "no_exit (bind m f)"
proof (cases m)
  case (Raised e s1)
  with assms(1) show ?thesis by (simp add: no_exit_def)
next
  case (Returned r s1)
  with assms(2) [OF Returned] show ?thesis by simp
qed

lemmas no_exit_steps =
  impI conjI allI no_exit_bind no_exit_input no_exit_run_command no_exit_run_command_interactive

lemma list_images_no_exit: "no_exit (list_images w s)"
  unfolding list_images_def Let_def
  by (rule no_exit_steps | simp split: option.splits)+

lemma pull_image_no_exit: "no_exit (pull_image w s)"
  unfolding pull_image_def Let_def
  by (rule no_exit_steps | simp split: option.splits)+

lemma build_image_no_exit: "no_exit (build_image w s)"
  unfolding build_image_def Let_def
  by (rule no_exit_steps | simp split: option.splits)+

lemma remove_image_no_exit: "no_exit (remove_image w s)"
  unfolding remove_image_def Let_def
  by (rule no_exit_steps list_images_no_exit | simp split: option.splits)+

lemma list_containers_no_exit: "no_exit (list_containers w a s)"
  unfolding list_containers_def Let_def
  by (rule no_exit_steps | simp split: option.splits)+

lemma run_container_no_exit: "no_exit (run_container w s)"
  unfolding run_container_def Let_def
  by (rule no_exit_steps | simp split: option.splits)+

lemma start_container_no_exit: "no_exit (start_container w s)"
  unfolding start_container_def Let_def
  by (rule no_exit_steps list_containers_no_exit | simp split: option.splits)+

lemma stop_container_no_exit: "no_exit (stop_container w s)"
  unfolding stop_container_def Let_def
  by (rule no_exit_steps list_containers_no_exit | simp split: option.splits)+

lemma restart_container_no_exit: "no_exit (restart_container w s)"
  unfolding restart_container_def Let_def
  by (rule no_exit_steps list_containers_no_exit | simp split: option.splits)+

lemma remove_container_no_exit: "no_exit (remove_container w s)"
  unfolding remove_container_def Let_def
  by (rule no_exit_steps list_containers_no_exit | simp split: option.splits)+

lemma view_logs_no_exit: "no_exit (view_logs w s)"
  unfolding view_logs_def Let_def
  by (rule no_exit_steps list_containers_no_exit | simp split: option.splits)+

lemma exec_container_no_exit: "no_exit (exec_container w s)"
  unfolding exec_container_def Let_def
  by (rule no_exit_steps list_containers_no_exit | simp split: option.splits)+

lemma system_info_no_exit: "no_exit (system_info w s)"
  unfolding system_info_def Let_def
  by (rule no_exit_steps | simp split: option.splits)+

lemma disk_usage_no_exit: "no_exit (disk_usage w s)"
  unfolding disk_usage_def Let_def
  by (rule no_exit_steps | simp split: option.splits)+

lemma system_cleanup_no_exit: "no_exit (system_cleanup w s)"
  unfolding system_cleanup_def Let_def
  by (rule no_exit_steps | simp split: option.splits)+

lemmas ops_no_exit =
  list_images_no_exit pull_image_no_exit build_image_no_exit remove_image_no_exit
  list_containers_no_exit run_container_no_exit start_container_no_exit stop_container_no_exit
  restart_container_no_exit remove_container_no_exit view_logs_no_exit exec_container_no_exit
  system_info_no_exit disk_usage_no_exit system_cleanup_no_exit

lemma image_menu_choice_no_exit: "no_exit (image_menu_choice w c s)"
  unfolding image_menu_choice_def
  by (rule no_exit_steps ops_no_exit | simp)+

lemma image_menu_turn_no_exit: "no_exit (image_menu_turn w s)"
  unfolding image_menu_turn_def
  by (rule no_exit_steps image_menu_choice_no_exit | simp)+

lemma handle_image_menu_no_exit: "no_exit (handle_image_menu w s)"
proof (induction w s rule: handle_image_menu.induct)
  case (1 w s)
  show ?case
    apply (subst handle_image_menu.simps)
    apply (rule no_exit_bind)
     apply (rule image_menu_turn_no_exit)
    apply (split if_split, intro conjI impI)
     apply (rule no_exit_Returned)
    apply (rule "1.IH"; assumption)
    done
qed

lemma container_menu_choice_no_exit: "no_exit (container_menu_choice w c s)"
  unfolding container_menu_choice_def
  by (rule no_exit_steps ops_no_exit | simp)+

lemma container_menu_turn_no_exit: "no_exit (container_menu_turn w s)"
  unfolding container_menu_turn_def
  by (rule no_exit_steps container_menu_choice_no_exit | simp)+

lemma handle_container_menu_no_exit: "no_exit (handle_container_menu w s)"
proof (induction w s rule: handle_container_menu.induct)
  case (1 w s)
  show ?case
    apply (subst handle_container_menu.simps)
    apply (rule no_exit_bind)
     apply (rule container_menu_turn_no_exit)
    apply (split if_split, intro conjI impI)
     apply (rule no_exit_Returned)
    apply (rule "1.IH"; assumption)
    done
qed

lemma system_menu_choice_no_exit: "no_exit (system_menu_choice w c s)"
  unfolding system_menu_choice_def
  by (rule no_exit_steps ops_no_exit | simp)+

lemma system_menu_turn_no_exit: "no_exit (system_menu_turn w s)"
  unfolding system_menu_turn_def
  by (rule no_exit_steps system_menu_choice_no_exit | simp)+

lemma handle_system_menu_no_exit: "no_exit (handle_system_menu w s)"
proof (induction w s rule: handle_system_menu.induct)
  case (1 w s)
  show ?case
    apply (subst handle_system_menu.simps)
    apply (rule no_exit_bind)
     apply (rule system_menu_turn_no_exit)
    apply (split if_split, intro conjI impI)
     apply (rule no_exit_Returned)
    apply (rule "1.IH"; assumption)
    done
qed

lemma main_turn_no_exit: "no_exit (main_turn w s)"
  unfolding main_turn_def Let_def
  by (rule no_exit_steps handle_image_menu_no_exit handle_container_menu_no_exit
        handle_system_menu_no_exit
      | simp)+

lemma main_loop_no_exit: "no_exit (main_loop w s)"
proof (induction w s rule: main_loop.induct)
  case (1 w s)
  show ?case
    apply (subst main_loop.simps)
    apply (rule no_exit_bind)
     apply (rule main_turn_no_exit)
    apply (split if_split, intro conjI impI)
     apply (rule no_exit_Returned)
    apply (rule "1.IH"; assumption)
    done
qed

lemma run_returns: "\<exists>s'. run w s = Returned () s'"
proof (cases "main_loop w s")
  case (Raised e s1)
  with main_loop_no_exit [of w s] have "e \<noteq> SystemExit"
    by (auto simp: no_exit_def)
  with Raised show ?thesis
    by (cases e) (simp_all add: run_def)
next
  case (Returned r s1)
  then show ?thesis
    by (simp add: run_def)
qed

lemma run_reports_fault:
  "main_loop w s = Raised e s' \<and> (e = FileNotFoundError msg \<or> e = OSError msg) \<longrightarrow>
     run w s = Returned () (print ([10, 10060] @ lit '' Error inesperado: '' @ msg) s')"
  by (auto simp: run_def)

text \<open>
  C4, as stated, fails: no operation catches what the executor raises.  With the
  engine's program gone, \<open>pull_image\<close> raises the \<open>FileNotFoundError\<close> of
  \<open>subprocess.run\<close> to its caller, having printed no line of failure.
\<close>

theorem pull_image_raises_spawn_fault:
  "pull_image (world_of (NoSuchBinary (lit ''No such file or directory'')) False) (terminal [Line (lit ''nginx'')])
     = Raised (FileNotFoundError (lit ''No such file or directory''))
         \<lparr>inputs = [],
            out = [Print ([10, 11015, 65039] @ lit '' DESCARGAR IMAGEN''),
                   Prompt (lit ''Ingresa el nombre de la imagen (ej: nginx:latest): ''),
                   Print (lit ''Descargando imagen: '' @ lit ''nginx'' @ lit ''...'')],
            calls = [(Interactive, [lit ''docker'', lit ''pull'', lit ''nginx''])]\<rparr>"
  by (simp add: pull_image_def run_command_interactive_def input_def concrete_defs)

text \<open>
  C4, amended.  An operation does not map a fault of the executor.  Whenever the
  spawn of an invocation fails (\<open>FileNotFoundError\<close>, or another \<open>OSError\<close>),
  whatever the invocations before it did, that invocation is the last one of the
  operation, and the operation raises that exception unchanged; so does the loop
  of the session through its menus.  The exception is caught at the boundary of
  the session only: \<open>run\<close> prints \<open>Error inesperado:\<close> with the text of the
  exception and returns; \<open>run\<close> raises nothing to its caller, whatever happens.
\<close>

theorem fault_reaches_session_boundary:
  "(op \<in> set operations
      \<and> calls (final (op w s)) = calls s @ pre @ c # post
      \<and> fault_of (spawn w (calls s @ pre) c) e \<longrightarrow>
      post = [] \<and> (\<exists>s'. op w s = Raised e s'))
   \<and> (calls (final (main_loop w s)) = calls s @ pre @ c # post
      \<and> fault_of (spawn w (calls s @ pre) c) e \<longrightarrow>
      post = [] \<and> (\<exists>s'. main_loop w s = Raised e s'))
   \<and> (main_loop w s = Raised e s1 \<and> (e = FileNotFoundError msg \<or> e = OSError msg) \<longrightarrow>
      run w s = Returned () (print ([10, 10060] @ lit '' Error inesperado: '' @ msg) s1))
   \<and> (\<exists>s'. run w s = Returned () s')"
proof (intro conjI impI)
  assume h: "op \<in> set operations
      \<and> calls (final (op w s)) = calls s @ pre @ c # post
      \<and> fault_of (spawn w (calls s @ pre) c) e"
  then have "passes w s (op w s)"
    by (simp add: operations_pass)
  with h passes_fault [of w s "op w s" pre c post e]
  have "post = [] \<and> (\<exists>s'. op w s = Raised e s')"
    by blast
  then show "post = []" and "\<exists>s'. op w s = Raised e s'"
    by simp_all
next
  assume h: "calls (final (main_loop w s)) = calls s @ pre @ c # post
      \<and> fault_of (spawn w (calls s @ pre) c) e"
  with main_loop_passes [of w s] passes_fault [of w s "main_loop w s" pre c post e]
  have "post = [] \<and> (\<exists>s'. main_loop w s = Raised e s')"
    by blast
  then show "post = []" and "\<exists>s'. main_loop w s = Raised e s'"
    by simp_all
next
  assume "main_loop w s = Raised e s1 \<and> (e = FileNotFoundError msg \<or> e = OSError msg)"
  with run_reports_fault [of w s e s1 msg]
  show "run w s = Returned () (print ([10, 10060] @ lit '' Error inesperado: '' @ msg) s1)"
    by blast
next
  show "\<exists>s'. run w s = Returned () s'"
    by (rule run_returns)
qed

theorem fault_reaches_session_boundary_witness:
  "(\<exists>s'. stop_container (world_then (Exit 0 (lit ''ID'') []) (NoSuchBinary (lit ''No such file or directory''))) (terminal [Line (lit ''web'')])
            = Raised (FileNotFoundError (lit ''No such file or directory'')) s')
   \<and> (\<exists>s'. main_loop (world_then (Exit 0 (lit ''ID'') []) (NoSuchBinary (lit ''No such file or directory''))) (terminal [Line (lit ''2''), Line (lit ''5''), Line (lit ''web'')])
            = Raised (FileNotFoundError (lit ''No such file or directory'')) s')
   \<and> run (world_then (Exit 0 (lit ''ID'') []) (NoSuchBinary (lit ''No such file or directory''))) (terminal [Line (lit ''2''), Line (lit ''5''), Line (lit ''web'')])
       = Returned ()
           (print ([10, 10060] @ lit '' Error inesperado: '' @ lit ''No such file or directory'')
              (final (main_loop (world_then (Exit 0 (lit ''ID'') []) (NoSuchBinary (lit ''No such file or directory''))) (terminal [Line (lit ''2''), Line (lit ''5''), Line (lit ''web'')]))))
   \<and> (\<exists>s'. run (world_then (Exit 0 (lit ''ID'') []) (NoSuchBinary (lit ''No such file or directory''))) (terminal [Line (lit ''2''), Line (lit ''5''), Line (lit ''web'')]) = Returned () s')"
proof -
  let ?w = "world_then (Exit 0 (lit ''ID'') []) (NoSuchBinary (lit ''No such file or directory''))"
  let ?e = "FileNotFoundError (lit ''No such file or directory'')"
  let ?pre = "[(Captured,
          [lit ''docker'', lit ''ps'', lit ''-a'', lit ''--format'',
           lit ''table {{.ID}}'' @ [9] @ lit ''{{.Names}}'' @ [9] @ lit ''{{.Image}}''
            @ [9] @ lit ''{{.Status}}'' @ [9] @ lit ''{{.Ports}}''])]"
  let ?c = "(Captured, [lit ''docker'', lit ''stop'', lit ''web''])"
  have f: "fault_of (spawn ?w ([] @ ?pre) ?c) ?e"
    by (simp add: fault_of_def world_then_def)
  have o: "stop_container \<in> set operations"
    by (simp add: operations_def)
  have s: "calls (terminal [Line (lit ''web'')]) = []" "calls (terminal [Line (lit ''2''), Line (lit ''5''), Line (lit ''web'')]) = []"
    by (simp_all add: terminal_def)
  have c1: "calls (final (stop_container ?w (terminal [Line (lit ''web'')]))) = [] @ ?pre @ ?c # []"
    by (simp add: stop_container_def list_containers_def run_command_def input_def concrete_defs)
  have c2: "calls (final (main_loop ?w (terminal [Line (lit ''2''), Line (lit ''5''), Line (lit ''web'')]))) = [] @ ?pre @ ?c # []"
    by (subst main_loop.simps,
        simp add: main_turn_def input_def show_main_menu_def show_header_def prints_out
          concrete_defs,
        subst handle_container_menu.simps,
        simp add: container_menu_turn_def container_menu_choice_def
          stop_container_def list_containers_def run_command_def input_def
          show_container_menu_def prints_out concrete_defs)
  note A = fault_reaches_session_boundary
             [where e = ?e and w = ?w and op = stop_container and s = "terminal [Line (lit ''web'')]"
                and pre = ?pre and c = ?c and post = "[]"]
  note B = fault_reaches_session_boundary
             [where e = ?e and w = ?w and s = "terminal [Line (lit ''2''), Line (lit ''5''), Line (lit ''web'')]" and msg = "lit ''No such file or directory''"
                and pre = ?pre and c = ?c and post = "[]"
                and ?s1.0 = "final (main_loop ?w (terminal [Line (lit ''2''), Line (lit ''5''), Line (lit ''web'')]))"]
  from A f o c1 s have 1: "\<exists>s'. stop_container ?w (terminal [Line (lit ''web'')]) = Raised ?e s'"
    by simp
  from B f c2 s have 2: "\<exists>s'. main_loop ?w (terminal [Line (lit ''2''), Line (lit ''5''), Line (lit ''web'')]) = Raised ?e s'"
    by simp
  then have 3: "main_loop ?w (terminal [Line (lit ''2''), Line (lit ''5''), Line (lit ''web'')]) = Raised ?e (final (main_loop ?w (terminal [Line (lit ''2''), Line (lit ''5''), Line (lit ''web'')])))"
    by auto
  from B 3 have 4: "run ?w (terminal [Line (lit ''2''), Line (lit ''5''), Line (lit ''web'')])
       = Returned () (print ([10, 10060] @ lit '' Error inesperado: '' @ lit ''No such file or directory'')
           (final (main_loop ?w (terminal [Line (lit ''2''), Line (lit ''5''), Line (lit ''web'')]))))"
    by blast
  from B have 5: "\<exists>s'. run ?w (terminal [Line (lit ''2''), Line (lit ''5''), Line (lit ''web'')]) = Returned () s'"
    by blast
  from 1 2 4 5 show ?thesis
    by blast
qed

end
